theory Spec2Isabelle
  imports Complex_Main
begin

section \<open>Values of the host language\<close>

text \<open>
  Request fields and service replies are dynamically typed. \<open>jsval\<close> covers the shapes the
  attendance routes inspect: a missing field, null, booleans, finite numbers and strings.
  Numbers are the finite ones (every number the routes use has passed
  \<^verbatim>\<open>Number.isFinite\<close> or comes from an integer column), so they are modelled as reals.
\<close>

datatype jsval = Undefined | Null | JBool bool | JNum real | JStr string

text \<open>Truthiness of a nullable string: null and the empty string are falsy.\<close>

definition truthy :: "string option \<Rightarrow> bool" where
  "truthy s = (case s of None \<Rightarrow> False | Some v \<Rightarrow> v \<noteq> [])"

text \<open>The string in a nullable string known to be truthy; the empty string otherwise.\<close>

definition text_of :: "string option \<Rightarrow> string" where
  "text_of f = (case f of None \<Rightarrow> [] | Some s \<Rightarrow> s)"

text \<open>\<^verbatim>\<open>PUNCH_TYPES = { IN: "IN", OUT: "OUT" }\<close>\<close>

definition PUNCH_TYPES_IN :: string where
  "PUNCH_TYPES_IN = ''IN''"

definition PUNCH_TYPES_OUT :: string where
  "PUNCH_TYPES_OUT = ''OUT''"

section \<open>The attendance record as the routes see it\<close>

text \<open>
  The object \<^verbatim>\<open>getOrCreateAttendanceRecord\<close> returns: the columns of its read query
  (punch times already rendered by \<^verbatim>\<open>TO_CHAR\<close>), or the literal it builds after an insert.
\<close>

record attendance =
  attendance_id :: int
  date :: string
  punch_in_time :: "string option"
  punch_out_time :: "string option"
  duration :: "string option"
  punch_in_image :: "string option"
  punch_out_image :: "string option"
  latitude_in :: "string option"
  longitude_in :: "string option"
  in_address :: "string option"
  latitude_out :: "string option"
  longitude_out :: "string option"
  out_address :: "string option"
  emp_id :: int
  emp_code :: "string option"
  employee_name :: "string option"
  designation_name :: "string option"
  ward_id :: "int option"
  ward_name :: "string option"

section \<open>Punch legality check\<close>

record validation =
  status :: nat
  error :: string

text \<open>
  \<^verbatim>\<open>validatePunchAttempt(attendance, punchType)\<close>: \<open>None\<close> is the source's \<^verbatim>\<open>null\<close>
  (the attempt is legal); an absent record is \<open>None\<close> in the first argument. The four checks
  are tried in the source's order.
\<close>

definition validatePunchAttempt :: "attendance option \<Rightarrow> string \<Rightarrow> validation option" where
  "validatePunchAttempt att punchType =
     (case att of
        None \<Rightarrow> Some \<lparr>status = 404, error = ''Attendance record not found''\<rparr>
      | Some a \<Rightarrow>
          if punchType = PUNCH_TYPES_IN \<and> truthy (punch_in_time a)
          then Some \<lparr>status = 400, error = ''Already punched in today''\<rparr>
          else if punchType = PUNCH_TYPES_OUT \<and> truthy (punch_out_time a)
          then Some \<lparr>status = 400, error = ''Already punched out today''\<rparr>
          else if punchType = PUNCH_TYPES_OUT \<and> \<not> truthy (punch_in_time a)
          then Some \<lparr>status = 400, error = ''Must punch in first''\<rparr>
          else None)"

text \<open>The names the specification gives to the four failures.\<close>

definition RecordNotFound :: validation where
  "RecordNotFound = \<lparr>status = 404, error = ''Attendance record not found''\<rparr>"

definition AlreadyPunchedIn :: validation where
  "AlreadyPunchedIn = \<lparr>status = 400, error = ''Already punched in today''\<rparr>"

definition AlreadyPunchedOut :: validation where
  "AlreadyPunchedOut = \<lparr>status = 400, error = ''Already punched out today''\<rparr>"

definition PunchInRequired :: validation where
  "PunchInRequired = \<lparr>status = 400, error = ''Must punch in first''\<rparr>"

section \<open>The relational store\<close>

text \<open>
  The schema is not part of the sources; the tables carry the columns the queries of the
  attendance routes name. A table is the list of its rows, and a query returns its rows in
  table order. A timestamp is a number of seconds since the epoch in the session's time zone.
\<close>

type_synonym timestamp = nat

record employee_row =
  e_emp_id :: int
  e_name :: "string option"
  e_emp_code :: "string option"
  e_face_id :: "string option"
  e_face_embedding :: "string option"
  e_designation_id :: "int option"
  e_ward_id :: "int option"

record designation_row =
  d_designation_id :: int
  d_designation_name :: "string option"

record ward_row =
  w_ward_id :: int
  w_ward_name :: "string option"

record attendance_row =
  a_attendance_id :: int
  a_emp_id :: int
  a_date :: string
  a_ward_id :: "int option"
  a_punch_in_time :: "timestamp option"
  a_punch_out_time :: "timestamp option"
  a_duration :: "string option"
  a_punch_in_image :: "string option"
  a_punch_out_image :: "string option"
  a_latitude_in :: "string option"
  a_longitude_in :: "string option"
  a_in_address :: "string option"
  a_latitude_out :: "string option"
  a_longitude_out :: "string option"
  a_out_address :: "string option"
  a_punched_in_by :: "int option"
  a_punched_out_by :: "int option"

text \<open>
  \<open>attendance_id_seq\<close> is the value the store gives to the next inserted row's
  \<^verbatim>\<open>attendance_id\<close> (the insert statement names no id).
\<close>

record database =
  employee :: "employee_row list"
  designation :: "designation_row list"
  wards :: "ward_row list"
  users :: "int list"
  attendance :: "attendance_row list"
  attendance_id_seq :: int

text \<open>The statements the routes send through \<^verbatim>\<open>pool.query\<close>, with their parameters.\<close>

datatype query =
    SelectEmployeeByFace string
  | SelectEmployeeById real
  | UpdateFaceId string int
  | SelectAttendanceJoin int string
  | SelectWard int
  | InsertAttendance int string "int option"
  | SelectEmployeeDetails int
  | SelectAttendanceEmp int
  | SelectFaceEmbedding int
  | SelectUser real
  | UpdateAttendance bool int
  | SelectAttendanceState int

section \<open>Errors\<close>

text \<open>
  A thrown error object: its \<^verbatim>\<open>name\<close>, \<^verbatim>\<open>message\<close>, the \<^verbatim>\<open>statusCode\<close> and
  \<^verbatim>\<open>details\<close> the routes attach, and \<^verbatim>\<open>$metadata.httpStatusCode\<close> of a service error.
\<close>

record js_error =
  err_name :: string
  message :: string
  statusCode :: "nat option"
  details :: "string option"
  httpStatusCode :: "nat option"

definition Error :: "string \<Rightarrow> js_error" where
  "Error m = \<lparr>err_name = ''Error'', message = m, statusCode = None, details = None,
              httpStatusCode = None\<rparr>"

section \<open>External collaborators\<close>

type_synonym buffer = "nat list"

record upload_result =
  url :: "string option"
  key :: "string option"

record bounding_box =
  Width :: real
  Height :: real
  Left :: real
  Top :: real

record crop_region =
  left :: real
  crop_top :: real
  width :: real
  height :: real

record face =
  FaceId :: "string option"
  ExternalImageId :: "string option"

record face_match =
  Similarity :: "real option"
  Face :: "face option"

text \<open>
  Everything the routes call that is not in the sources, taken as parameters: the process
  environment, the object store upload, the recognition service, the image library, the
  clock, the number conversions of the language, and the store's refusal of a statement
  (\<open>db_fails\<close> returns the error a statement is rejected with, if it is rejected: a lost
  connection, a constraint of the schema). The numbers of the language are IEEE 754
  doubles, modelled by the reals they denote; \<open>js_times\<close> is the language's product of two
  of them, which rounds to the nearest double.
\<close>

record env =
  AWS_S3_BUCKET :: "string option"
  REKOGNITION_COLLECTION :: "string option"
  REKOGNITION_COLLECTION_ID :: "string option"
  FACE_MATCH_THRESHOLD :: "string option"
  js_Number :: "string \<Rightarrow> real option"
  num_to_string :: "real \<Rightarrow> string"
  toFixed2 :: "real \<Rightarrow> string"
  js_times :: "real \<Rightarrow> real \<Rightarrow> real"
  url_pathname :: "string \<Rightarrow> string option"
  decodeURIComponent :: "string \<Rightarrow> string option"
  uploadAttendanceImage :: "buffer \<Rightarrow> string \<Rightarrow> js_error + upload_result option"
  compareFaces :: "string \<Rightarrow> string \<Rightarrow> string \<Rightarrow> real \<Rightarrow> js_error + real option list option"
  searchFacesByImage :: "string \<Rightarrow> buffer \<Rightarrow> nat \<Rightarrow> real \<Rightarrow> js_error + face_match list option"
  detectFaces :: "buffer \<Rightarrow> js_error + bounding_box option list option"
  createCollection :: "string \<Rightarrow> js_error + unit"
  sharp_metadata :: "buffer \<Rightarrow> js_error + real option \<times> real option"
  sharp_extract :: "buffer \<Rightarrow> crop_region \<Rightarrow> js_error + buffer"
  db_fails :: "database \<Rightarrow> query \<Rightarrow> js_error option"
  today :: string
  now :: timestamp

text \<open>One \<^verbatim>\<open>pool.query\<close>: the statement is refused, or it yields what it computes.\<close>

definition run :: "env \<Rightarrow> database \<Rightarrow> query \<Rightarrow> 'a \<Rightarrow> js_error + 'a" where
  "run ev db q v = (case db_fails ev db q of Some e \<Rightarrow> Inl e | None \<Rightarrow> Inr v)"

section \<open>Utility helpers\<close>

text \<open>
  Strings are ASCII here: \<^verbatim>\<open>trim\<close> strips blanks, tabs and line breaks,
  \<^verbatim>\<open>toLowerCase\<close> and \<^verbatim>\<open>toUpperCase\<close> map the 26 letters.
\<close>

definition is_space :: "char \<Rightarrow> bool" where
  "is_space c = (c \<in> set [CHR '' '', CHR 0x09, CHR 0x0A, CHR 0x0B, CHR 0x0C, CHR 0x0D])"

definition trim :: "string \<Rightarrow> string" where
  "trim s = rev (dropWhile is_space (rev (dropWhile is_space s)))"

definition lower_letters :: string where
  "lower_letters = ''abcdefghijklmnopqrstuvwxyz''"

definition upper_letters :: string where
  "upper_letters = ''ABCDEFGHIJKLMNOPQRSTUVWXYZ''"

definition toLowerCase :: "string \<Rightarrow> string" where
  "toLowerCase s =
     map (\<lambda>c. case map_of (zip upper_letters lower_letters) c of Some d \<Rightarrow> d | None \<Rightarrow> c) s"

definition toUpperCase :: "string \<Rightarrow> string" where
  "toUpperCase s =
     map (\<lambda>c. case map_of (zip lower_letters upper_letters) c of Some d \<Rightarrow> d | None \<Rightarrow> c) s"

fun is_prefix :: "string \<Rightarrow> string \<Rightarrow> bool" where
  "is_prefix [] s = True"
| "is_prefix (p # ps) [] = False"
| "is_prefix (p # ps) (c # cs) = (p = c \<and> is_prefix ps cs)"

text \<open>\<^verbatim>\<open>s.includes(p)\<close>\<close>

fun str_includes :: "string \<Rightarrow> string \<Rightarrow> bool" where
  "str_includes [] p = (p = [])"
| "str_includes (c # cs) p = (is_prefix p (c # cs) \<or> str_includes cs p)"

text \<open>\<^verbatim>\<open>Number(value)\<close> where it is finite; \<open>None\<close> stands for NaN and the infinities.\<close>

definition Number :: "env \<Rightarrow> jsval \<Rightarrow> real option" where
  "Number ev v =
     (case v of
        Undefined \<Rightarrow> None
      | Null \<Rightarrow> Some 0
      | JBool b \<Rightarrow> Some (if b then 1 else 0)
      | JNum r \<Rightarrow> Some r
      | JStr s \<Rightarrow> js_Number ev s)"

text \<open>\<^verbatim>\<open>value.toString()\<close> for a value that is neither undefined nor null.\<close>

definition toString :: "env \<Rightarrow> jsval \<Rightarrow> string" where
  "toString ev v =
     (case v of
        JStr s \<Rightarrow> s
      | JNum r \<Rightarrow> num_to_string ev r
      | JBool b \<Rightarrow> (if b then ''true'' else ''false'')
      | _ \<Rightarrow> [])"

text \<open>A text field of a multipart body: absent, or a string.\<close>

definition field :: "string option \<Rightarrow> jsval" where
  "field f = (case f of None \<Rightarrow> Undefined | Some s \<Rightarrow> JStr s)"

definition resolveCollectionId :: "env \<Rightarrow> string option" where
  "resolveCollectionId ev =
     (let a = trim (case REKOGNITION_COLLECTION ev of None \<Rightarrow> [] | Some s \<Rightarrow> s);
          b = trim (case REKOGNITION_COLLECTION_ID ev of None \<Rightarrow> [] | Some s \<Rightarrow> s);
          ident = (if a \<noteq> [] then a else b)
      in if ident \<noteq> [] then Some ident else None)"

text \<open>
  \<^verbatim>\<open>ensureCollectionExists\<close> reads and sets the module's flag \<^verbatim>\<open>faceCollectionReady\<close>;
  the flag is passed in and returned.
\<close>

definition ensureCollectionExists :: "env \<Rightarrow> bool \<Rightarrow> string \<Rightarrow> (js_error + unit) \<times> bool" where
  "ensureCollectionExists ev faceCollectionReady collectionId =
     (if faceCollectionReady then (Inr (), faceCollectionReady)
      else case createCollection ev collectionId of
             Inl e \<Rightarrow>
               if err_name e \<noteq> ''ResourceAlreadyExistsException''
               then (Inl e, faceCollectionReady)
               else (Inr (), True)
           | Inr _ \<Rightarrow> (Inr (), True))"

definition normalizeId :: "env \<Rightarrow> jsval \<Rightarrow> real option" where
  "normalizeId ev v =
     (case v of
        Undefined \<Rightarrow> None
      | Null \<Rightarrow> None
      | JNum r \<Rightarrow> Some r
      | _ \<Rightarrow> Number ev v)"

definition GROUP_MODE_KEYWORDS :: "string list" where
  "GROUP_MODE_KEYWORDS =
     [''group'', ''groups'', ''groupattendance'', ''groupmode'', ''bulk'', ''multi'',
      ''multiple'', ''multiface'', ''multifaces'', ''multifacemode'']"

definition isGroupModeValue :: "env \<Rightarrow> jsval \<Rightarrow> bool" where
  "isGroupModeValue ev v =
     (case v of
        Undefined \<Rightarrow> False
      | Null \<Rightarrow> False
      | JBool b \<Rightarrow> b
      | _ \<Rightarrow>
          (let normalized = toLowerCase (trim (toString ev v)) in
           if normalized = [] then False
           else if normalized = ''1'' \<or> normalized = ''true'' \<or> normalized = ''yes'' then True
           else (let condensed = filter (\<lambda>c. c \<in> set lower_letters) normalized
                 in condensed \<in> set GROUP_MODE_KEYWORDS)))"

definition isGroupModeRequest :: "env \<Rightarrow> jsval list \<Rightarrow> bool" where
  "isGroupModeRequest ev rawValues = list_ex (isGroupModeValue ev) rawValues"

text \<open>\<^verbatim>\<open>Math.round\<close>: the nearest integer, halves upwards.\<close>

definition Math_round :: "real \<Rightarrow> real" where
  "Math_round x = of_int \<lfloor>x + 1 / 2\<rfloor>"

text \<open>
  \<^verbatim>\<open>computeCropRegion(boundingBox, imageWidth, imageHeight, paddingRatio)\<close>. The products
  of a ratio and a length are the language's (\<open>js_times\<close>); the sums and differences are
  between whole numbers of pixels, where doubles are exact.
\<close>

definition computeCropRegion ::
  "env \<Rightarrow> bounding_box option \<Rightarrow> real \<Rightarrow> real \<Rightarrow> real \<Rightarrow> crop_region option" where
  "computeCropRegion ev boundingBox imageWidth imageHeight paddingRatio =
     (case boundingBox of
        None \<Rightarrow> None
      | Some bb \<Rightarrow>
          if imageWidth \<le> 0 \<or> imageHeight \<le> 0 then None
          else
            (let baseWidth = max (Math_round (js_times ev (Width bb) imageWidth)) 1;
                 baseHeight = max (Math_round (js_times ev (Height bb) imageHeight)) 1;
                 padX = Math_round (js_times ev baseWidth paddingRatio);
                 padY = Math_round (js_times ev baseHeight paddingRatio);
                 l = max (Math_round (js_times ev (Left bb) imageWidth) - padX) 0;
                 t = max (Math_round (js_times ev (Top bb) imageHeight) - padY) 0;
                 w = min (imageWidth - l) (baseWidth + padX * 2);
                 h = min (imageHeight - t) (baseHeight + padY * 2)
             in if w \<le> 0 \<or> h \<le> 0 then None
                else Some \<lparr>left = l, crop_top = t, width = w, height = h\<rparr>))"

section \<open>Identity resolver\<close>

text \<open>The two columns \<^verbatim>\<open>SELECT emp_id, name FROM employee\<close> returns.\<close>

record employee_record =
  er_emp_id :: int
  er_name :: "string option"

definition select_employee_by_face :: "database \<Rightarrow> string \<Rightarrow> employee_record list" where
  "select_employee_by_face db f =
     [\<lparr>er_emp_id = e_emp_id e, er_name = e_name e\<rparr>. e \<leftarrow> employee db, e_face_id e = Some f]"

definition select_employee_by_id :: "database \<Rightarrow> real \<Rightarrow> employee_record list" where
  "select_employee_by_id db x =
     [\<lparr>er_emp_id = e_emp_id e, er_name = e_name e\<rparr>. e \<leftarrow> employee db, of_int (e_emp_id e) = x]"

text \<open>
  \<^verbatim>\<open>UPDATE employee SET face_id = $1 WHERE emp_id = $2 AND (face_id IS NULL OR face_id <> $1)\<close>
\<close>

definition update_face_id :: "database \<Rightarrow> string \<Rightarrow> int \<Rightarrow> database" where
  "update_face_id db f eid =
     db\<lparr>employee :=
          map (\<lambda>e. if e_emp_id e = eid \<and> (e_face_id e = None \<or> e_face_id e \<noteq> Some f)
                    then e\<lparr>e_face_id := Some f\<rparr> else e)
              (employee db)\<rparr>"

definition tryResolveByEmpId ::
  "env \<Rightarrow> database \<Rightarrow> real option \<Rightarrow> js_error + employee_record option" where
  "tryResolveByEmpId ev db empId =
     (case empId of
        None \<Rightarrow> Inr None
      | Some x \<Rightarrow>
          (case run ev db (SelectEmployeeById x) (select_employee_by_id db x) of
             Inl e \<Rightarrow> Inl e
           | Inr rows \<Rightarrow> Inr (case rows of [] \<Rightarrow> None | r # _ \<Rightarrow> Some r)))"

text \<open>
  \<^verbatim>\<open>resolveEmployeeFromFaceIdentifiers({ faceId, matchedExternalId, requestedEmpId })\<close>,
  in its three steps. First the lookup by \<^verbatim>\<open>face_id\<close>, run only for a truthy
  \<^verbatim>\<open>faceId\<close>.
\<close>

definition lookupByFaceId ::
  "env \<Rightarrow> database \<Rightarrow> string option \<Rightarrow> js_error + employee_record list" where
  "lookupByFaceId ev db faceId =
     (case faceId of
        None \<Rightarrow> Inr []
      | Some f \<Rightarrow>
          if f = [] then Inr []
          else run ev db (SelectEmployeeByFace f) (select_employee_by_face db f))"

text \<open>
  Last the cache write for a record found by employee id, inside the source's try/catch:
  when the store refuses the update, the error is logged and nothing else happens.
\<close>

definition cacheFaceId :: "env \<Rightarrow> database \<Rightarrow> string option \<Rightarrow> employee_record \<Rightarrow> database" where
  "cacheFaceId ev db faceId er =
     (case faceId of
        None \<Rightarrow> db
      | Some f \<Rightarrow>
          if f = [] then db
          else (case db_fails ev db (UpdateFaceId f (er_emp_id er)) of
                  Some _ \<Rightarrow> db
                | None \<Rightarrow> update_face_id db f (er_emp_id er)))"

text \<open>The result is the value returned (or the error thrown) and the store afterwards.\<close>

definition resolveEmployeeFromFaceIdentifiers ::
  "env \<Rightarrow> database \<Rightarrow> string option \<Rightarrow> real option \<Rightarrow> real option \<Rightarrow>
   (js_error + employee_record option) \<times> database" where
  "resolveEmployeeFromFaceIdentifiers ev db faceId matchedExternalId requestedEmpId =
     (case lookupByFaceId ev db faceId of
        Inl e \<Rightarrow> (Inl e, db)
      | Inr (r # _) \<Rightarrow> (Inr (Some r), db)
      | Inr [] \<Rightarrow>
          (case (if matchedExternalId \<noteq> None then tryResolveByEmpId ev db matchedExternalId
                 else Inr None) of
             Inl e \<Rightarrow> (Inl e, db)
           | Inr rec1 \<Rightarrow>
               (case (if rec1 = None \<and> requestedEmpId \<noteq> None
                      then tryResolveByEmpId ev db requestedEmpId else Inr rec1) of
                  Inl e \<Rightarrow> (Inl e, db)
                | Inr employeeRecord \<Rightarrow>
                    (case employeeRecord of
                       None \<Rightarrow> (Inr None, db)
                     | Some er \<Rightarrow> (Inr (Some er), cacheFaceId ev db faceId er)))))"

section \<open>Error classifier\<close>

record error_payload =
  pl_error :: string
  pl_details :: "string option"
  suggestion :: "string option"
  solution :: "string option"

definition mapRekognitionError :: "js_error \<Rightarrow> nat \<times> error_payload" where
  "mapRekognitionError e =
     (let msg = (if message e \<noteq> [] then message e else ''Face recognition failed'');
          lower = toLowerCase msg
      in if str_includes lower ''no faces'' \<or> str_includes lower ''no face''
         then (422, \<lparr>pl_error = ''No face detected in the image'', pl_details = Some msg,
                 suggestion = Some ''Ensure the employee's face is centered and well lit, then retry.'',
                 solution = None\<rparr>)
         else if err_name e = ''ResourceNotFoundException''
         then (500, \<lparr>pl_error = ''Rekognition collection not found'', pl_details = Some msg,
                 suggestion = None,
                 solution = Some ''Recreate the collection or verify REKOGNITION_COLLECTION in the backend .env file.''\<rparr>)
         else ((case httpStatusCode e of None \<Rightarrow> 500 | Some c \<Rightarrow> if c = 0 then 500 else c),
               \<lparr>pl_error = ''Face recognition failed'', pl_details = Some msg,
                suggestion = None, solution = None\<rparr>))"

text \<open>
  \<^verbatim>\<open>DEFAULT_FACE_MATCH_THRESHOLD\<close>: \<^verbatim>\<open>Number(process.env.FACE_MATCH_THRESHOLD ?? "90")\<close>
  when finite, else 90.
\<close>

definition DEFAULT_FACE_MATCH_THRESHOLD :: "env \<Rightarrow> real" where
  "DEFAULT_FACE_MATCH_THRESHOLD ev =
     (case js_Number ev (case FACE_MATCH_THRESHOLD ev of None \<Rightarrow> ''90'' | Some s \<Rightarrow> s) of
        Some t \<Rightarrow> t
      | None \<Rightarrow> 90)"

section \<open>Attendance record store\<close>

text \<open>\<^verbatim>\<open>TO_CHAR(t, 'HH12:MI AM')\<close>: the hour on the 12-hour clock, the minute, the meridiem.\<close>

definition digit :: "nat \<Rightarrow> char" where
  "digit d = ''0123456789'' ! (d mod 10)"

definition two_digits :: "nat \<Rightarrow> string" where
  "two_digits n = [digit (n div 10), digit n]"

definition to_char_hh12_mi_am :: "timestamp \<Rightarrow> string" where
  "to_char_hh12_mi_am t =
     (let hour24 = (t div 3600) mod 24;
          minute = (t div 60) mod 60;
          hour12 = (if hour24 mod 12 = 0 then 12 else hour24 mod 12)
      in two_digits hour12 @ '':'' @ two_digits minute @ '' '' @
         (if hour24 < 12 then ''AM'' else ''PM''))"

text \<open>
  The read query of \<^verbatim>\<open>getOrCreateAttendanceRecord\<close>: attendance joined (inner joins) with
  employee, designation and wards, for one employee and date.
\<close>

definition attendance_view ::
  "attendance_row \<Rightarrow> employee_row \<Rightarrow> designation_row \<Rightarrow> ward_row \<Rightarrow> attendance" where
  "attendance_view a e d w =
     \<lparr>attendance_id = a_attendance_id a,
      date = a_date a,
      punch_in_time = map_option to_char_hh12_mi_am (a_punch_in_time a),
      punch_out_time = map_option to_char_hh12_mi_am (a_punch_out_time a),
      duration = a_duration a,
      punch_in_image = a_punch_in_image a,
      punch_out_image = a_punch_out_image a,
      latitude_in = a_latitude_in a,
      longitude_in = a_longitude_in a,
      in_address = a_in_address a,
      latitude_out = a_latitude_out a,
      longitude_out = a_longitude_out a,
      out_address = a_out_address a,
      emp_id = e_emp_id e,
      emp_code = e_emp_code e,
      employee_name = e_name e,
      designation_name = d_designation_name d,
      ward_id = Some (w_ward_id w),
      ward_name = w_ward_name w\<rparr>"

definition select_attendance_join :: "database \<Rightarrow> int \<Rightarrow> string \<Rightarrow> attendance list" where
  "select_attendance_join db emp dt =
     [attendance_view a e d w.
        a \<leftarrow> attendance db, a_emp_id a = emp \<and> a_date a = dt,
        e \<leftarrow> employee db, a_emp_id a = e_emp_id e,
        d \<leftarrow> designation db, e_designation_id e = Some (d_designation_id d),
        w \<leftarrow> wards db, e_ward_id e = Some (w_ward_id w)]"

text \<open>\<^verbatim>\<open>SELECT ward_id from employee e where e.emp_id = $1\<close>\<close>

definition select_ward :: "database \<Rightarrow> int \<Rightarrow> int option list" where
  "select_ward db emp = [e_ward_id e. e \<leftarrow> employee db, e_emp_id e = emp]"

text \<open>
  \<^verbatim>\<open>INSERT INTO attendance (emp_id, date, ward_id) VALUES ($1, $2::date, $3)\<close>: the new row,
  every other column null, and the store with the row added.
\<close>

definition new_attendance_row :: "database \<Rightarrow> int \<Rightarrow> string \<Rightarrow> int option \<Rightarrow> attendance_row" where
  "new_attendance_row db emp dt w =
     \<lparr>a_attendance_id = attendance_id_seq db, a_emp_id = emp, a_date = dt, a_ward_id = w,
      a_punch_in_time = None, a_punch_out_time = None, a_duration = None,
      a_punch_in_image = None, a_punch_out_image = None,
      a_latitude_in = None, a_longitude_in = None, a_in_address = None,
      a_latitude_out = None, a_longitude_out = None, a_out_address = None,
      a_punched_in_by = None, a_punched_out_by = None\<rparr>"

definition insert_attendance :: "database \<Rightarrow> int \<Rightarrow> string \<Rightarrow> int option \<Rightarrow> database" where
  "insert_attendance db emp dt w =
     db\<lparr>attendance := attendance db @ [new_attendance_row db emp dt w],
        attendance_id_seq := attendance_id_seq db + 1\<rparr>"

text \<open>The employee details query run after the insert; same joins as the read query.\<close>

definition select_employee_details ::
  "database \<Rightarrow> int \<Rightarrow> (string option \<times> string option \<times> string option \<times> string option) list" where
  "select_employee_details db emp =
     [(e_emp_code e, e_name e, d_designation_name d, w_ward_name w).
        e \<leftarrow> employee db, e_emp_id e = emp,
        d \<leftarrow> designation db, e_designation_id e = Some (d_designation_id d),
        w \<leftarrow> wards db, e_ward_id e = Some (w_ward_id w)]"

text \<open>
  \<^verbatim>\<open>getOrCreateAttendanceRecord(emp_id, date)\<close>. The employee id is a number; the guard
  \<^verbatim>\<open>!emp_id\<close> rejects 0. The statements run one by one, outside any transaction: an
  error raised after the insert leaves the inserted row in the store.
\<close>

definition getOrCreateAttendanceRecord ::
  "env \<Rightarrow> database \<Rightarrow> int \<Rightarrow> string \<Rightarrow> (js_error + attendance) \<times> database" where
  "getOrCreateAttendanceRecord ev db emp dt =
     (if emp = 0 then (Inl (Error ''Employee ID is required''), db)
      else
        case run ev db (SelectAttendanceJoin emp dt) (select_attendance_join db emp dt) of
          Inl e \<Rightarrow> (Inl e, db)
        | Inr (r # _) \<Rightarrow> (Inr r, db)
        | Inr [] \<Rightarrow>
            (case run ev db (SelectWard emp) (select_ward db emp) of
               Inl e \<Rightarrow> (Inl e, db)
             | Inr wardDetail \<Rightarrow>
                 (let w = (case wardDetail of [] \<Rightarrow> None | x # _ \<Rightarrow> x) in
                  case db_fails ev db (InsertAttendance emp dt w) of
                    Some e \<Rightarrow> (Inl e, db)
                  | None \<Rightarrow>
                      (let db' = insert_attendance db emp dt w;
                           att = \<lparr>attendance_id = a_attendance_id (new_attendance_row db emp dt w),
                                  date = dt, punch_in_time = None, punch_out_time = None,
                                  duration = None, punch_in_image = None, punch_out_image = None,
                                  latitude_in = None, longitude_in = None, in_address = None,
                                  latitude_out = None, longitude_out = None, out_address = None,
                                  emp_id = emp, emp_code = None, employee_name = None,
                                  designation_name = None,
                                  ward_id = a_ward_id (new_attendance_row db emp dt w),
                                  ward_name = None\<rparr>
                       in case run ev db' (SelectEmployeeDetails emp)
                                 (select_employee_details db' emp) of
                            Inl e \<Rightarrow> (Inl e, db')
                          | Inr [] \<Rightarrow> (Inr att, db')
                          | Inr ((c, n, dn, wn) # _) \<Rightarrow>
                              (Inr (att\<lparr>emp_code := c, employee_name := n,
                                        designation_name := dn, ward_name := wn\<rparr>), db')))))"

section \<open>Face verification\<close>

definition resolveS3ObjectKey :: "env \<Rightarrow> string option \<Rightarrow> string option" where
  "resolveS3ObjectKey ev reference =
     (case reference of
        None \<Rightarrow> None
      | Some r \<Rightarrow>
          if r = [] then None
          else if str_includes r ''://''
          then (case url_pathname ev r of
                  None \<Rightarrow> None
                | Some pathname \<Rightarrow>
                    decodeURIComponent ev (dropWhile (\<lambda>c. c = CHR ''/'') pathname))
          else Some (dropWhile (\<lambda>c. c = CHR ''/'') r))"

text \<open>\<^verbatim>\<open>SELECT emp_id FROM attendance WHERE attendance_id = $1\<close>\<close>

definition select_attendance_emp :: "database \<Rightarrow> int \<Rightarrow> int list" where
  "select_attendance_emp db aid = [a_emp_id a. a \<leftarrow> attendance db, a_attendance_id a = aid]"

definition resolveAttendanceEmployeeId :: "env \<Rightarrow> database \<Rightarrow> int \<Rightarrow> int option" where
  "resolveAttendanceEmployeeId ev db attendanceId =
     (if attendanceId = 0 then None
      else case run ev db (SelectAttendanceEmp attendanceId)
                  (select_attendance_emp db attendanceId) of
             Inl _ \<Rightarrow> None
           | Inr rows \<Rightarrow> (case rows of [] \<Rightarrow> None | x # _ \<Rightarrow> Some x))"

text \<open>\<^verbatim>\<open>SELECT face_embedding FROM employee WHERE emp_id = $1\<close>\<close>

definition select_face_embedding :: "database \<Rightarrow> int \<Rightarrow> string option list" where
  "select_face_embedding db emp = [e_face_embedding e. e \<leftarrow> employee db, e_emp_id e = emp]"

record face_match_meta =
  similarity :: real
  threshold :: real

definition with_status :: "js_error \<Rightarrow> nat \<Rightarrow> js_error" where
  "with_status e c = e\<lparr>statusCode := Some c\<rparr>"

text \<open>The error \<^verbatim>\<open>ensureFaceMatch\<close> throws on a mismatch, with the score and the threshold
  written into its details.\<close>

definition face_mismatch_error :: "env \<Rightarrow> real \<Rightarrow> real \<Rightarrow> js_error" where
  "face_mismatch_error ev sim thr =
     (with_status (Error ''Captured face does not match enrolled face'') 401)
       \<lparr>details := Some (''Similarity '' @ toFixed2 ev sim @ ''% below threshold '' @
                          num_to_string ev thr @ ''%'')\<rparr>"

text \<open>
  A comparison reply is its list \<^verbatim>\<open>FaceMatches\<close> (absent, or the matches, each with
  its \<^verbatim>\<open>Similarity\<close> if it has one). \<^verbatim>\<open>compareResponse?.FaceMatches?.[0]\<close> and
  \<^verbatim>\<open>bestMatch?.Similarity ?? 0\<close>:
\<close>

definition bestMatchOf :: "real option list option \<Rightarrow> real option option" where
  "bestMatchOf compareResponse =
     (case compareResponse of None \<Rightarrow> None | Some [] \<Rightarrow> None | Some (m # _) \<Rightarrow> Some m)"

definition similarityOf :: "real option option \<Rightarrow> real" where
  "similarityOf bestMatch =
     (case bestMatch of None \<Rightarrow> 0 | Some None \<Rightarrow> 0 | Some (Some x) \<Rightarrow> x)"

text \<open>
  \<^verbatim>\<open>ensureFaceMatch(employeeId, attendanceKey, threshold)\<close>: \<open>Inr None\<close> is the
  \<^verbatim>\<open>null\<close> returned when no bucket is configured.
\<close>

definition ensureFaceMatch ::
  "env \<Rightarrow> database \<Rightarrow> int option \<Rightarrow> string \<Rightarrow> real \<Rightarrow> js_error + face_match_meta option" where
  "ensureFaceMatch ev db employeeId attendanceKey thr =
     (case AWS_S3_BUCKET ev of
        None \<Rightarrow> Inr None
      | Some bucket \<Rightarrow>
          if bucket = [] then Inr None
          else
            (case employeeId of
               None \<Rightarrow>
                 Inl (with_status (Error ''Unable to determine employee for attendance record'') 400)
             | Some emp \<Rightarrow>
                 if emp = 0
                 then Inl (with_status (Error ''Unable to determine employee for attendance record'') 400)
                 else
                   (case run ev db (SelectFaceEmbedding emp) (select_face_embedding db emp) of
                      Inl e \<Rightarrow> Inl e
                    | Inr [] \<Rightarrow>
                        Inl (with_status (Error ''Employee not found for face verification'') 404)
                    | Inr (faceEmbedding # _) \<Rightarrow>
                        if \<not> truthy faceEmbedding
                        then Inl ((with_status (Error ''Employee face enrollment is missing'') 412)
                                    \<lparr>details := Some ''Ask the employee to store their face before marking attendance.''\<rparr>)
                        else
                          (case resolveS3ObjectKey ev faceEmbedding of
                             None \<Rightarrow>
                               Inl (with_status (Error ''Unable to resolve stored face image'') 500)
                           | Some faceKey \<Rightarrow>
                               if faceKey = []
                               then Inl (with_status (Error ''Unable to resolve stored face image'') 500)
                               else
                                 (case compareFaces ev bucket faceKey attendanceKey thr of
                                    Inl e \<Rightarrow>
                                      Inl (with_status e
                                             (case httpStatusCode e of
                                                None \<Rightarrow> 500
                                              | Some c \<Rightarrow> if c = 0 then 500 else c))
                                  | Inr compareResponse \<Rightarrow>
                                      (let bestMatch = bestMatchOf compareResponse;
                                           sim = similarityOf bestMatch
                                       in if bestMatch = None \<or> sim < thr
                                          then Inl (face_mismatch_error ev sim thr)
                                          else Inr (Some \<lparr>similarity = sim, threshold = thr\<rparr>)))))))"

section \<open>Punch processor\<close>

record location =
  latitude :: string
  longitude :: string
  address :: string

record punch_options =
  employeeId :: "int option"
  requireFaceMatch :: bool
  faceMatchThreshold :: "real option"

text \<open>The row \<^verbatim>\<open>RETURNING *\<close> yields, with the face match attached when there is one.\<close>

record punch_record =
  row :: attendance_row
  face_similarity :: "real option"
  face_match_threshold :: "real option"

text \<open>\<^verbatim>\<open>SELECT user_id FROM users WHERE user_id = $1\<close>\<close>

definition select_user :: "database \<Rightarrow> real \<Rightarrow> int list" where
  "select_user db x = [u. u \<leftarrow> users db, of_int u = x]"

definition resolvePunchActor :: "env \<Rightarrow> database \<Rightarrow> jsval \<Rightarrow> int option" where
  "resolvePunchActor ev db rawUserId =
     (case normalizeId ev rawUserId of
        None \<Rightarrow> None
      | Some normalized \<Rightarrow>
          (case run ev db (SelectUser normalized) (select_user db normalized) of
             Inl _ \<Rightarrow> None
           | Inr rows \<Rightarrow> (case rows of [] \<Rightarrow> None | u # _ \<Rightarrow> Some u)))"

text \<open>
  The update statement of \<^verbatim>\<open>processPunch\<close>: the columns are those of punch-in when
  \<open>isPunchIn\<close>, of punch-out otherwise; every row with the id is updated.
\<close>

definition punch_row ::
  "bool \<Rightarrow> timestamp \<Rightarrow> location \<Rightarrow> string option \<Rightarrow> int option \<Rightarrow> attendance_row \<Rightarrow>
   attendance_row" where
  "punch_row isPunchIn t loc imageUrl actor a =
     (if isPunchIn
      then a\<lparr>a_punch_in_time := Some t,
             a_latitude_in := Some (latitude loc),
             a_longitude_in := Some (longitude loc),
             a_in_address := Some (address loc),
             a_punch_in_image := imageUrl,
             a_punched_in_by := actor\<rparr>
      else a\<lparr>a_punch_out_time := Some t,
             a_latitude_out := Some (latitude loc),
             a_longitude_out := Some (longitude loc),
             a_out_address := Some (address loc),
             a_punch_out_image := imageUrl,
             a_punched_out_by := actor\<rparr>)"

definition update_attendance ::
  "database \<Rightarrow> bool \<Rightarrow> timestamp \<Rightarrow> location \<Rightarrow> string option \<Rightarrow> int option \<Rightarrow> int \<Rightarrow>
   database" where
  "update_attendance db isPunchIn t loc imageUrl actor aid =
     db\<lparr>attendance :=
          map (\<lambda>a. if a_attendance_id a = aid then punch_row isPunchIn t loc imageUrl actor a
                    else a)
              (attendance db)\<rparr>"

definition attendance_file_name :: "env \<Rightarrow> int \<Rightarrow> string \<Rightarrow> string" where
  "attendance_file_name ev attendanceId punchType =
     ''attendance_'' @ num_to_string ev (of_int attendanceId) @ ''_'' @ punchType @ ''.jpg''"

text \<open>
  \<^verbatim>\<open>explicitEmployeeId ?? (await resolveAttendanceEmployeeId(attendanceId))\<close>
\<close>

definition resolvedEmployeeId :: "env \<Rightarrow> database \<Rightarrow> int \<Rightarrow> punch_options \<Rightarrow> int option" where
  "resolvedEmployeeId ev db attendanceId options =
     (case employeeId options of
        Some i \<Rightarrow> Some i
      | None \<Rightarrow> resolveAttendanceEmployeeId ev db attendanceId)"

definition truthy_id :: "int option \<Rightarrow> bool" where
  "truthy_id i = (case i of None \<Rightarrow> False | Some n \<Rightarrow> n \<noteq> 0)"

text \<open>
  \<^verbatim>\<open>processPunch(attendanceId, punchType, imageFile, userId, locationData, options)\<close>,
  in its three steps. First the evidence upload, when there is an image.
\<close>

definition uploadEvidence ::
  "env \<Rightarrow> int \<Rightarrow> string \<Rightarrow> buffer option \<Rightarrow> js_error + upload_result option" where
  "uploadEvidence ev attendanceId punchType imageFile =
     (case imageFile of
        None \<Rightarrow> Inr None
      | Some buf \<Rightarrow>
          uploadAttendanceImage ev buf (attendance_file_name ev attendanceId punchType))"

text \<open>
  Then the guard around \<^verbatim>\<open>ensureFaceMatch\<close>: the value of \<^verbatim>\<open>faceMatchMeta\<close>, or the
  error thrown.
\<close>

definition verifyFace ::
  "env \<Rightarrow> database \<Rightarrow> int \<Rightarrow> punch_options \<Rightarrow> string option \<Rightarrow>
   js_error + face_match_meta option" where
  "verifyFace ev db attendanceId options attendanceImageKey =
     (if requireFaceMatch options \<and> truthy (AWS_S3_BUCKET ev) \<and> truthy attendanceImageKey \<and>
         truthy_id (resolvedEmployeeId ev db attendanceId options)
      then ensureFaceMatch ev db (resolvedEmployeeId ev db attendanceId options)
             (text_of attendanceImageKey)
             (case faceMatchThreshold options of
                Some t \<Rightarrow> t
              | None \<Rightarrow> DEFAULT_FACE_MATCH_THRESHOLD ev)
      else if requireFaceMatch options \<and> \<not> truthy attendanceImageKey
      then Inl (with_status
                  (Error ''Attendance image could not be uploaded; face verification failed'')
                  500)
      else Inr None)"

text \<open>Last the update statement and the record returned.\<close>

definition applyPunch ::
  "env \<Rightarrow> database \<Rightarrow> int \<Rightarrow> string \<Rightarrow> jsval \<Rightarrow> location \<Rightarrow> string option \<Rightarrow>
   face_match_meta option \<Rightarrow> (js_error + punch_record) \<times> database" where
  "applyPunch ev db attendanceId punchType userId locationData imageUrl faceMatchMeta =
     (let isPunchIn = (punchType = PUNCH_TYPES_IN);
          actor = resolvePunchActor ev db userId
      in case db_fails ev db (UpdateAttendance isPunchIn attendanceId) of
           Some e \<Rightarrow> (Inl e, db)
         | None \<Rightarrow>
             (let db' = update_attendance db isPunchIn (now ev) locationData imageUrl actor
                          attendanceId
              in case filter (\<lambda>a. a_attendance_id a = attendanceId) (attendance db') of
                   [] \<Rightarrow> (Inl (Error ''Attendance update failed''), db')
                 | r # _ \<Rightarrow>
                     (Inr \<lparr>row = r,
                           face_similarity = map_option similarity faceMatchMeta,
                           face_match_threshold = map_option threshold faceMatchMeta\<rparr>,
                      db')))"

text \<open>The record returned or the error thrown, and the store afterwards.\<close>

definition processPunch ::
  "env \<Rightarrow> database \<Rightarrow> int \<Rightarrow> string \<Rightarrow> buffer option \<Rightarrow> jsval \<Rightarrow> location \<Rightarrow> punch_options \<Rightarrow>
   (js_error + punch_record) \<times> database" where
  "processPunch ev db attendanceId punchType imageFile userId locationData options =
     (case uploadEvidence ev attendanceId punchType imageFile of
        Inl e \<Rightarrow> (Inl e, db)
      | Inr uploadResult \<Rightarrow>
          (let imageUrl = (case uploadResult of None \<Rightarrow> None | Some u \<Rightarrow> url u);
               attendanceImageKey = (case uploadResult of None \<Rightarrow> None | Some u \<Rightarrow> key u)
           in case verifyFace ev db attendanceId options attendanceImageKey of
                Inl e \<Rightarrow> (Inl e, db)
              | Inr faceMatchMeta \<Rightarrow>
                  applyPunch ev db attendanceId punchType userId locationData imageUrl
                    faceMatchMeta))"

section \<open>Routes\<close>

record outcome =
  faceIndex :: nat
  o_status :: string
  o_message :: "string option"
  o_similarity :: "real option"
  o_employeeId :: "int option"
  o_employeeName :: "string option"
  o_attendanceId :: "int option"
  punchedAt :: "timestamp option"

record group_result =
  g_success :: bool
  g_mode :: string
  g_punch_type :: string
  total_faces :: nat
  punched_count :: nat
  results :: "outcome list"

record single_result =
  s_success :: bool
  s_employee :: "string option"
  s_punch_type :: string
  s_face_similarity :: "real option"
  s_face_match_threshold :: real
  s_time :: "timestamp option"

datatype body =
    ErrorBody error_payload
  | AttendanceBody attendance
  | PunchUpdated string punch_record
  | GroupBody group_result
  | SingleBody single_result

record response =
  code :: nat
  body :: body

definition error_body :: "string \<Rightarrow> error_payload" where
  "error_body m = \<lparr>pl_error = m, pl_details = None, suggestion = None, solution = None\<rparr>"

text \<open>\<^verbatim>\<open>router.post("/")\<close>: today's record of an employee.\<close>

definition post_attendance :: "env \<Rightarrow> database \<Rightarrow> int \<Rightarrow> response \<times> database" where
  "post_attendance ev db emp =
     (case getOrCreateAttendanceRecord ev db emp (today ev) of
        (Inl e, db') \<Rightarrow> (\<lparr>code = 500, body = ErrorBody (error_body (message e))\<rparr>, db')
      | (Inr a, db') \<Rightarrow> (\<lparr>code = 200, body = AttendanceBody a\<rparr>, db'))"

text \<open>
  \<^verbatim>\<open>router.put("/")\<close>, the manual punch. The text fields of the body are strings or absent;
  \<open>pr_attendance_id\<close> is the id the field holds.
\<close>

record put_request =
  pr_attendance_id :: "int option"
  pr_punch_type :: "string option"
  pr_latitude :: "string option"
  pr_longitude :: "string option"
  pr_address :: "string option"
  pr_userId :: "string option"
  pr_file :: "buffer option"

text \<open>
  \<^verbatim>\<open>SELECT emp_id, punch_in_time, punch_out_time FROM attendance WHERE attendance_id = $1\<close>
\<close>

definition select_attendance_state ::
  "database \<Rightarrow> int \<Rightarrow> (int \<times> timestamp option \<times> timestamp option) list" where
  "select_attendance_state db aid =
     [(a_emp_id a, a_punch_in_time a, a_punch_out_time a).
        a \<leftarrow> attendance db, a_attendance_id a = aid]"

definition put_attendance :: "env \<Rightarrow> database \<Rightarrow> put_request \<Rightarrow> response \<times> database" where
  "put_attendance ev db req =
     (case pr_attendance_id req of
        None \<Rightarrow> (\<lparr>code = 400, body = ErrorBody (error_body ''Missing required fields'')\<rparr>, db)
      | Some attendanceId \<Rightarrow>
          if \<not> truthy (pr_punch_type req) \<or> \<not> truthy (pr_latitude req) \<or>
             \<not> truthy (pr_longitude req) \<or> \<not> truthy (pr_address req)
          then (\<lparr>code = 400, body = ErrorBody (error_body ''Missing required fields'')\<rparr>, db)
          else
            (let punch_type = text_of (pr_punch_type req) in
             case run ev db (SelectAttendanceState attendanceId)
                    (select_attendance_state db attendanceId) of
               Inl e \<Rightarrow> (\<lparr>code = 500, body = ErrorBody (error_body (message e))\<rparr>, db)
             | Inr [] \<Rightarrow>
                 (\<lparr>code = 404, body = ErrorBody (error_body ''Attendance record not found'')\<rparr>, db)
             | Inr ((attendanceEmpId, punch_in, punch_out) # _) \<Rightarrow>
                 if punch_type = PUNCH_TYPES_IN \<and> punch_in \<noteq> None
                 then (\<lparr>code = 400, body = ErrorBody (error_body ''Already punched in today'')\<rparr>, db)
                 else if punch_type = PUNCH_TYPES_OUT \<and> punch_out \<noteq> None
                 then (\<lparr>code = 400, body = ErrorBody (error_body ''Already punched out today'')\<rparr>, db)
                 else if punch_type = PUNCH_TYPES_OUT \<and> punch_in = None
                 then (\<lparr>code = 400, body = ErrorBody (error_body ''Must punch in first'')\<rparr>, db)
                 else
                   (case processPunch ev db attendanceId punch_type (pr_file req)
                           (field (pr_userId req))
                           \<lparr>latitude = text_of (pr_latitude req),
                            longitude = text_of (pr_longitude req),
                            address = text_of (pr_address req)\<rparr>
                           \<lparr>employeeId = Some attendanceEmpId, requireFaceMatch = False,
                            faceMatchThreshold = None\<rparr> of
                      (Inl e, db') \<Rightarrow>
                        (\<lparr>code = 500, body = ErrorBody (error_body (message e))\<rparr>, db')
                    | (Inr updated, db') \<Rightarrow>
                        (\<lparr>code = 200,
                          body = PunchUpdated (''Punch '' @ punch_type @ '' updated successfully'')
                                   updated\<rparr>, db'))))"

subsection \<open>Face attendance\<close>

record face_request =
  fr_file :: "buffer option"
  fr_punch_type :: "string option"
  fr_latitude :: "string option"
  fr_longitude :: "string option"
  fr_userId :: "string option"
  fr_address :: "string option"
  fr_emp_id :: "string option"
  fr_employeeId :: "string option"
  fr_groupMode :: "string option"
  fr_group_mode :: "string option"
  fr_mode :: "string option"
  fr_faceMatchThreshold :: "string option"

text \<open>What stays the same for every face of one capture.\<close>

record capture =
  image :: buffer
  imageWidth :: real
  imageHeight :: real
  collectionId :: string
  punchType :: string
  matchThreshold :: real
  userId :: jsval
  locationPayload :: location

text \<open>The handler's outer catch: an error with a status code is sent as it is, any other
  goes through the classifier.\<close>

definition error_response :: "js_error \<Rightarrow> response" where
  "error_response e =
     (case statusCode e of
        Some c \<Rightarrow>
          if c \<noteq> 0
          then \<lparr>code = c,
                body = ErrorBody \<lparr>pl_error = message e,
                                  pl_details = (if truthy (details e) then details e else None),
                                  suggestion = None, solution = None\<rparr>\<rparr>
          else \<lparr>code = fst (mapRekognitionError e), body = ErrorBody (snd (mapRekognitionError e))\<rparr>
      | None \<Rightarrow>
          \<lparr>code = fst (mapRekognitionError e), body = ErrorBody (snd (mapRekognitionError e))\<rparr>)"

definition face_outcome :: "nat \<Rightarrow> string \<Rightarrow> string option \<Rightarrow> outcome" where
  "face_outcome i st msg =
     \<lparr>faceIndex = i, o_status = st, o_message = msg, o_similarity = None, o_employeeId = None,
      o_employeeName = None, o_attendanceId = None, punchedAt = None\<rparr>"

text \<open>
  The body of the inner try block for one cropped face: the outcome pushed (or the error
  thrown, which the catch turns into an \<^verbatim>\<open>error\<close> outcome), the set of processed
  employees and the store afterwards.
\<close>

definition matchFace ::
  "env \<Rightarrow> capture \<Rightarrow> buffer \<Rightarrow> nat \<Rightarrow> int set \<Rightarrow> database \<Rightarrow>
   (js_error + outcome) \<times> int set \<times> database" where
  "matchFace ev cx faceImageBuffer i processedEmployees db =
     (case searchFacesByImage ev (collectionId cx) faceImageBuffer 3 (matchThreshold cx) of
        Inl e \<Rightarrow> (Inl e, processedEmployees, db)
      | Inr faceMatches \<Rightarrow>
          (case (case faceMatches of
                   None \<Rightarrow> None
                 | Some [] \<Rightarrow> None
                 | Some (m # _) \<Rightarrow> (case Face m of None \<Rightarrow> None | Some f \<Rightarrow> Some (m, f))) of
             None \<Rightarrow>
               (Inr (face_outcome i ''unmatched'' (Some ''No matching employee found.'')),
                processedEmployees, db)
           | Some (bestMatch, f) \<Rightarrow>
               (case resolveEmployeeFromFaceIdentifiers ev db (FaceId f)
                       (normalizeId ev (field (ExternalImageId f))) None of
                  (Inl e, db1) \<Rightarrow> (Inl e, processedEmployees, db1)
                | (Inr None, db1) \<Rightarrow>
                    (Inr ((face_outcome i ''unmatched''
                             (Some ''Matched face is not linked to any employee record.''))
                            \<lparr>o_similarity := Similarity bestMatch\<rparr>),
                     processedEmployees, db1)
                | (Inr (Some employeeRecord), db1) \<Rightarrow>
                    if er_emp_id employeeRecord \<in> processedEmployees
                    then (Inr ((face_outcome i ''duplicate''
                                  (Some ''Employee already processed in this capture.''))
                                 \<lparr>o_similarity := Similarity bestMatch,
                                  o_employeeId := Some (er_emp_id employeeRecord),
                                  o_employeeName := er_name employeeRecord\<rparr>),
                          processedEmployees, db1)
                    else
                      (case getOrCreateAttendanceRecord ev db1 (er_emp_id employeeRecord)
                              (today ev) of
                         (Inl e, db2) \<Rightarrow> (Inl e, processedEmployees, db2)
                       | (Inr att, db2) \<Rightarrow>
                           (case validatePunchAttempt (Some att) (punchType cx) of
                              Some v \<Rightarrow>
                                (Inr ((face_outcome i ''skipped'' (Some (error v)))
                                        \<lparr>o_similarity := Similarity bestMatch,
                                         o_employeeId := Some (er_emp_id employeeRecord),
                                         o_employeeName := er_name employeeRecord\<rparr>),
                                 insert (er_emp_id employeeRecord) processedEmployees, db2)
                            | None \<Rightarrow>
                                (case processPunch ev db2 (attendance_id att) (punchType cx)
                                        (Some faceImageBuffer) (userId cx) (locationPayload cx)
                                        \<lparr>employeeId = Some (er_emp_id employeeRecord),
                                         requireFaceMatch = True,
                                         faceMatchThreshold = Some (matchThreshold cx)\<rparr> of
                                   (Inl e, db3) \<Rightarrow> (Inl e, processedEmployees, db3)
                                 | (Inr updated, db3) \<Rightarrow>
                                     (Inr \<lparr>faceIndex = i, o_status = ''punched'',
                                           o_message = None,
                                           o_similarity = Similarity bestMatch,
                                           o_employeeId = Some (er_emp_id employeeRecord),
                                           o_employeeName = er_name employeeRecord,
                                           o_attendanceId = Some (attendance_id att),
                                           punchedAt =
                                             (if punchType cx = PUNCH_TYPES_IN
                                              then a_punch_in_time (row updated)
                                              else a_punch_out_time (row updated))\<rparr>,
                                      insert (er_emp_id employeeRecord) processedEmployees,
                                      db3)))))))"

text \<open>One iteration of the loop over the detected faces.\<close>

definition processFace ::
  "env \<Rightarrow> capture \<Rightarrow> bounding_box option \<Rightarrow> nat \<Rightarrow> int set \<Rightarrow> database \<Rightarrow>
   outcome \<times> int set \<times> database" where
  "processFace ev cx boundingBox i processedEmployees db =
     (case computeCropRegion ev boundingBox (imageWidth cx) (imageHeight cx) (1 / 4) of
        None \<Rightarrow>
          (face_outcome i ''skipped'' (Some ''Unable to crop the detected face region.''),
           processedEmployees, db)
      | Some cropRegion \<Rightarrow>
          (case sharp_extract ev (image cx) cropRegion of
             Inl _ \<Rightarrow>
               (face_outcome i ''error'' (Some ''Unable to process the detected face region.''),
                processedEmployees, db)
           | Inr faceImageBuffer \<Rightarrow>
               (case matchFace ev cx faceImageBuffer i processedEmployees db of
                  (Inr out, processed', db') \<Rightarrow> (out, processed', db')
                | (Inl searchError, processed', db') \<Rightarrow>
                    (let payload = snd (mapRekognitionError searchError) in
                     (face_outcome i ''error''
                        (Some (if truthy (pl_details payload) then text_of (pl_details payload)
                               else if pl_error payload \<noteq> [] then pl_error payload
                               else ''Face recognition failed'')),
                      processed', db')))))"

text \<open>
  The loop \<^verbatim>\<open>for (index = 0; index < faceDetails.length; index += 1)\<close>: \<open>index\<close> counts
  the faces done, \<open>faceIndex = index + 1\<close>.
\<close>

fun groupLoop ::
  "env \<Rightarrow> capture \<Rightarrow> bounding_box option list \<Rightarrow> nat \<Rightarrow> int set \<Rightarrow> outcome list \<Rightarrow> database \<Rightarrow>
   outcome list \<times> int set \<times> database" where
  "groupLoop ev cx [] index processedEmployees rs db = (rs, processedEmployees, db)"
| "groupLoop ev cx (faceDetail # rest) index processedEmployees rs db =
     (case processFace ev cx faceDetail (index + 1) processedEmployees db of
        (out, processed', db') \<Rightarrow> groupLoop ev cx rest (index + 1) processed' (rs @ [out]) db')"

text \<open>The group branch of the handler, from face detection to the aggregate reply.\<close>

definition group_capture ::
  "env \<Rightarrow> database \<Rightarrow> buffer \<Rightarrow> string \<Rightarrow> string \<Rightarrow> real \<Rightarrow> jsval \<Rightarrow> location \<Rightarrow>
   response \<times> database" where
  "group_capture ev db file cid pt thr uid loc =
     (case detectFaces ev file of
        Inl e \<Rightarrow> (error_response e, db)
      | Inr detectResult \<Rightarrow>
          (let faceDetails = (case detectResult of None \<Rightarrow> [] | Some l \<Rightarrow> l) in
           if faceDetails = []
           then (\<lparr>code = 422,
                  body = ErrorBody
                    \<lparr>pl_error = ''No faces detected in the image'', pl_details = None,
                     suggestion = Some ''Ensure group members are clearly visible and retry.'',
                     solution = None\<rparr>\<rparr>, db)
           else
             (case sharp_metadata ev file of
                Inl e \<Rightarrow> (error_response e, db)
              | Inr (w, h) \<Rightarrow>
                  (case (case w of
                           None \<Rightarrow> None
                         | Some iw \<Rightarrow>
                             (case h of
                                None \<Rightarrow> None
                              | Some ih \<Rightarrow> if iw = 0 \<or> ih = 0 then None else Some (iw, ih))) of
                     None \<Rightarrow>
                       (\<lparr>code = 400,
                         body = ErrorBody
                           (error_body ''Unable to read image dimensions for face processing'')\<rparr>,
                        db)
                   | Some (iw, ih) \<Rightarrow>
                       (case groupLoop ev
                               \<lparr>image = file, imageWidth = iw, imageHeight = ih,
                                collectionId = cid, punchType = pt, matchThreshold = thr,
                                userId = uid, locationPayload = loc\<rparr>
                               faceDetails 0 {} [] db of
                          (rs, _, db') \<Rightarrow>
                            (let punchedCount =
                                   length (filter (\<lambda>entry. o_status entry = ''punched'') rs)
                             in (\<lparr>code = 200,
                                  body = GroupBody
                                    \<lparr>g_success = (punchedCount > 0), g_mode = ''group'',
                                     g_punch_type = pt, total_faces = length faceDetails,
                                     punched_count = punchedCount, results = rs\<rparr>\<rparr>,
                                 db')))))))"

text \<open>The single-subject branch.\<close>

definition single_capture ::
  "env \<Rightarrow> database \<Rightarrow> buffer \<Rightarrow> string \<Rightarrow> string \<Rightarrow> real \<Rightarrow> jsval \<Rightarrow> location \<Rightarrow>
   string option \<Rightarrow> string option \<Rightarrow> response \<times> database" where
  "single_capture ev db file cid pt thr uid loc rawEmpId rawEmployeeId =
     (let requestedEmpId =
            normalizeId ev (case rawEmpId of None \<Rightarrow> field rawEmployeeId | Some _ \<Rightarrow> field rawEmpId)
      in case searchFacesByImage ev cid file 1 thr of
           Inl e \<Rightarrow> (error_response e, db)
         | Inr faceMatches \<Rightarrow>
             (case (case faceMatches of None \<Rightarrow> [] | Some l \<Rightarrow> l) of
                [] \<Rightarrow>
                  (\<lparr>code = 401,
                    body = ErrorBody
                      \<lparr>pl_error = ''No matching employee found'', pl_details = None,
                       suggestion = Some ''Use manual attendance if face recognition fails'',
                       solution = None\<rparr>\<rparr>, db)
              | m # _ \<Rightarrow>
                  (let faceId = (case Face m of None \<Rightarrow> None | Some f \<Rightarrow> FaceId f);
                       ext = (case Face m of None \<Rightarrow> None | Some f \<Rightarrow> ExternalImageId f)
                   in case resolveEmployeeFromFaceIdentifiers ev db faceId
                             (normalizeId ev (field ext)) requestedEmpId of
                        (Inl e, db1) \<Rightarrow> (error_response e, db1)
                      | (Inr None, db1) \<Rightarrow>
                          (\<lparr>code = 404,
                            body = ErrorBody
                              \<lparr>pl_error = ''Employee not registered in system'',
                               pl_details = None, suggestion = None,
                               solution = Some ''Register face first via /store-face''\<rparr>\<rparr>, db1)
                      | (Inr (Some employeeRecord), db1) \<Rightarrow>
                          (case getOrCreateAttendanceRecord ev db1 (er_emp_id employeeRecord)
                                  (today ev) of
                             (Inl e, db2) \<Rightarrow> (error_response e, db2)
                           | (Inr att, db2) \<Rightarrow>
                               (case validatePunchAttempt (Some att) pt of
                                  Some v \<Rightarrow>
                                    (\<lparr>code = status v, body = ErrorBody (error_body (error v))\<rparr>,
                                     db2)
                                | None \<Rightarrow>
                                    (case processPunch ev db2 (attendance_id att) pt (Some file)
                                            uid loc
                                            \<lparr>employeeId = Some (er_emp_id employeeRecord),
                                             requireFaceMatch = True,
                                             faceMatchThreshold = Some thr\<rparr> of
                                       (Inl e, db3) \<Rightarrow> (error_response e, db3)
                                     | (Inr updated, db3) \<Rightarrow>
                                         (\<lparr>code = 200,
                                           body = SingleBody
                                             \<lparr>s_success = True,
                                              s_employee = er_name employeeRecord,
                                              s_punch_type = pt,
                                              s_face_similarity = face_similarity updated,
                                              s_face_match_threshold =
                                                (case face_match_threshold updated of
                                                   Some t \<Rightarrow> t
                                                 | None \<Rightarrow> thr),
                                              s_time =
                                                (if pt = PUNCH_TYPES_IN
                                                 then a_punch_in_time (row updated)
                                                 else a_punch_out_time (row updated))\<rparr>\<rparr>,
                                          db3)))))))"

text \<open>
  The state a request runs in: the store and the module's flag
  \<^verbatim>\<open>faceCollectionReady\<close> (the field \<open>collectionReady\<close>). \<^verbatim>\<open>router.post("/face-attendance")\<close> maps it and the request
  to the reply and the state afterwards.
\<close>

record server =
  store :: database
  collectionReady :: bool

definition face_attendance :: "env \<Rightarrow> server \<Rightarrow> face_request \<Rightarrow> response \<times> server" where
  "face_attendance ev sv req =
     (case fr_file req of
        None \<Rightarrow> (\<lparr>code = 400, body = ErrorBody (error_body ''Face image is required'')\<rparr>, sv)
      | Some file \<Rightarrow>
          (case resolveCollectionId ev of
             None \<Rightarrow>
               (\<lparr>code = 500,
                 body = ErrorBody
                   \<lparr>pl_error = ''Rekognition collection is not configured'',
                    pl_details = Some ''Set REKOGNITION_COLLECTION or REKOGNITION_COLLECTION_ID in the backend .env file.'',
                    suggestion = None, solution = None\<rparr>\<rparr>, sv)
           | Some cid \<Rightarrow>
               (case ensureCollectionExists ev (collectionReady sv) cid of
                  (Inl e, ready) \<Rightarrow> (error_response e, sv\<lparr>collectionReady := ready\<rparr>)
                | (Inr _, ready) \<Rightarrow>
                    (let normalizedPunchType = toUpperCase (trim (text_of (fr_punch_type req)));
                         pt = (if normalizedPunchType = PUNCH_TYPES_OUT then PUNCH_TYPES_OUT
                               else PUNCH_TYPES_IN);
                         thr = (case Number ev (field (fr_faceMatchThreshold req)) of
                                  Some t \<Rightarrow> t
                                | None \<Rightarrow> DEFAULT_FACE_MATCH_THRESHOLD ev);
                         loc = \<lparr>latitude = (if truthy (fr_latitude req)
                                             then text_of (fr_latitude req) else ''0''),
                                longitude = (if truthy (fr_longitude req)
                                             then text_of (fr_longitude req) else ''0''),
                                address = text_of (fr_address req)\<rparr>
                     in case (if isGroupModeRequest ev
                                   [field (fr_groupMode req), field (fr_group_mode req),
                                    field (fr_mode req)]
                              then group_capture ev (store sv) file cid pt thr
                                     (field (fr_userId req)) loc
                              else single_capture ev (store sv) file cid pt thr
                                     (field (fr_userId req)) loc (fr_emp_id req)
                                     (fr_employeeId req)) of
                          (r, db') \<Rightarrow> (r, \<lparr>store = db', collectionReady = ready\<rparr>)))))"

section \<open>A sample deployment\<close>

text \<open>
  Concrete collaborators and a small store, on which the model is run: decimal rendering
  and parsing for whole numbers, an upload that always succeeds, a recognition service that
  finds three faces in a picture and knows the first and the last as the enrolled face
  \<open>face-a\<close>, and a store with three employees, of whom the third has no designation.
\<close>

fun show_nat :: "nat \<Rightarrow> string" where
  "show_nat n = (if n < 10 then [digit n] else show_nat (n div 10) @ [digit n])"

definition digit_value :: "char \<Rightarrow> nat" where
  "digit_value c = length (takeWhile (\<lambda>d. d \<noteq> c) ''0123456789'')"

definition sample_Number :: "string \<Rightarrow> real option" where
  "sample_Number s =
     (if list_all (\<lambda>c. c \<in> set ''0123456789'') s
      then Some (of_nat (foldl (\<lambda>n c. 10 * n + digit_value c) 0 s))
      else None)"

definition sample_env :: env where
  "sample_env =
     \<lparr>AWS_S3_BUCKET = Some ''attendease'',
      REKOGNITION_COLLECTION = Some ''faces'',
      REKOGNITION_COLLECTION_ID = None,
      FACE_MATCH_THRESHOLD = None,
      js_Number = sample_Number,
      num_to_string = (\<lambda>r. show_nat (nat \<lfloor>r\<rfloor>)),
      toFixed2 = (\<lambda>r. show_nat (nat \<lfloor>r\<rfloor>) @ ''.'' @ two_digits (nat \<lfloor>r * 100\<rfloor> mod 100)),
      js_times = (\<lambda>x y. x * y),
      url_pathname = (\<lambda>s. None),
      decodeURIComponent = Some,
      uploadAttendanceImage =
        (\<lambda>buf name. Inr (Some \<lparr>url = Some (''https://store/'' @ name), key = Some name\<rparr>)),
      compareFaces = (\<lambda>bucket source target thr. Inr (Some [Some 95])),
      searchFacesByImage =
        (\<lambda>cid buf n thr.
           if buf = [375] then Inr (Some [])
           else Inr (Some [\<lparr>Similarity = Some 97,
                            Face = Some \<lparr>FaceId = Some ''face-a'',
                                         ExternalImageId = Some ''7''\<rparr>\<rparr>])),
      detectFaces =
        (\<lambda>buf. Inr (Some (map (\<lambda>k. Some \<lparr>Width = 1 / 10, Height = 1 / 10,
                                              Left = of_nat k / 10, Top = 1 / 10\<rparr>) buf))),
      createCollection = (\<lambda>cid. Inr ()),
      sharp_metadata = (\<lambda>buf. Inr (Some 1000, Some 1000)),
      sharp_extract = (\<lambda>buf region. Inr [nat \<lfloor>left region\<rfloor>]),
      db_fails = (\<lambda>db q. None),
      today = ''2024-01-15'',
      now = 32700\<rparr>"

definition sample_db :: database where
  "sample_db =
     \<lparr>employee =
        [\<lparr>e_emp_id = 7, e_name = Some ''Asha'', e_emp_code = Some ''E7'',
          e_face_id = Some ''face-a'', e_face_embedding = Some ''faces/7.jpg'',
          e_designation_id = Some 1, e_ward_id = Some 3\<rparr>,
         \<lparr>e_emp_id = 8, e_name = Some ''Ravi'', e_emp_code = Some ''E8'',
          e_face_id = None, e_face_embedding = Some ''/faces/8.jpg'',
          e_designation_id = Some 1, e_ward_id = Some 3\<rparr>,
         \<lparr>e_emp_id = 9, e_name = Some ''Meena'', e_emp_code = Some ''E9'',
          e_face_id = None, e_face_embedding = None,
          e_designation_id = None, e_ward_id = Some 3\<rparr>],
      designation = [\<lparr>d_designation_id = 1, d_designation_name = Some ''Sweeper''\<rparr>],
      wards = [\<lparr>w_ward_id = 3, w_ward_name = Some ''Ward 3''\<rparr>],
      users = [1],
      attendance = [],
      attendance_id_seq = 1\<rparr>"

text \<open>The same deployment with a store that refuses the face-id cache write and the
  lookup of employee 7 by id.\<close>

definition sample_env_cache_down :: env where
  "sample_env_cache_down =
     sample_env\<lparr>db_fails :=
       (\<lambda>db q. case q of
                  UpdateFaceId f i \<Rightarrow> Some (Error ''connection lost'')
                | SelectEmployeeById x \<Rightarrow> (if x = 7 then Some (Error ''connection lost'') else None)
                | _ \<Rightarrow> None)\<rparr>"

text \<open>The sample store on a day when Asha (employee 7) has an attendance row and no punch
  yet, and Meena (employee 9) has a row as well.\<close>

definition sample_db_open :: database where
  "sample_db_open =
     sample_db\<lparr>attendance :=
                  [new_attendance_row sample_db 7 ''2024-01-15'' (Some 3),
                   (new_attendance_row sample_db 9 ''2024-01-15'' (Some 3))\<lparr>a_attendance_id := 2\<rparr>],
               attendance_id_seq := 3\<rparr>"

text \<open>A recognition service that scores the captured face at 85.\<close>

definition sample_env_mismatch :: env where
  "sample_env_mismatch =
     sample_env\<lparr>compareFaces := (\<lambda>bucket source target thr. Inr (Some [Some 85]))\<rparr>"

text \<open>A deployment with no bucket configured.\<close>

definition sample_env_no_bucket :: env where
  "sample_env_no_bucket = sample_env_mismatch\<lparr>AWS_S3_BUCKET := None\<rparr>"

definition sample_location :: location where
  "sample_location = \<lparr>latitude = ''18.52'', longitude = ''73.85'', address = ''Ward 3 office''\<rparr>"

text \<open>A manual punch request whose direction is the lower-case \<open>out\<close>.\<close>

definition sample_put_out :: put_request where
  "sample_put_out =
     \<lparr>pr_attendance_id = Some 1, pr_punch_type = Some ''out'', pr_latitude = Some ''18.52'',
      pr_longitude = Some ''73.85'', pr_address = Some ''Ward 3 office'', pr_userId = Some ''1'',
      pr_file = None\<rparr>"

text \<open>The outcomes of a group capture of three faces by the sample deployment: the first
  face is Asha's, the second a stranger's, the third Asha's again.\<close>

definition sample_outcomes :: "outcome list" where
  "sample_outcomes =
     [\<lparr>faceIndex = 1, o_status = ''punched'', o_message = None, o_similarity = Some 97,
       o_employeeId = Some 7, o_employeeName = Some ''Asha'', o_attendanceId = Some 1,
       punchedAt = Some 32700\<rparr>,
      \<lparr>faceIndex = 2, o_status = ''unmatched'', o_message = Some ''No matching employee found.'',
       o_similarity = None, o_employeeId = None, o_employeeName = None, o_attendanceId = None,
       punchedAt = None\<rparr>,
      \<lparr>faceIndex = 3, o_status = ''duplicate'',
       o_message = Some ''Employee already processed in this capture.'',
       o_similarity = Some 97, o_employeeId = Some 7, o_employeeName = Some ''Asha'',
       o_attendanceId = None, punchedAt = None\<rparr>]"

text \<open>Asha's attendance record as first created on the sample day.\<close>

definition sample_att1 :: attendance where
  "sample_att1 =
     \<lparr>attendance_id = 1, date = ''2024-01-15'', punch_in_time = None, punch_out_time = None,
      duration = None, punch_in_image = None, punch_out_image = None,
      latitude_in = None, longitude_in = None, in_address = None,
      latitude_out = None, longitude_out = None, out_address = None,
      emp_id = 7, emp_code = Some ''E7'', employee_name = Some ''Asha'',
      designation_name = Some ''Sweeper'', ward_id = Some 3, ward_name = Some ''Ward 3''\<rparr>"

text \<open>The fixed part of that capture.\<close>

definition sample_capture :: capture where
  "sample_capture =
     \<lparr>image = [1, 4, 7], imageWidth = 1000, imageHeight = 1000, collectionId = ''faces'',
      punchType = ''IN'', matchThreshold = 90, userId = JStr ''1'',
      locationPayload = sample_location\<rparr>"

text \<open>The sample store after Asha's record is created, and after her punch-in.\<close>

definition sample_db_created :: database where
  "sample_db_created = insert_attendance sample_db 7 ''2024-01-15'' (Some 3)"

definition sample_db_punched :: database where
  "sample_db_punched =
     update_attendance sample_db_created True 32700 sample_location
       (Some ''https://store/attendance_1_IN.jpg'') (Some 1) 1"

text \<open>A group request whose picture shows no face.\<close>

definition sample_empty_group_request :: face_request where
  "sample_empty_group_request =
     \<lparr>fr_file = Some [], fr_punch_type = Some ''IN'', fr_latitude = Some ''18.52'',
      fr_longitude = Some ''73.85'', fr_userId = Some ''1'', fr_address = Some ''Ward 3 office'',
      fr_emp_id = None, fr_employeeId = None, fr_groupMode = Some '' Group '',
      fr_group_mode = None, fr_mode = None, fr_faceMatchThreshold = None\<rparr>"

text \<open>The record created for Meena (employee 9, no designation) on the sample day, and the
  store after it.\<close>

definition sample_att_meena :: attendance where
  "sample_att_meena =
     \<lparr>attendance_id = 1, date = ''2024-01-15'', punch_in_time = None, punch_out_time = None,
      duration = None, punch_in_image = None, punch_out_image = None,
      latitude_in = None, longitude_in = None, in_address = None,
      latitude_out = None, longitude_out = None, out_address = None,
      emp_id = 9, emp_code = None, employee_name = None,
      designation_name = None, ward_id = Some 3, ward_name = None\<rparr>"

definition sample_db_meena :: database where
  "sample_db_meena = insert_attendance sample_db 9 ''2024-01-15'' (Some 3)"

text \<open>The record created for an employee id that no employee row has.\<close>

definition sample_att_unknown :: attendance where
  "sample_att_unknown =
     \<lparr>attendance_id = 1, date = ''2024-01-15'', punch_in_time = None, punch_out_time = None,
      duration = None, punch_in_image = None, punch_out_image = None,
      latitude_in = None, longitude_in = None, in_address = None,
      latitude_out = None, longitude_out = None, out_address = None,
      emp_id = 42, emp_code = None, employee_name = None,
      designation_name = None, ward_id = None, ward_name = None\<rparr>"

text \<open>The options of a manual punch for Asha, and her record as read back after a manual
  punch-in at 09:05.\<close>

definition sample_manual :: punch_options where
  "sample_manual = \<lparr>employeeId = Some 7, requireFaceMatch = False, faceMatchThreshold = None\<rparr>"

definition sample_view_punched :: attendance where
  "sample_view_punched =
     sample_att1\<lparr>punch_in_time := Some ''09:05 AM'',
                 latitude_in := Some ''18.52'', longitude_in := Some ''73.85'',
                 in_address := Some ''Ward 3 office''\<rparr>"

text \<open>The sample deployment over a schema that allows one attendance row per employee and
  date: the store refuses a second insert.\<close>

definition sample_env_unique :: env where
  "sample_env_unique =
     sample_env\<lparr>db_fails :=
       (\<lambda>db q. case q of
                  InsertAttendance e d w \<Rightarrow>
                    (if list_ex (\<lambda>a. a_emp_id a = e \<and> a_date a = d) (attendance db)
                     then Some (Error ''duplicate key value violates unique constraint'')
                     else None)
                | _ \<Rightarrow> None)\<rparr>"

text \<open>The sample deployment one second later.\<close>

definition sample_env_later :: env where
  "sample_env_later = sample_env\<lparr>now := 32701\<rparr>"

text \<open>Asha's record as read back after the manual punch request above has been applied to
  the sample store: a punch-out and no punch-in.\<close>

definition sample_view_out_only :: attendance where
  "sample_view_out_only =
     sample_att1\<lparr>punch_out_time := Some ''09:05 AM'',
                 latitude_out := Some ''18.52'', longitude_out := Some ''73.85'',
                 out_address := Some ''Ward 3 office''\<rparr>"

text \<open>The sample deployment over a schema with a foreign key from attendance to employee:
  the store refuses an attendance row for an employee id that has no employee row.\<close>

definition sample_env_fk :: env where
  "sample_env_fk =
     sample_env\<lparr>db_fails :=
       (\<lambda>db q. case q of
                  InsertAttendance e d w \<Rightarrow>
                    (if e \<in> set (map e_emp_id (employee db)) then None
                     else Some (Error ''violates foreign key constraint''))
                | _ \<Rightarrow> None)\<rparr>"

section \<open>Properties\<close>

subsection \<open>C1: the legality check\<close>

text \<open>
  C1 as stated fails on a record with a punch-out and no punch-in, which is what the read
  query returns after a manual punch with the direction \<open>out\<close> has been applied to a
  fresh record: the punch-in is unset and OUT is requested, yet the check, which tests the
  punch-out first, answers AlreadyPunchedOut and not PunchInRequired.
\<close>

theorem validatePunchAttempt_out_first:
  "select_attendance_join
     (update_attendance sample_db_open False 32700 sample_location None (Some 1) 1)
     7 ''2024-01-15'' = [sample_view_out_only] \<and>
   \<not> truthy (punch_in_time sample_view_out_only) \<and>
   validatePunchAttempt (Some sample_view_out_only) ''OUT'' = Some AlreadyPunchedOut \<and>
   AlreadyPunchedOut \<noteq> PunchInRequired"
proof -
  have a: "select_attendance_join
     (update_attendance sample_db_open False 32700 sample_location None (Some 1) 1)
     7 ''2024-01-15'' = [sample_view_out_only]"
    by (simp add: select_attendance_join_def update_attendance_def sample_db_open_def
        sample_db_def new_attendance_row_def punch_row_def attendance_view_def
        sample_view_out_only_def sample_att1_def sample_location_def to_char_hh12_mi_am_def
        two_digits_def digit_def Let_def)
  have b: "\<not> truthy (punch_in_time sample_view_out_only)"
    by (simp add: sample_view_out_only_def sample_att1_def truthy_def)
  have c: "validatePunchAttempt (Some sample_view_out_only) ''OUT'' = Some AlreadyPunchedOut"
    by (simp add: validatePunchAttempt_def sample_view_out_only_def sample_att1_def truthy_def
        PUNCH_TYPES_IN_def PUNCH_TYPES_OUT_def AlreadyPunchedOut_def)
  have d: "AlreadyPunchedOut \<noteq> PunchInRequired"
    by (simp add: AlreadyPunchedOut_def PunchInRequired_def)
  from a b c d show ?thesis by simp
qed

text \<open>
  C1, amended. The punch legality check is a function of the record and the requested
  direction alone. An absent record fails with RecordNotFound. For a present record: IN
  with punch-in set fails with AlreadyPunchedIn; OUT with punch-out set fails with
  AlreadyPunchedOut; OUT with punch-in unset and punch-out not set fails with
  PunchInRequired; every other request, whatever the direction string, succeeds. The
  function returns a value and has no state to change.
\<close>

theorem validatePunchAttempt_cases:
  "validatePunchAttempt None t = Some RecordNotFound \<and>
   validatePunchAttempt (Some a) t =
     (if t = ''IN'' \<and> truthy (punch_in_time a) then Some AlreadyPunchedIn
      else if t = ''OUT'' \<and> truthy (punch_out_time a) then Some AlreadyPunchedOut
      else if t = ''OUT'' \<and> \<not> truthy (punch_in_time a) then Some PunchInRequired
      else None)"
  by (simp add: validatePunchAttempt_def PUNCH_TYPES_IN_def PUNCH_TYPES_OUT_def
      RecordNotFound_def AlreadyPunchedIn_def AlreadyPunchedOut_def PunchInRequired_def)

subsection \<open>C9: the identity resolver\<close>

lemma tryResolveByEmpId_None: "tryResolveByEmpId ev db None = Inr None"
  by (simp add: tryResolveByEmpId_def)

text \<open>
  C9. The resolver looks an employee up (a) by the cached biometric identifier, then (b) by
  the candidate employee id of the recognition service, then (c) by the requested employee
  id, and the first lookup that finds a row decides: a hit by (a) returns at once, with the
  store untouched and neither later lookup run (the result holds whatever the store would
  answer to them); (c) is tried only when (b) found nothing. After a hit by (b) or (c) with
  a biometric identifier supplied, the cache write sets \<open>face_id\<close> to the observed
  identifier on the rows of that employee whose \<open>face_id\<close> is null or different, and
  leaves every other row as it is; when the store refuses the write, the record is
  returned all the same and the store is unchanged.
\<close>

theorem resolve_order_and_cache:
  "(lookupByFaceId ev db faceId = Inr (r # rs) \<longrightarrow>
      resolveEmployeeFromFaceIdentifiers ev db faceId m q = (Inr (Some r), db)) \<and>
   (lookupByFaceId ev db faceId = Inr [] \<and> tryResolveByEmpId ev db m = Inr (Some r) \<longrightarrow>
      resolveEmployeeFromFaceIdentifiers ev db faceId m q =
        (Inr (Some r), cacheFaceId ev db faceId r)) \<and>
   (lookupByFaceId ev db faceId = Inr [] \<and> tryResolveByEmpId ev db m = Inr None \<and>
    tryResolveByEmpId ev db q = Inr (Some r) \<longrightarrow>
      resolveEmployeeFromFaceIdentifiers ev db faceId m q =
        (Inr (Some r), cacheFaceId ev db faceId r)) \<and>
   cacheFaceId ev db faceId r =
     (if truthy faceId \<and> db_fails ev db (UpdateFaceId (text_of faceId) (er_emp_id r)) = None
      then update_face_id db (text_of faceId) (er_emp_id r) else db) \<and>
   update_face_id db f i =
     db\<lparr>employee :=
          map (\<lambda>e. if e_emp_id e = i \<and> e_face_id e \<noteq> Some f then e\<lparr>e_face_id := Some f\<rparr> else e)
              (employee db)\<rparr>"
proof (intro conjI impI)
  assume "lookupByFaceId ev db faceId = Inr (r # rs)"
  then show "resolveEmployeeFromFaceIdentifiers ev db faceId m q = (Inr (Some r), db)"
    by (simp add: resolveEmployeeFromFaceIdentifiers_def)
next
  assume a: "lookupByFaceId ev db faceId = Inr [] \<and> tryResolveByEmpId ev db m = Inr (Some r)"
  then have "m \<noteq> None" by (cases m) (simp_all add: tryResolveByEmpId_None)
  with a show "resolveEmployeeFromFaceIdentifiers ev db faceId m q =
        (Inr (Some r), cacheFaceId ev db faceId r)"
    by (simp add: resolveEmployeeFromFaceIdentifiers_def)
next
  assume a: "lookupByFaceId ev db faceId = Inr [] \<and> tryResolveByEmpId ev db m = Inr None \<and>
    tryResolveByEmpId ev db q = Inr (Some r)"
  then have "q \<noteq> None" by (cases q) (simp_all add: tryResolveByEmpId_None)
  with a show "resolveEmployeeFromFaceIdentifiers ev db faceId m q =
        (Inr (Some r), cacheFaceId ev db faceId r)"
    by (simp add: resolveEmployeeFromFaceIdentifiers_def)
next
  show "cacheFaceId ev db faceId r =
     (if truthy faceId \<and> db_fails ev db (UpdateFaceId (text_of faceId) (er_emp_id r)) = None
      then update_face_id db (text_of faceId) (er_emp_id r) else db)"
    by (auto simp: cacheFaceId_def truthy_def text_of_def split: option.splits)
next
  show "update_face_id db f i =
     db\<lparr>employee :=
          map (\<lambda>e. if e_emp_id e = i \<and> e_face_id e \<noteq> Some f then e\<lparr>e_face_id := Some f\<rparr> else e)
              (employee db)\<rparr>"
    by (simp add: update_face_id_def)
qed

lemma sample_face_a_down: "lookupByFaceId sample_env_cache_down sample_db (Some ''face-a'') = Inr [\<lparr>er_emp_id = 7, er_name = Some ''Asha''\<rparr>]"
  by (simp add: lookupByFaceId_def run_def sample_env_cache_down_def sample_env_def sample_db_def select_employee_by_face_def)

lemma sample_face_b: "lookupByFaceId sample_env sample_db (Some ''face-b'') = Inr []"
  by (simp add: lookupByFaceId_def run_def sample_env_def sample_db_def select_employee_by_face_def)

lemma sample_ravi_by_id: "tryResolveByEmpId sample_env sample_db (Some 8) = Inr (Some \<lparr>er_emp_id = 8, er_name = Some ''Ravi''\<rparr>)"
  by (simp add: tryResolveByEmpId_def run_def sample_env_def sample_db_def select_employee_by_id_def)

lemma sample_no_99: "tryResolveByEmpId sample_env sample_db (Some 99) = Inr None"
  by (simp add: tryResolveByEmpId_def run_def sample_env_def sample_db_def select_employee_by_id_def)

lemma sample_face_b_down: "lookupByFaceId sample_env_cache_down sample_db (Some ''face-b'') = Inr []"
  by (simp add: lookupByFaceId_def run_def sample_env_cache_down_def sample_env_def sample_db_def select_employee_by_face_def)

lemma sample_ravi_down: "tryResolveByEmpId sample_env_cache_down sample_db (Some 8) = Inr (Some \<lparr>er_emp_id = 8, er_name = Some ''Ravi''\<rparr>)"
  by (simp add: tryResolveByEmpId_def run_def sample_env_cache_down_def sample_env_def sample_db_def select_employee_by_id_def)

theorem resolve_order_and_cache_witness:
  "resolveEmployeeFromFaceIdentifiers sample_env_cache_down sample_db (Some ''face-a'') (Some 7) (Some 8) =
     (Inr (Some \<lparr>er_emp_id = 7, er_name = Some ''Asha''\<rparr>), sample_db) \<and>
   resolveEmployeeFromFaceIdentifiers sample_env sample_db (Some ''face-b'') (Some 8) (Some 7) =
     (Inr (Some \<lparr>er_emp_id = 8, er_name = Some ''Ravi''\<rparr>), update_face_id sample_db ''face-b'' 8) \<and>
   resolveEmployeeFromFaceIdentifiers sample_env sample_db (Some ''face-b'') (Some 99) (Some 8) =
     (Inr (Some \<lparr>er_emp_id = 8, er_name = Some ''Ravi''\<rparr>), update_face_id sample_db ''face-b'' 8) \<and>
   resolveEmployeeFromFaceIdentifiers sample_env_cache_down sample_db (Some ''face-b'') (Some 8) None =
     (Inr (Some \<lparr>er_emp_id = 8, er_name = Some ''Ravi''\<rparr>), sample_db) \<and>
   map e_face_id (employee (update_face_id sample_db ''face-b'' 8)) =
     [Some ''face-a'', Some ''face-b'', None]"
proof -
  let ?asha = "\<lparr>er_emp_id = 7, er_name = Some ''Asha''\<rparr>"
  let ?ravi = "\<lparr>er_emp_id = 8, er_name = Some ''Ravi''\<rparr>"
  have a: "resolveEmployeeFromFaceIdentifiers sample_env_cache_down sample_db (Some ''face-a'') (Some 7) (Some 8) =
     (Inr (Some ?asha), sample_db)"
    using resolve_order_and_cache [of sample_env_cache_down sample_db "Some ''face-a''" ?asha "[]" "Some 7" "Some 8"] sample_face_a_down
    by simp
  have up: "db_fails sample_env sample_db (UpdateFaceId ''face-b'' 8) = None"
    by (simp add: sample_env_def)
  have b: "resolveEmployeeFromFaceIdentifiers sample_env sample_db (Some ''face-b'') (Some 8) (Some 7) =
     (Inr (Some ?ravi), update_face_id sample_db ''face-b'' 8)"
    using resolve_order_and_cache [of sample_env sample_db "Some ''face-b''" ?ravi "[]" "Some 8" "Some 7"] sample_face_b sample_ravi_by_id up
    by (simp add: truthy_def text_of_def)
  have c: "resolveEmployeeFromFaceIdentifiers sample_env sample_db (Some ''face-b'') (Some 99) (Some 8) =
     (Inr (Some ?ravi), update_face_id sample_db ''face-b'' 8)"
    using resolve_order_and_cache [of sample_env sample_db "Some ''face-b''" ?ravi "[]" "Some 99" "Some 8"] sample_face_b sample_ravi_by_id sample_no_99 up
    by (simp add: truthy_def text_of_def)
  have down: "db_fails sample_env_cache_down sample_db (UpdateFaceId ''face-b'' 8) \<noteq> None"
    by (simp add: sample_env_cache_down_def)
  have d: "resolveEmployeeFromFaceIdentifiers sample_env_cache_down sample_db (Some ''face-b'') (Some 8) None =
     (Inr (Some ?ravi), sample_db)"
    using resolve_order_and_cache [of sample_env_cache_down sample_db "Some ''face-b''" ?ravi "[]" "Some 8" None] sample_face_b_down sample_ravi_down down
    by (simp add: truthy_def text_of_def)
  have e: "map e_face_id (employee (update_face_id sample_db ''face-b'' 8)) =
     [Some ''face-a'', Some ''face-b'', None]"
    using resolve_order_and_cache [of sample_env sample_db None ?ravi "[]" None None "''face-b''" 8]
    by (simp add: sample_db_def)
  from a b c d e show ?thesis by simp
qed

subsection \<open>The punch processor, step by step\<close>

lemma concat_map_if:
  "concat (map (\<lambda>a. if P a then [f a] else []) xs) = map f (filter P xs)"
  by (induction xs) simp_all

lemma punch_row_id: "a_attendance_id (punch_row b t loc u act a) = a_attendance_id a"
  by (simp add: punch_row_def)

lemma filter_update_attendance:
  "filter (\<lambda>a. a_attendance_id a = aid) (attendance (update_attendance db b t loc u act aid)) =
   map (punch_row b t loc u act) (filter (\<lambda>a. a_attendance_id a = aid) (attendance db))"
  by (induction "attendance db" arbitrary: db)
     (auto simp: update_attendance_def punch_row_id filter_map o_def)

lemma applyPunch_ok:
  assumes "db_fails ev db (UpdateAttendance (pt = ''IN'') aid) = None"
    and "filter (\<lambda>a. a_attendance_id a = aid) (attendance db) = a # as"
  shows "applyPunch ev db aid pt uid loc u meta =
     (Inr \<lparr>row = punch_row (pt = ''IN'') (now ev) loc u (resolvePunchActor ev db uid) a,
           face_similarity = map_option similarity meta,
           face_match_threshold = map_option threshold meta\<rparr>,
      update_attendance db (pt = ''IN'') (now ev) loc u (resolvePunchActor ev db uid) aid)"
  using assms
  by (simp add: applyPunch_def PUNCH_TYPES_IN_def Let_def filter_update_attendance)

lemma ensureFaceMatch_mismatch:
  assumes "AWS_S3_BUCKET ev = Some b" "b \<noteq> []" "emp \<noteq> 0"
    and "db_fails ev db (SelectFaceEmbedding emp) = None"
    and "select_face_embedding db emp = fe # fes"
    and "resolveS3ObjectKey ev fe = Some fk" "fk \<noteq> []"
    and "compareFaces ev b fk k thr = Inr reply"
    and "bestMatchOf reply = None \<or> similarityOf (bestMatchOf reply) < thr"
  shows "ensureFaceMatch ev db (Some emp) k thr =
           Inl (face_mismatch_error ev (similarityOf (bestMatchOf reply)) thr)"
proof -
  from assms(6) have "truthy fe"
    by (auto simp: resolveS3ObjectKey_def truthy_def split: option.splits if_splits)
  with assms show ?thesis
    by (simp add: ensureFaceMatch_def run_def Let_def)
qed

lemma processPunch_mismatch_aux:
  assumes "requireFaceMatch options"
    and "uploadEvidence ev aid pt imageFile = Inr (Some u)" and "key u = Some k" and "k \<noteq> []"
    and "AWS_S3_BUCKET ev = Some b" and "b \<noteq> []"
    and "resolvedEmployeeId ev db aid options = Some emp" and "emp \<noteq> 0"
    and "db_fails ev db (SelectFaceEmbedding emp) = None"
    and "select_face_embedding db emp = fe # fes"
    and "resolveS3ObjectKey ev fe = Some fk" and "fk \<noteq> []"
    and "thr = (case faceMatchThreshold options of Some t \<Rightarrow> t
                | None \<Rightarrow> DEFAULT_FACE_MATCH_THRESHOLD ev)"
    and "compareFaces ev b fk k thr = Inr reply"
    and "bestMatchOf reply = None \<or> similarityOf (bestMatchOf reply) < thr"
  shows "processPunch ev db aid pt imageFile uid loc options =
           (Inl (face_mismatch_error ev (similarityOf (bestMatchOf reply)) thr), db)"
proof -
  have m: "ensureFaceMatch ev db (Some emp) k thr =
             Inl (face_mismatch_error ev (similarityOf (bestMatchOf reply)) thr)"
    using assms(5,6,8,9,10,11,12,14,15) by (rule ensureFaceMatch_mismatch)
  have v: "verifyFace ev db aid options (Some k) =
             Inl (face_mismatch_error ev (similarityOf (bestMatchOf reply)) thr)"
    using assms(1,4,5,6,7,8) m
    by (simp add: verifyFace_def truthy_def truthy_id_def text_of_def assms(13))
  show ?thesis
    using assms(2,3) v by (simp add: processPunch_def)
qed

text \<open>
  C2. A punch attempt with face verification required, whose comparison is made (evidence
  uploaded with a key, bucket configured, employee resolved, enrolled image found and
  resolved to a key, the service replying) and whose reply has no match or a best
  similarity below the threshold, fails with the error of status 401 whose details carry
  the observed similarity and the threshold, and leaves the whole store, so every field of
  the attendance record, as it was.
\<close>

theorem processPunch_face_mismatch:
  "requireFaceMatch options \<and>
   uploadEvidence ev aid pt imageFile = Inr (Some u) \<and> key u = Some k \<and> k \<noteq> [] \<and>
   AWS_S3_BUCKET ev = Some b \<and> b \<noteq> [] \<and>
   resolvedEmployeeId ev db aid options = Some emp \<and> emp \<noteq> 0 \<and>
   db_fails ev db (SelectFaceEmbedding emp) = None \<and>
   select_face_embedding db emp = fe # fes \<and>
   resolveS3ObjectKey ev fe = Some fk \<and> fk \<noteq> [] \<and>
   thr = (case faceMatchThreshold options of Some t \<Rightarrow> t | None \<Rightarrow> DEFAULT_FACE_MATCH_THRESHOLD ev) \<and>
   compareFaces ev b fk k thr = Inr reply \<and>
   (bestMatchOf reply = None \<or> similarityOf (bestMatchOf reply) < thr) \<longrightarrow>
     processPunch ev db aid pt imageFile uid loc options =
       (Inl \<lparr>err_name = ''Error'',
             message = ''Captured face does not match enrolled face'',
             statusCode = Some 401,
             details = Some (''Similarity '' @ toFixed2 ev (similarityOf (bestMatchOf reply)) @
                             ''% below threshold '' @ num_to_string ev thr @ ''%''),
             httpStatusCode = None\<rparr>,
        db)"
proof (intro impI, elim conjE)
  assume "requireFaceMatch options"
    and "uploadEvidence ev aid pt imageFile = Inr (Some u)" and "key u = Some k" and "k \<noteq> []"
    and "AWS_S3_BUCKET ev = Some b" and "b \<noteq> []"
    and "resolvedEmployeeId ev db aid options = Some emp" and "emp \<noteq> 0"
    and "db_fails ev db (SelectFaceEmbedding emp) = None"
    and "select_face_embedding db emp = fe # fes"
    and "resolveS3ObjectKey ev fe = Some fk" and "fk \<noteq> []"
    and "thr = (case faceMatchThreshold options of Some t \<Rightarrow> t
                | None \<Rightarrow> DEFAULT_FACE_MATCH_THRESHOLD ev)"
    and "compareFaces ev b fk k thr = Inr reply"
    and "bestMatchOf reply = None \<or> similarityOf (bestMatchOf reply) < thr"
  then have "processPunch ev db aid pt imageFile uid loc options =
           (Inl (face_mismatch_error ev (similarityOf (bestMatchOf reply)) thr), db)"
    by (rule processPunch_mismatch_aux)
  then show "processPunch ev db aid pt imageFile uid loc options =
       (Inl \<lparr>err_name = ''Error'',
             message = ''Captured face does not match enrolled face'',
             statusCode = Some 401,
             details = Some (''Similarity '' @ toFixed2 ev (similarityOf (bestMatchOf reply)) @
                             ''% below threshold '' @ num_to_string ev thr @ ''%''),
             httpStatusCode = None\<rparr>,
        db)"
    by (simp add: face_mismatch_error_def with_status_def Error_def)
qed

lemma sample_upload:
  "uploadEvidence sample_env_mismatch 1 ''IN'' (Some [1]) =
     Inr (Some \<lparr>url = Some ''https://store/attendance_1_IN.jpg'', key = Some ''attendance_1_IN.jpg''\<rparr>)"
  by (simp add: uploadEvidence_def sample_env_mismatch_def sample_env_def attendance_file_name_def
      digit_def)

theorem processPunch_face_mismatch_witness:
  "processPunch sample_env_mismatch sample_db_open 1 ''IN'' (Some [1]) Undefined sample_location
     \<lparr>employeeId = Some 7, requireFaceMatch = True, faceMatchThreshold = Some 90\<rparr> =
     (Inl \<lparr>err_name = ''Error'',
           message = ''Captured face does not match enrolled face'',
           statusCode = Some 401,
           details = Some ''Similarity 85.00% below threshold 90%'',
           httpStatusCode = None\<rparr>,
      sample_db_open)"
proof -
  let ?o = "\<lparr>employeeId = Some 7, requireFaceMatch = True, faceMatchThreshold = Some 90\<rparr>"
  let ?u = "\<lparr>url = Some ''https://store/attendance_1_IN.jpg'', key = Some ''attendance_1_IN.jpg''\<rparr>"
  have e: "select_face_embedding sample_db_open 7 = [Some ''faces/7.jpg'']"
    by (simp add: select_face_embedding_def sample_db_open_def sample_db_def)
  have k: "resolveS3ObjectKey sample_env_mismatch (Some ''faces/7.jpg'') = Some ''faces/7.jpg''"
    by (simp add: resolveS3ObjectKey_def)
  have c: "compareFaces sample_env_mismatch ''attendease'' ''faces/7.jpg'' ''attendance_1_IN.jpg'' 90 =
             Inr (Some [Some 85])"
    by (simp add: sample_env_mismatch_def)
  have s: "similarityOf (bestMatchOf (Some [Some 85])) = 85"
    by (simp add: similarityOf_def bestMatchOf_def)
  have r: "resolvedEmployeeId sample_env_mismatch sample_db_open 1 ?o = Some 7"
    by (simp add: resolvedEmployeeId_def)
  have f: "toFixed2 sample_env_mismatch 85 = ''85.00''" "num_to_string sample_env_mismatch 90 = ''90''"
    by (simp_all add: sample_env_mismatch_def sample_env_def two_digits_def digit_def)
  show ?thesis
    using processPunch_face_mismatch [of ?o sample_env_mismatch 1 "''IN''" "Some [1]" ?u
        "''attendance_1_IN.jpg''" "''attendease''" sample_db_open 7 "Some ''faces/7.jpg''" "[]"
        "''faces/7.jpg''" 90 "Some [Some 85]" Undefined sample_location]
      sample_upload e k c s r f
    by (simp add: sample_env_mismatch_def sample_env_def)
qed

lemma run_compare: "run (ev\<lparr>compareFaces := c\<rparr>) db q v = run ev db q v"
  by (simp add: run_def)

lemma uploadEvidence_compare:
  "uploadEvidence (ev\<lparr>compareFaces := c\<rparr>) aid pt imageFile = uploadEvidence ev aid pt imageFile"
  by (simp add: uploadEvidence_def attendance_file_name_def split: option.splits)

lemma resolvedEmployeeId_compare:
  "resolvedEmployeeId (ev\<lparr>compareFaces := c\<rparr>) db aid options = resolvedEmployeeId ev db aid options"
  by (simp add: resolvedEmployeeId_def resolveAttendanceEmployeeId_def run_compare
      cong: option.case_cong)

lemma resolvePunchActor_compare:
  "resolvePunchActor (ev\<lparr>compareFaces := c\<rparr>) db uid = resolvePunchActor ev db uid"
  by (cases uid)
     (simp_all add: resolvePunchActor_def normalizeId_def Number_def run_compare
        cong: option.case_cong)

lemma applyPunch_compare:
  "applyPunch (ev\<lparr>compareFaces := c\<rparr>) db aid pt uid loc u meta = applyPunch ev db aid pt uid loc u meta"
  by (simp add: applyPunch_def resolvePunchActor_compare Let_def cong: option.case_cong)

lemma verifyFace_skipped:
  assumes "truthy k"
    and "\<not> truthy (AWS_S3_BUCKET ev) \<or> \<not> truthy_id (resolvedEmployeeId ev db aid options)"
  shows "verifyFace ev db aid options k = Inr None"
  using assms by (auto simp: verifyFace_def)

text \<open>
  C4. A call of \<open>processPunch\<close> with face verification required and the evidence uploaded
  with a key, made when no bucket is configured or the employee of the record is not
  resolved, performs no verification: the guard yields no face match, the result does not
  depend on the comparison service at all, and the call goes on to the update exactly as a
  punch without verification would. The update then records the punch on the attendance row
  of that id (given that the row exists and the store accepts the statement), with no
  similarity attached.
\<close>

theorem processPunch_verification_skipped:
  "requireFaceMatch options \<and>
   uploadEvidence ev aid pt imageFile = Inr (Some u) \<and> truthy (key u) \<and>
   (\<not> truthy (AWS_S3_BUCKET ev) \<or> \<not> truthy_id (resolvedEmployeeId ev db aid options)) \<longrightarrow>
     verifyFace ev db aid options (key u) = Inr None \<and>
     processPunch (ev\<lparr>compareFaces := c\<rparr>) db aid pt imageFile uid loc options =
       processPunch ev db aid pt imageFile uid loc options \<and>
     processPunch ev db aid pt imageFile uid loc options =
       applyPunch ev db aid pt uid loc (url u) None \<and>
     (db_fails ev db (UpdateAttendance (pt = ''IN'') aid) = None \<and>
      filter (\<lambda>r. a_attendance_id r = aid) (attendance db) = a # as \<longrightarrow>
        processPunch ev db aid pt imageFile uid loc options =
          (Inr \<lparr>row = punch_row (pt = ''IN'') (now ev) loc (url u) (resolvePunchActor ev db uid) a,
                face_similarity = None, face_match_threshold = None\<rparr>,
           update_attendance db (pt = ''IN'') (now ev) loc (url u) (resolvePunchActor ev db uid) aid))"
proof (intro impI, elim conjE)
  assume up: "uploadEvidence ev aid pt imageFile = Inr (Some u)"
    and k: "truthy (key u)"
    and skip: "\<not> truthy (AWS_S3_BUCKET ev) \<or> \<not> truthy_id (resolvedEmployeeId ev db aid options)"
  have v: "verifyFace ev db aid options (key u) = Inr None"
    using k skip by (rule verifyFace_skipped)
  have p: "processPunch ev db aid pt imageFile uid loc options =
             applyPunch ev db aid pt uid loc (url u) None"
    using up v by (simp add: processPunch_def)
  let ?ev = "ev\<lparr>compareFaces := c\<rparr>"
  have skip': "\<not> truthy (AWS_S3_BUCKET ?ev) \<or> \<not> truthy_id (resolvedEmployeeId ?ev db aid options)"
    using skip by (simp add: resolvedEmployeeId_compare)
  have v': "verifyFace ?ev db aid options (key u) = Inr None"
    using k skip' by (rule verifyFace_skipped)
  have p': "processPunch ?ev db aid pt imageFile uid loc options =
              applyPunch ev db aid pt uid loc (url u) None"
    using up v' by (simp add: processPunch_def uploadEvidence_compare applyPunch_compare)
  have q: "processPunch ev db aid pt imageFile uid loc options =
          (Inr \<lparr>row = punch_row (pt = ''IN'') (now ev) loc (url u) (resolvePunchActor ev db uid) a,
                face_similarity = None, face_match_threshold = None\<rparr>,
           update_attendance db (pt = ''IN'') (now ev) loc (url u) (resolvePunchActor ev db uid) aid)"
    if "db_fails ev db (UpdateAttendance (pt = ''IN'') aid) = None"
      and "filter (\<lambda>r. a_attendance_id r = aid) (attendance db) = a # as"
    using applyPunch_ok [OF that, of uid loc "url u" None] p by simp
  show "verifyFace ev db aid options (key u) = Inr None \<and>
     processPunch (ev\<lparr>compareFaces := c\<rparr>) db aid pt imageFile uid loc options =
       processPunch ev db aid pt imageFile uid loc options \<and>
     processPunch ev db aid pt imageFile uid loc options =
       applyPunch ev db aid pt uid loc (url u) None \<and>
     (db_fails ev db (UpdateAttendance (pt = ''IN'') aid) = None \<and>
      filter (\<lambda>r. a_attendance_id r = aid) (attendance db) = a # as \<longrightarrow>
        processPunch ev db aid pt imageFile uid loc options =
          (Inr \<lparr>row = punch_row (pt = ''IN'') (now ev) loc (url u) (resolvePunchActor ev db uid) a,
                face_similarity = None, face_match_threshold = None\<rparr>,
           update_attendance db (pt = ''IN'') (now ev) loc (url u) (resolvePunchActor ev db uid) aid))"
    using v p p' q by simp
qed

lemma sample_upload_no_bucket:
  "uploadEvidence sample_env_no_bucket 1 ''IN'' (Some [1]) =
     Inr (Some \<lparr>url = Some ''https://store/attendance_1_IN.jpg'', key = Some ''attendance_1_IN.jpg''\<rparr>)"
  by (simp add: uploadEvidence_def sample_env_no_bucket_def sample_env_mismatch_def sample_env_def
      attendance_file_name_def digit_def)

lemma sample_rows_1:
  "filter (\<lambda>r. a_attendance_id r = 1) (attendance sample_db_open) =
     [new_attendance_row sample_db 7 ''2024-01-15'' (Some 3)]"
  by (simp add: sample_db_open_def sample_db_def new_attendance_row_def)

lemma sample_actor:
  "resolvePunchActor sample_env_no_bucket sample_db_open (JStr ''1'') = Some 1"
  "resolvePunchActor sample_env_mismatch sample_db_open (JStr ''1'') = Some 1"
  by (simp_all add: resolvePunchActor_def normalizeId_def Number_def run_def select_user_def
      sample_env_no_bucket_def sample_env_mismatch_def sample_env_def sample_Number_def
      digit_value_def sample_db_open_def sample_db_def)

theorem processPunch_verification_skipped_witness:
  "processPunch sample_env_no_bucket sample_db_open 1 ''IN'' (Some [1]) (JStr ''1'') sample_location
     \<lparr>employeeId = Some 7, requireFaceMatch = True, faceMatchThreshold = Some 90\<rparr> =
     (Inr \<lparr>row = punch_row True 32700 sample_location (Some ''https://store/attendance_1_IN.jpg'')
                   (Some 1) (new_attendance_row sample_db 7 ''2024-01-15'' (Some 3)),
           face_similarity = None, face_match_threshold = None\<rparr>,
      update_attendance sample_db_open True 32700 sample_location
        (Some ''https://store/attendance_1_IN.jpg'') (Some 1) 1) \<and>
   processPunch sample_env_mismatch sample_db_open 1 ''IN'' (Some [1]) (JStr ''1'') sample_location
     \<lparr>employeeId = Some 0, requireFaceMatch = True, faceMatchThreshold = Some 90\<rparr> =
     (Inr \<lparr>row = punch_row True 32700 sample_location (Some ''https://store/attendance_1_IN.jpg'')
                   (Some 1) (new_attendance_row sample_db 7 ''2024-01-15'' (Some 3)),
           face_similarity = None, face_match_threshold = None\<rparr>,
      update_attendance sample_db_open True 32700 sample_location
        (Some ''https://store/attendance_1_IN.jpg'') (Some 1) 1) \<and>
   map a_punch_in_time
     (attendance (update_attendance sample_db_open True 32700 sample_location
        (Some ''https://store/attendance_1_IN.jpg'') (Some 1) 1)) = [Some 32700, None]"
proof -
  let ?u = "\<lparr>url = Some ''https://store/attendance_1_IN.jpg'', key = Some ''attendance_1_IN.jpg''\<rparr>"
  let ?a = "new_attendance_row sample_db 7 ''2024-01-15'' (Some 3)"
  let ?o7 = "\<lparr>employeeId = Some 7, requireFaceMatch = True, faceMatchThreshold = Some 90\<rparr>"
  let ?o0 = "\<lparr>employeeId = Some 0, requireFaceMatch = True, faceMatchThreshold = Some 90\<rparr>"
  have n: "now sample_env_no_bucket = 32700" "now sample_env_mismatch = 32700"
    by (simp_all add: sample_env_no_bucket_def sample_env_mismatch_def sample_env_def)
  have h1: "requireFaceMatch ?o7 \<and>
      uploadEvidence sample_env_no_bucket 1 ''IN'' (Some [1]) = Inr (Some ?u) \<and> truthy (key ?u) \<and>
      (\<not> truthy (AWS_S3_BUCKET sample_env_no_bucket) \<or>
       \<not> truthy_id (resolvedEmployeeId sample_env_no_bucket sample_db_open 1 ?o7))"
    using sample_upload_no_bucket by (simp add: truthy_def sample_env_no_bucket_def)
  have g1: "db_fails sample_env_no_bucket sample_db_open (UpdateAttendance (''IN'' = ''IN'') 1) = None \<and>
      filter (\<lambda>r. a_attendance_id r = 1) (attendance sample_db_open) = ?a # []"
    using sample_rows_1
    by (simp add: sample_env_no_bucket_def sample_env_mismatch_def sample_env_def)
  have a: "processPunch sample_env_no_bucket sample_db_open 1 ''IN'' (Some [1]) (JStr ''1'')
       sample_location ?o7 =
     (Inr \<lparr>row = punch_row True 32700 sample_location (Some ''https://store/attendance_1_IN.jpg'')
                   (Some 1) ?a,
           face_similarity = None, face_match_threshold = None\<rparr>,
      update_attendance sample_db_open True 32700 sample_location
        (Some ''https://store/attendance_1_IN.jpg'') (Some 1) 1)"
    using processPunch_verification_skipped [of ?o7 sample_env_no_bucket 1 "''IN''" "Some [1]" ?u
        sample_db_open "compareFaces sample_env" "JStr ''1''" sample_location ?a "[]",
        THEN mp, OF h1, THEN conjunct2, THEN conjunct2, THEN conjunct2, THEN mp, OF g1]
    by (simp add: sample_actor n)
  have h2: "requireFaceMatch ?o0 \<and>
      uploadEvidence sample_env_mismatch 1 ''IN'' (Some [1]) = Inr (Some ?u) \<and> truthy (key ?u) \<and>
      (\<not> truthy (AWS_S3_BUCKET sample_env_mismatch) \<or>
       \<not> truthy_id (resolvedEmployeeId sample_env_mismatch sample_db_open 1 ?o0))"
    using sample_upload by (simp add: truthy_def truthy_id_def resolvedEmployeeId_def)
  have g2: "db_fails sample_env_mismatch sample_db_open (UpdateAttendance (''IN'' = ''IN'') 1) = None \<and>
      filter (\<lambda>r. a_attendance_id r = 1) (attendance sample_db_open) = ?a # []"
    using sample_rows_1 by (simp add: sample_env_mismatch_def sample_env_def)
  have b: "processPunch sample_env_mismatch sample_db_open 1 ''IN'' (Some [1]) (JStr ''1'')
       sample_location ?o0 =
     (Inr \<lparr>row = punch_row True 32700 sample_location (Some ''https://store/attendance_1_IN.jpg'')
                   (Some 1) ?a,
           face_similarity = None, face_match_threshold = None\<rparr>,
      update_attendance sample_db_open True 32700 sample_location
        (Some ''https://store/attendance_1_IN.jpg'') (Some 1) 1)"
    using processPunch_verification_skipped [of ?o0 sample_env_mismatch 1 "''IN''" "Some [1]" ?u
        sample_db_open "compareFaces sample_env" "JStr ''1''" sample_location ?a "[]",
        THEN mp, OF h2, THEN conjunct2, THEN conjunct2, THEN conjunct2, THEN mp, OF g2]
    by (simp add: sample_actor n)
  have c: "map a_punch_in_time
     (attendance (update_attendance sample_db_open True 32700 sample_location
        (Some ''https://store/attendance_1_IN.jpg'') (Some 1) 1)) = [Some 32700, None]"
    by (simp add: update_attendance_def sample_db_open_def sample_db_def new_attendance_row_def
        punch_row_def)
  from a b c show ?thesis by simp
qed

lemma select_attendance_state_filter:
  "select_attendance_state db aid =
     map (\<lambda>a. (a_emp_id a, a_punch_in_time a, a_punch_out_time a))
       (filter (\<lambda>a. a_attendance_id a = aid) (attendance db))"
  by (simp add: select_attendance_state_def concat_map_if)

lemma verifyFace_not_required:
  "\<not> requireFaceMatch options \<Longrightarrow> verifyFace ev db aid options k = Inr None"
  by (simp add: verifyFace_def)

text \<open>
  C10. For a direction string other than exactly \<open>IN\<close> and \<open>OUT\<close> the legality check
  returns no error, whatever the record. The manual punch route, given such a direction in
  a request with all its required fields, an existing attendance row, a store that serves
  its two statements and an upload that does not fail, answers 200 and applies the request
  as a punch-out: it sets the punch-out time, location, evidence and actor of the row and
  nothing else, whether or not a punch-in is set.
\<close>

theorem manual_punch_other_direction:
  "t \<noteq> ''IN'' \<and> t \<noteq> ''OUT'' \<longrightarrow>
     validatePunchAttempt (Some a) t = None \<and>
     (pr_attendance_id req = Some aid \<and> pr_punch_type req = Some t \<and> t \<noteq> [] \<and>
      truthy (pr_latitude req) \<and> truthy (pr_longitude req) \<and> truthy (pr_address req) \<and>
      db_fails ev db (SelectAttendanceState aid) = None \<and>
      filter (\<lambda>r. a_attendance_id r = aid) (attendance db) = r0 # rs \<and>
      uploadEvidence ev aid t (pr_file req) = Inr up \<and>
      db_fails ev db (UpdateAttendance False aid) = None \<and>
      loc = \<lparr>latitude = text_of (pr_latitude req), longitude = text_of (pr_longitude req),
             address = text_of (pr_address req)\<rparr> \<and>
      imageUrl = (case up of None \<Rightarrow> None | Some u \<Rightarrow> url u) \<and>
      actor = resolvePunchActor ev db (field (pr_userId req)) \<longrightarrow>
        put_attendance ev db req =
          (\<lparr>code = 200,
            body = PunchUpdated (''Punch '' @ t @ '' updated successfully'')
                     \<lparr>row = punch_row False (now ev) loc imageUrl actor r0,
                      face_similarity = None, face_match_threshold = None\<rparr>\<rparr>,
           update_attendance db False (now ev) loc imageUrl actor aid) \<and>
        punch_row False (now ev) loc imageUrl actor r0 =
          r0\<lparr>a_punch_out_time := Some (now ev),
               a_latitude_out := Some (latitude loc),
               a_longitude_out := Some (longitude loc),
               a_out_address := Some (address loc),
               a_punch_out_image := imageUrl,
               a_punched_out_by := actor\<rparr>)"
proof (intro impI conjI, goal_cases)
  case 1
  then show ?case
    by (simp add: validatePunchAttempt_def PUNCH_TYPES_IN_def PUNCH_TYPES_OUT_def)
next
  case 2
  then have t: "t \<noteq> ''IN''" "t \<noteq> ''OUT''"
    and f: "filter (\<lambda>r. a_attendance_id r = aid) (attendance db) = r0 # rs"
    and upd: "db_fails ev db (UpdateAttendance (t = ''IN'') aid) = None"
    and up: "uploadEvidence ev aid t (pr_file req) = Inr up"
    by simp_all
  have p: "processPunch ev db aid t (pr_file req) (field (pr_userId req)) loc
             \<lparr>employeeId = Some (a_emp_id r0), requireFaceMatch = False, faceMatchThreshold = None\<rparr> =
           (Inr \<lparr>row = punch_row False (now ev) loc imageUrl actor r0,
                 face_similarity = None, face_match_threshold = None\<rparr>,
            update_attendance db False (now ev) loc imageUrl actor aid)"
    using applyPunch_ok [OF upd f, of "field (pr_userId req)" loc imageUrl None] up 2 t
    by (simp add: processPunch_def verifyFace_not_required)
  from 2 t show ?case
    using p
    by (simp add: put_attendance_def run_def select_attendance_state_filter f truthy_def
        text_of_def PUNCH_TYPES_IN_def PUNCH_TYPES_OUT_def)
next
  case 3
  then show ?case by (simp add: punch_row_def)
qed

theorem manual_punch_other_direction_witness:
  "put_attendance sample_env sample_db_open sample_put_out =
     (\<lparr>code = 200,
       body = PunchUpdated ''Punch out updated successfully''
                \<lparr>row = punch_row False 32700 sample_location None (Some 1)
                         (new_attendance_row sample_db 7 ''2024-01-15'' (Some 3)),
                 face_similarity = None, face_match_threshold = None\<rparr>\<rparr>,
      update_attendance sample_db_open False 32700 sample_location None (Some 1) 1) \<and>
   map (\<lambda>r. (a_punch_in_time r, a_punch_out_time r))
     (attendance (update_attendance sample_db_open False 32700 sample_location None (Some 1) 1)) =
     [(None, Some 32700), (None, None)]"
proof -
  let ?a = "new_attendance_row sample_db 7 ''2024-01-15'' (Some 3)"
  have t: "''out'' \<noteq> ''IN'' \<and> ''out'' \<noteq> ''OUT''" by simp
  have actor: "resolvePunchActor sample_env sample_db_open (field (pr_userId sample_put_out)) = Some 1"
    by (simp add: resolvePunchActor_def normalizeId_def Number_def run_def select_user_def
        sample_env_def sample_Number_def digit_value_def sample_db_open_def sample_db_def
        sample_put_out_def field_def)
  have h: "pr_attendance_id sample_put_out = Some 1 \<and> pr_punch_type sample_put_out = Some ''out'' \<and>
      ''out'' \<noteq> [] \<and>
      truthy (pr_latitude sample_put_out) \<and> truthy (pr_longitude sample_put_out) \<and>
      truthy (pr_address sample_put_out) \<and>
      db_fails sample_env sample_db_open (SelectAttendanceState 1) = None \<and>
      filter (\<lambda>r. a_attendance_id r = 1) (attendance sample_db_open) = ?a # [] \<and>
      uploadEvidence sample_env 1 ''out'' (pr_file sample_put_out) = Inr None \<and>
      db_fails sample_env sample_db_open (UpdateAttendance False 1) = None \<and>
      sample_location =
        \<lparr>latitude = text_of (pr_latitude sample_put_out),
         longitude = text_of (pr_longitude sample_put_out),
         address = text_of (pr_address sample_put_out)\<rparr> \<and>
      None = (case None of None \<Rightarrow> None | Some u \<Rightarrow> url u) \<and>
      Some 1 = resolvePunchActor sample_env sample_db_open (field (pr_userId sample_put_out))"
    using sample_rows_1 actor
    by (simp add: sample_put_out_def truthy_def text_of_def sample_location_def uploadEvidence_def
        sample_env_def)
  have a: "put_attendance sample_env sample_db_open sample_put_out =
     (\<lparr>code = 200,
       body = PunchUpdated ''Punch out updated successfully''
                \<lparr>row = punch_row False 32700 sample_location None (Some 1) ?a,
                 face_similarity = None, face_match_threshold = None\<rparr>\<rparr>,
      update_attendance sample_db_open False 32700 sample_location None (Some 1) 1)"
    using manual_punch_other_direction [of "''out''" undefined sample_put_out 1 sample_env
        sample_db_open ?a "[]" None sample_location None "Some 1",
        THEN mp, OF t, THEN conjunct2, THEN mp, OF h, THEN conjunct1]
    by (simp add: sample_env_def)
  have c: "map (\<lambda>r. (a_punch_in_time r, a_punch_out_time r))
     (attendance (update_attendance sample_db_open False 32700 sample_location None (Some 1) 1)) =
     [(None, Some 32700), (None, None)]"
    by (simp add: update_attendance_def sample_db_open_def sample_db_def new_attendance_row_def
        punch_row_def)
  from a c show ?thesis by simp
qed

subsection \<open>Group capture\<close>

lemma matchFace_step:
  assumes "matchFace ev cx buf i P db = (r, P', db')"
  shows "case r of
           Inl _ \<Rightarrow> P' = P
         | Inr out \<Rightarrow>
             P' = P \<union> {e. o_employeeId out = Some e \<and> o_status out \<noteq> ''duplicate''} \<and>
             (\<forall>e. o_employeeId out = Some e \<and> e \<in> P \<longrightarrow> o_status out = ''duplicate'')"
  using assms
  by (auto simp: matchFace_def face_outcome_def
      split: sum.splits option.splits list.splits prod.splits if_splits)

lemma processFace_step:
  assumes "processFace ev cx fd i P db = (out, P', db')"
  shows "P' = P \<union> {e. o_employeeId out = Some e \<and> o_status out \<noteq> ''duplicate''} \<and>
         (\<forall>e. o_employeeId out = Some e \<and> e \<in> P \<longrightarrow> o_status out = ''duplicate'')"
proof (cases "computeCropRegion ev fd (imageWidth cx) (imageHeight cx) (1 / 4)")
  case None
  with assms show ?thesis by (auto simp: processFace_def face_outcome_def)
next
  case (Some region)
  show ?thesis
  proof (cases "sharp_extract ev (image cx) region")
    case (Inl e)
    with Some assms show ?thesis by (auto simp: processFace_def face_outcome_def)
  next
    case (Inr buf)
    obtain r P1 db1 where m: "matchFace ev cx buf i P db = (r, P1, db1)"
      by (cases "matchFace ev cx buf i P db") auto
    from matchFace_step [OF m] Some Inr assms m show ?thesis
      by (cases r) (auto simp: processFace_def face_outcome_def Let_def)
  qed
qed

lemma dedup_append:
  assumes K: "P = {e. \<exists>x\<in>set rs. o_employeeId x = Some e \<and> o_status x \<noteq> ''duplicate''}"
    and A: "length (filter (\<lambda>x. o_status x = ''punched'' \<and> o_employeeId x = Some e) rs) \<le> 1"
    and dup: "\<forall>e. o_employeeId out = Some e \<and> e \<in> P \<longrightarrow> o_status out = ''duplicate''"
  shows "length (filter (\<lambda>x. o_status x = ''punched'' \<and> o_employeeId x = Some e) (rs @ [out])) \<le> 1"
proof (cases "o_status out = ''punched'' \<and> o_employeeId out = Some e")
  case False
  with A show ?thesis by auto
next
  case True
  with dup have "e \<notin> P" by auto
  with K have "\<forall>x\<in>set rs. \<not> (o_employeeId x = Some e \<and> o_status x \<noteq> ''duplicate'')"
    by blast
  then have "filter (\<lambda>x. o_status x = ''punched'' \<and> o_employeeId x = Some e) rs = []"
    by (auto simp: filter_empty_conv)
  with True show ?thesis by simp
qed

lemma later_duplicate_append:
  assumes K: "P = {e. \<exists>x\<in>set rs. o_employeeId x = Some e \<and> o_status x \<noteq> ''duplicate''}"
    and B: "\<forall>i j. i < j \<and> j < length rs \<and> o_employeeId (rs ! i) = Some e \<and>
              o_status (rs ! i) \<noteq> ''duplicate'' \<and> o_employeeId (rs ! j) = Some e \<longrightarrow>
              o_status (rs ! j) = ''duplicate''"
    and dup: "\<forall>e. o_employeeId out = Some e \<and> e \<in> P \<longrightarrow> o_status out = ''duplicate''"
  shows "\<forall>i j. i < j \<and> j < length (rs @ [out]) \<and> o_employeeId ((rs @ [out]) ! i) = Some e \<and>
              o_status ((rs @ [out]) ! i) \<noteq> ''duplicate'' \<and>
              o_employeeId ((rs @ [out]) ! j) = Some e \<longrightarrow>
              o_status ((rs @ [out]) ! j) = ''duplicate''"
proof (intro allI impI)
  fix i j
  assume h: "i < j \<and> j < length (rs @ [out]) \<and> o_employeeId ((rs @ [out]) ! i) = Some e \<and>
              o_status ((rs @ [out]) ! i) \<noteq> ''duplicate'' \<and>
              o_employeeId ((rs @ [out]) ! j) = Some e"
  then have i: "i < length rs" by simp
  with h have ri: "o_employeeId (rs ! i) = Some e" "o_status (rs ! i) \<noteq> ''duplicate''"
    by (simp_all add: nth_append)
  show "o_status ((rs @ [out]) ! j) = ''duplicate''"
  proof (cases "j < length rs")
    case True
    with h have rj: "o_employeeId (rs ! j) = Some e" by (simp add: nth_append)
    from h have "i < j" by simp
    with B True ri rj have "o_status (rs ! j) = ''duplicate''" by blast
    with True show ?thesis by (simp add: nth_append)
  next
    case False
    with h have j: "j = length rs" by simp
    from i ri K have "e \<in> P" using nth_mem [OF i] by blast
    with h j dup show ?thesis by simp
  qed
qed

lemma groupLoop_invariant:
  assumes "groupLoop ev cx fds idx P rs db = (rs', P', db')"
    and "P = {e. \<exists>x\<in>set rs. o_employeeId x = Some e \<and> o_status x \<noteq> ''duplicate''}"
    and "\<forall>e. length (filter (\<lambda>x. o_status x = ''punched'' \<and> o_employeeId x = Some e) rs) \<le> 1"
    and "\<forall>e i j. i < j \<and> j < length rs \<and> o_employeeId (rs ! i) = Some e \<and>
              o_status (rs ! i) \<noteq> ''duplicate'' \<and> o_employeeId (rs ! j) = Some e \<longrightarrow>
              o_status (rs ! j) = ''duplicate''"
  shows "P' = {e. \<exists>x\<in>set rs'. o_employeeId x = Some e \<and> o_status x \<noteq> ''duplicate''} \<and>
         (\<forall>e. length (filter (\<lambda>x. o_status x = ''punched'' \<and> o_employeeId x = Some e) rs') \<le> 1) \<and>
         (\<forall>e i j. i < j \<and> j < length rs' \<and> o_employeeId (rs' ! i) = Some e \<and>
              o_status (rs' ! i) \<noteq> ''duplicate'' \<and> o_employeeId (rs' ! j) = Some e \<longrightarrow>
              o_status (rs' ! j) = ''duplicate'')"
  using assms
proof (induction fds arbitrary: idx P rs db)
  case Nil
  then show ?case by auto
next
  case (Cons fd fds)
  obtain out P1 db1 where step: "processFace ev cx fd (idx + 1) P db = (out, P1, db1)"
    by (cases "processFace ev cx fd (idx + 1) P db") auto
  note st = processFace_step [OF step]
  from Cons.prems(1) step
  have loop: "groupLoop ev cx fds (idx + 1) P1 (rs @ [out]) db1 = (rs', P', db')"
    by simp
  have K1: "P1 = {e. \<exists>x\<in>set (rs @ [out]). o_employeeId x = Some e \<and> o_status x \<noteq> ''duplicate''}"
    using st Cons.prems(2) by auto
  have A1: "\<forall>e. length (filter (\<lambda>x. o_status x = ''punched'' \<and> o_employeeId x = Some e)
                        (rs @ [out])) \<le> 1"
    using dedup_append [OF Cons.prems(2)] Cons.prems(3) st by blast
  have B1: "\<forall>e i j. i < j \<and> j < length (rs @ [out]) \<and> o_employeeId ((rs @ [out]) ! i) = Some e \<and>
              o_status ((rs @ [out]) ! i) \<noteq> ''duplicate'' \<and>
              o_employeeId ((rs @ [out]) ! j) = Some e \<longrightarrow>
              o_status ((rs @ [out]) ! j) = ''duplicate''"
    using later_duplicate_append [OF Cons.prems(2)] Cons.prems(4) st by blast
  from Cons.IH [OF loop K1 A1 B1] show ?case .
qed

lemma sample_crop:
  "computeCropRegion sample_env (Some \<lparr>Width = 1 / 10, Height = 1 / 10, Left = of_nat 1 / 10, Top = 1 / 10\<rparr>) 1000 1000 (1 / 4) =
     Some \<lparr>left = 75, crop_top = 75, width = 150, height = 150\<rparr>"
  "computeCropRegion sample_env (Some \<lparr>Width = 1 / 10, Height = 1 / 10, Left = of_nat 4 / 10, Top = 1 / 10\<rparr>) 1000 1000 (1 / 4) =
     Some \<lparr>left = 375, crop_top = 75, width = 150, height = 150\<rparr>"
  "computeCropRegion sample_env (Some \<lparr>Width = 1 / 10, Height = 1 / 10, Left = of_nat 7 / 10, Top = 1 / 10\<rparr>) 1000 1000 (1 / 4) =
     Some \<lparr>left = 675, crop_top = 75, width = 150, height = 150\<rparr>"
  by (simp_all add: computeCropRegion_def Math_round_def Let_def sample_env_def)

lemma insert_attendance_tables:
  "employee (insert_attendance db e d w) = employee db"
  "designation (insert_attendance db e d w) = designation db"
  "wards (insert_attendance db e d w) = wards db"
  "users (insert_attendance db e d w) = users db"
  by (simp_all add: insert_attendance_def)

lemma update_attendance_tables:
  "employee (update_attendance db b t loc u act aid) = employee db"
  "designation (update_attendance db b t loc u act aid) = designation db"
  "wards (update_attendance db b t loc u act aid) = wards db"
  "users (update_attendance db b t loc u act aid) = users db"
  "attendance_id_seq (update_attendance db b t loc u act aid) = attendance_id_seq db"
  by (simp_all add: update_attendance_def)

lemma sample_resolve_asha:
  assumes "employee db = employee sample_db"
  shows "resolveEmployeeFromFaceIdentifiers sample_env db (Some ''face-a'') m None =
           (Inr (Some \<lparr>er_emp_id = 7, er_name = Some ''Asha''\<rparr>), db)"
  using assms
  by (simp add: resolveEmployeeFromFaceIdentifiers_def lookupByFaceId_def run_def
      select_employee_by_face_def sample_env_def sample_db_def)

lemma sample_create_asha:
  "getOrCreateAttendanceRecord sample_env sample_db 7 ''2024-01-15'' =
     (Inr sample_att1, insert_attendance sample_db 7 ''2024-01-15'' (Some 3))"
  by (simp add: getOrCreateAttendanceRecord_def run_def select_attendance_join_def
      select_ward_def select_employee_details_def insert_attendance_tables Let_def
      new_attendance_row_def sample_att1_def sample_env_def sample_db_def)

lemma sample_verify_asha:
  assumes "employee db = employee sample_db" and "k \<noteq> []"
  shows "verifyFace sample_env db 1
           \<lparr>employeeId = Some 7, requireFaceMatch = True, faceMatchThreshold = Some 90\<rparr> (Some k) =
         Inr (Some \<lparr>similarity = 95, threshold = 90\<rparr>)"
  using assms
  by (simp add: verifyFace_def truthy_def truthy_id_def resolvedEmployeeId_def text_of_def
      ensureFaceMatch_def run_def select_face_embedding_def resolveS3ObjectKey_def
      bestMatchOf_def similarityOf_def sample_env_def sample_db_def)

lemma sample_upload_face:
  "uploadEvidence sample_env 1 ''IN'' (Some buf) =
     Inr (Some \<lparr>url = Some ''https://store/attendance_1_IN.jpg'', key = Some ''attendance_1_IN.jpg''\<rparr>)"
  by (simp add: uploadEvidence_def sample_env_def attendance_file_name_def digit_def)

lemma sample_actor_1:
  assumes "users db = users sample_db"
  shows "resolvePunchActor sample_env db (JStr ''1'') = Some 1"
  using assms
  by (simp add: resolvePunchActor_def normalizeId_def Number_def run_def select_user_def
      sample_env_def sample_Number_def digit_value_def sample_db_def)

lemma sample_punch_asha:
  "processPunch sample_env sample_db_created 1 ''IN'' (Some buf) (JStr ''1'') sample_location
     \<lparr>employeeId = Some 7, requireFaceMatch = True, faceMatchThreshold = Some 90\<rparr> =
     (Inr \<lparr>row = punch_row True 32700 sample_location (Some ''https://store/attendance_1_IN.jpg'')
                   (Some 1) (new_attendance_row sample_db 7 ''2024-01-15'' (Some 3)),
           face_similarity = Some 95, face_match_threshold = Some 90\<rparr>,
      sample_db_punched)"
proof -
  have rows: "filter (\<lambda>a. a_attendance_id a = 1) (attendance sample_db_created) =
                [new_attendance_row sample_db 7 ''2024-01-15'' (Some 3)]"
    by (simp add: sample_db_created_def insert_attendance_def new_attendance_row_def sample_db_def)
  have ok: "db_fails sample_env sample_db_created (UpdateAttendance (''IN'' = ''IN'') 1) = None"
    by (simp add: sample_env_def)
  have tabs: "employee sample_db_created = employee sample_db"
    "users sample_db_created = users sample_db"
    by (simp_all add: sample_db_created_def insert_attendance_tables)
  have n: "now sample_env = 32700" by (simp add: sample_env_def)
  show ?thesis
    using applyPunch_ok [OF ok rows, of "JStr ''1''" sample_location
        "Some ''https://store/attendance_1_IN.jpg''" "Some \<lparr>similarity = 95, threshold = 90\<rparr>"]
    by (simp add: processPunch_def sample_upload_face sample_verify_asha [OF tabs(1)]
        sample_actor_1 [OF tabs(2)] n sample_db_punched_def)
qed

lemma sample_search:
  "searchFacesByImage sample_env ''faces'' [75] 3 90 =
     Inr (Some [\<lparr>Similarity = Some 97,
                  Face = Some \<lparr>FaceId = Some ''face-a'', ExternalImageId = Some ''7''\<rparr>\<rparr>])"
  "searchFacesByImage sample_env ''faces'' [375] 3 90 = Inr (Some [])"
  "searchFacesByImage sample_env ''faces'' [675] 3 90 =
     Inr (Some [\<lparr>Similarity = Some 97,
                  Face = Some \<lparr>FaceId = Some ''face-a'', ExternalImageId = Some ''7''\<rparr>\<rparr>])"
  by (simp_all add: sample_env_def)

lemma sample_face_1:
  "matchFace sample_env sample_capture [75] i {} sample_db =
     (Inr \<lparr>faceIndex = i, o_status = ''punched'', o_message = None, o_similarity = Some 97,
           o_employeeId = Some 7, o_employeeName = Some ''Asha'', o_attendanceId = Some 1,
           punchedAt = Some 32700\<rparr>, {7}, sample_db_punched)"
proof -
  have t: "today sample_env = ''2024-01-15''" by (simp add: sample_env_def)
  show ?thesis
    using sample_punch_asha [of "[75]"]
    by (simp add: matchFace_def sample_capture_def sample_search sample_resolve_asha t
        sample_create_asha [unfolded sample_db_created_def [symmetric]]
        validatePunchAttempt_def sample_att1_def truthy_def PUNCH_TYPES_IN_def PUNCH_TYPES_OUT_def
        punch_row_def new_attendance_row_def)
qed

lemma sample_face_2:
  "matchFace sample_env sample_capture [375] i P db =
     (Inr (face_outcome i ''unmatched'' (Some ''No matching employee found.'')), P, db)"
  by (simp add: matchFace_def sample_capture_def sample_search)

lemma sample_face_3:
  "matchFace sample_env sample_capture [675] i {7} sample_db_punched =
     (Inr \<lparr>faceIndex = i, o_status = ''duplicate'',
           o_message = Some ''Employee already processed in this capture.'',
           o_similarity = Some 97, o_employeeId = Some 7, o_employeeName = Some ''Asha'',
           o_attendanceId = None, punchedAt = None\<rparr>, {7}, sample_db_punched)"
proof -
  have "employee sample_db_punched = employee sample_db"
    by (simp add: sample_db_punched_def sample_db_created_def update_attendance_tables
        insert_attendance_tables)
  from sample_resolve_asha [OF this] show ?thesis
    by (simp add: matchFace_def sample_capture_def sample_search face_outcome_def)
qed

lemma sample_loop:
  "groupLoop sample_env sample_capture
     (map (\<lambda>k. Some \<lparr>Width = 1 / 10, Height = 1 / 10, Left = of_nat k / 10, Top = 1 / 10\<rparr>) [1, 4, 7])
     0 {} [] sample_db =
     (sample_outcomes, {7}, sample_db_punched)"
proof -
  have ex: "sharp_extract sample_env [1, 4, 7] \<lparr>left = 75, crop_top = 75, width = 150, height = 150\<rparr> = Inr [75]"
    "sharp_extract sample_env [1, 4, 7] \<lparr>left = 375, crop_top = 75, width = 150, height = 150\<rparr> = Inr [375]"
    "sharp_extract sample_env [1, 4, 7] \<lparr>left = 675, crop_top = 75, width = 150, height = 150\<rparr> = Inr [675]"
    by (simp_all add: sample_env_def)
  have im: "image sample_capture = [1, 4, 7]" "imageWidth sample_capture = 1000"
    "imageHeight sample_capture = 1000"
    by (simp_all add: sample_capture_def)
  show ?thesis
    using sample_crop im ex
    by (simp add: processFace_def sample_face_1 sample_face_2 sample_face_3 sample_outcomes_def
        face_outcome_def)
qed

lemma sample_group_capture:
  "group_capture sample_env sample_db [1, 4, 7] ''faces'' ''IN'' 90 (JStr ''1'') sample_location =
     (\<lparr>code = 200,
       body = GroupBody \<lparr>g_success = True, g_mode = ''group'', g_punch_type = ''IN'',
                         total_faces = 3, punched_count = 1, results = sample_outcomes\<rparr>\<rparr>,
      sample_db_punched)"
proof -
  have d: "detectFaces sample_env [1, 4, 7] =
             Inr (Some (map (\<lambda>k. Some \<lparr>Width = 1 / 10, Height = 1 / 10, Left = of_nat k / 10,
                                          Top = 1 / 10\<rparr>) [1, 4, 7]))"
    "sharp_metadata sample_env [1, 4, 7] = Inr (Some 1000, Some 1000)"
    by (simp_all add: sample_env_def)
  have c: "length (filter (\<lambda>entry. o_status entry = ''punched'') sample_outcomes) = 1"
    by (simp add: sample_outcomes_def)
  have c': "filter (\<lambda>entry. o_status entry = ''punched'') sample_outcomes \<noteq> []"
    by (simp add: sample_outcomes_def)
  show ?thesis
    using sample_loop [unfolded sample_capture_def] c c' d
    by (simp add: group_capture_def del: groupLoop.simps)
qed

lemma groupLoop_from_empty:
  assumes "groupLoop ev cx fds 0 {} [] db = (rs, P, db')"
  shows "P = {e. \<exists>x\<in>set rs. o_employeeId x = Some e \<and> o_status x \<noteq> ''duplicate''}"
    and "length (filter (\<lambda>x. o_status x = ''punched'' \<and> o_employeeId x = Some e) rs) \<le> 1"
    and "i < j \<and> j < length rs \<and> o_employeeId (rs ! i) = Some e \<and>
         o_status (rs ! i) \<noteq> ''duplicate'' \<and> o_employeeId (rs ! j) = Some e \<Longrightarrow>
         o_status (rs ! j) = ''duplicate''"
proof -
  have inv: "P = {e. \<exists>x\<in>set rs. o_employeeId x = Some e \<and> o_status x \<noteq> ''duplicate''} \<and>
         (\<forall>e. length (filter (\<lambda>x. o_status x = ''punched'' \<and> o_employeeId x = Some e) rs) \<le> 1) \<and>
         (\<forall>e i j. i < j \<and> j < length rs \<and> o_employeeId (rs ! i) = Some e \<and>
              o_status (rs ! i) \<noteq> ''duplicate'' \<and> o_employeeId (rs ! j) = Some e \<longrightarrow>
              o_status (rs ! j) = ''duplicate'')"
    by (rule groupLoop_invariant [OF assms]) simp_all
  from inv show "P = {e. \<exists>x\<in>set rs. o_employeeId x = Some e \<and> o_status x \<noteq> ''duplicate''}"
    by blast
  from inv show "length (filter (\<lambda>x. o_status x = ''punched'' \<and> o_employeeId x = Some e) rs) \<le> 1"
    by blast
  from inv show "i < j \<and> j < length rs \<and> o_employeeId (rs ! i) = Some e \<and>
         o_status (rs ! i) \<noteq> ''duplicate'' \<and> o_employeeId (rs ! j) = Some e \<Longrightarrow>
         o_status (rs ! j) = ''duplicate''"
    by blast
qed

lemma group_capture_results:
  assumes "group_capture ev db file cid pt thr uid loc = (\<lparr>code = c, body = GroupBody g\<rparr>, db')"
  shows "\<exists>cx fds P. groupLoop ev cx fds 0 {} [] db = (results g, P, db')"
proof -
  have "\<exists>cx fds P db1. groupLoop ev cx fds 0 {} [] db = (results g, P, db1) \<and> db1 = db'"
    using assms
    apply (auto simp: group_capture_def error_response_def Let_def
        split: sum.splits option.splits list.splits prod.splits if_splits)
    apply blast
    done
  then show ?thesis by blast
qed

text \<open>
  C3. In the reply of one group capture, for every employee identity at most one outcome
  has status \<open>punched\<close> for it, however many faces resolve to that employee; and an
  outcome for an employee that follows an earlier outcome for the same employee other than
  a duplicate (a punched or a skipped one) has status \<open>duplicate\<close>. The set of processed
  employees the loop keeps is exactly the employees of the outcomes so far that carry an
  employee and are not duplicates, and a face whose best match resolves to an employee in
  that set gets the \<open>duplicate\<close> outcome, with the set unchanged and no attendance
  statement run.
\<close>

theorem group_capture_dedup:
  "(group_capture ev db file cid pt thr uid loc = (\<lparr>code = c, body = GroupBody g\<rparr>, db') \<longrightarrow>
      length (filter (\<lambda>x. o_status x = ''punched'' \<and> o_employeeId x = Some e) (results g)) \<le> 1 \<and>
      (\<forall>i j. i < j \<and> j < length (results g) \<and> o_employeeId (results g ! i) = Some e \<and>
             o_status (results g ! i) \<noteq> ''duplicate'' \<and> o_employeeId (results g ! j) = Some e \<longrightarrow>
             o_status (results g ! j) = ''duplicate'')) \<and>
   (groupLoop ev cx fds 0 {} [] db = (rs, P, db1) \<longrightarrow>
      P = {e. \<exists>x\<in>set rs. o_employeeId x = Some e \<and> o_status x \<noteq> ''duplicate''}) \<and>
   (searchFacesByImage ev (collectionId cx) buf 3 (matchThreshold cx) = Inr (Some (m # ms)) \<and>
    Face m = Some f \<and>
    resolveEmployeeFromFaceIdentifiers ev db (FaceId f)
      (normalizeId ev (field (ExternalImageId f))) None = (Inr (Some er), db2) \<and>
    er_emp_id er \<in> Q \<longrightarrow>
      matchFace ev cx buf k Q db =
        (Inr \<lparr>faceIndex = k, o_status = ''duplicate'',
              o_message = Some ''Employee already processed in this capture.'',
              o_similarity = Similarity m, o_employeeId = Some (er_emp_id er),
              o_employeeName = er_name er, o_attendanceId = None, punchedAt = None\<rparr>,
         Q, db2))"
proof (intro conjI impI)
  assume a: "group_capture ev db file cid pt thr uid loc = (\<lparr>code = c, body = GroupBody g\<rparr>, db')"
  from group_capture_results [OF a]
  obtain cx' fds' P' where l: "groupLoop ev cx' fds' 0 {} [] db = (results g, P', db')"
    by blast
  from groupLoop_from_empty(2) [OF l]
  show "length (filter (\<lambda>x. o_status x = ''punched'' \<and> o_employeeId x = Some e) (results g)) \<le> 1" .
  from groupLoop_from_empty(3) [OF l]
  show "\<forall>i j. i < j \<and> j < length (results g) \<and> o_employeeId (results g ! i) = Some e \<and>
             o_status (results g ! i) \<noteq> ''duplicate'' \<and> o_employeeId (results g ! j) = Some e \<longrightarrow>
             o_status (results g ! j) = ''duplicate''"
    by blast
next
  assume l: "groupLoop ev cx fds 0 {} [] db = (rs, P, db1)"
  from groupLoop_from_empty(1) [OF l]
  show "P = {e. \<exists>x\<in>set rs. o_employeeId x = Some e \<and> o_status x \<noteq> ''duplicate''}" .
next
  assume "searchFacesByImage ev (collectionId cx) buf 3 (matchThreshold cx) = Inr (Some (m # ms)) \<and>
    Face m = Some f \<and>
    resolveEmployeeFromFaceIdentifiers ev db (FaceId f)
      (normalizeId ev (field (ExternalImageId f))) None = (Inr (Some er), db2) \<and>
    er_emp_id er \<in> Q"
  then show "matchFace ev cx buf k Q db =
        (Inr \<lparr>faceIndex = k, o_status = ''duplicate'',
              o_message = Some ''Employee already processed in this capture.'',
              o_similarity = Similarity m, o_employeeId = Some (er_emp_id er),
              o_employeeName = er_name er, o_attendanceId = None, punchedAt = None\<rparr>,
         Q, db2)"
    by (simp add: matchFace_def face_outcome_def)
qed

theorem group_capture_dedup_witness:
  "group_capture sample_env sample_db [1, 4, 7] ''faces'' ''IN'' 90 (JStr ''1'') sample_location =
     (\<lparr>code = 200,
       body = GroupBody \<lparr>g_success = True, g_mode = ''group'', g_punch_type = ''IN'',
                         total_faces = 3, punched_count = 1, results = sample_outcomes\<rparr>\<rparr>,
      sample_db_punched) \<and>
   map o_status sample_outcomes = [''punched'', ''unmatched'', ''duplicate''] \<and>
   map o_employeeId sample_outcomes = [Some 7, None, Some 7] \<and>
   length (filter (\<lambda>x. o_status x = ''punched'' \<and> o_employeeId x = Some 7) sample_outcomes) \<le> 1 \<and>
   o_status (sample_outcomes ! 2) = ''duplicate'' \<and>
   {7} = {e. \<exists>x\<in>set sample_outcomes. o_employeeId x = Some e \<and> o_status x \<noteq> ''duplicate''} \<and>
   matchFace sample_env sample_capture [675] 3 {7} sample_db_punched =
     (Inr (sample_outcomes ! 2), {7}, sample_db_punched)"
proof -
  let ?g = "\<lparr>g_success = True, g_mode = ''group'', g_punch_type = ''IN'',
                         total_faces = 3, punched_count = 1, results = sample_outcomes\<rparr>"
  note inst = group_capture_dedup [of sample_env sample_db "[1, 4, 7]" "''faces''" "''IN''" 90
      "JStr ''1''" sample_location 200 ?g sample_db_punched 7,
      THEN conjunct1, THEN mp, OF sample_group_capture]
  from inst have a: "length (filter (\<lambda>x. o_status x = ''punched'' \<and> o_employeeId x = Some 7)
                      sample_outcomes) \<le> 1"
    by simp
  have pre: "(0::nat) < 2 \<and> 2 < length (results ?g) \<and> o_employeeId (results ?g ! 0) = Some 7 \<and>
             o_status (results ?g ! 0) \<noteq> ''duplicate'' \<and> o_employeeId (results ?g ! 2) = Some 7"
    by (simp add: sample_outcomes_def)
  from inst [THEN conjunct2, THEN spec, THEN spec, THEN mp, OF pre]
  have b: "o_status (sample_outcomes ! 2) = ''duplicate''" by simp
  have c: "map o_status sample_outcomes = [''punched'', ''unmatched'', ''duplicate'']"
    "map o_employeeId sample_outcomes = [Some 7, None, Some 7]"
    by (simp_all add: sample_outcomes_def)
  let ?m = "\<lparr>Similarity = Some 97,
              Face = Some \<lparr>FaceId = Some ''face-a'', ExternalImageId = Some ''7''\<rparr>\<rparr>"
  let ?f = "\<lparr>FaceId = Some ''face-a'', ExternalImageId = Some ''7''\<rparr>"
  let ?er = "\<lparr>er_emp_id = 7, er_name = Some ''Asha''\<rparr>"
  note d = group_capture_dedup [of sample_env sample_db "[1, 4, 7]" "''faces''" "''IN''" 90
      "JStr ''1''" sample_location 200 ?g sample_db_punched 7 sample_capture
      "map (\<lambda>k. Some \<lparr>Width = 1 / 10, Height = 1 / 10, Left = of_nat k / 10, Top = 1 / 10\<rparr>)
         [1, 4, 7]"
      sample_outcomes "{7}" sample_db_punched,
      THEN conjunct2, THEN conjunct1, THEN mp, OF sample_loop]
  have tabs: "employee sample_db_punched = employee sample_db"
    by (simp add: sample_db_punched_def sample_db_created_def update_attendance_tables
        insert_attendance_tables)
  have pre2: "searchFacesByImage sample_env (collectionId sample_capture) [675] 3
                (matchThreshold sample_capture) = Inr (Some (?m # [])) \<and>
      Face ?m = Some ?f \<and>
      resolveEmployeeFromFaceIdentifiers sample_env sample_db_punched (FaceId ?f)
        (normalizeId sample_env (field (ExternalImageId ?f))) None =
        (Inr (Some ?er), sample_db_punched) \<and>
      er_emp_id ?er \<in> {7}"
    using sample_search(3) sample_resolve_asha [OF tabs]
    by (simp add: sample_capture_def)
  note e = group_capture_dedup [where ev = sample_env and db = sample_db_punched
      and cx = sample_capture and buf = "[675]" and m = ?m and ms = "[]" and f = ?f and er = ?er
      and ?db2.0 = sample_db_punched and Q = "{7}" and k = 3,
      THEN conjunct2, THEN conjunct2, THEN mp, OF pre2]
  have e': "matchFace sample_env sample_capture [675] 3 {7} sample_db_punched =
     (Inr (sample_outcomes ! 2), {7}, sample_db_punched)"
    using e by (simp add: sample_outcomes_def)
  from sample_group_capture a b c d e' show ?thesis by simp
qed

text \<open>
  C8. A group-capture request (image present, collection configured and ready, group mode
  requested) whose face detection returns no face is answered 422 with
  \<open>No faces detected in the image\<close>, and the store after the request is the store before
  it: no attendance record is created or modified.
\<close>

theorem group_capture_no_faces:
  "fr_file req = Some file \<and> resolveCollectionId ev = Some cid \<and>
   fst (ensureCollectionExists ev (collectionReady sv) cid) = Inr () \<and>
   isGroupModeRequest ev [field (fr_groupMode req), field (fr_group_mode req), field (fr_mode req)] \<and>
   (detectFaces ev file = Inr None \<or> detectFaces ev file = Inr (Some [])) \<longrightarrow>
     fst (face_attendance ev sv req) =
       \<lparr>code = 422,
        body = ErrorBody
          \<lparr>pl_error = ''No faces detected in the image'', pl_details = None,
           suggestion = Some ''Ensure group members are clearly visible and retry.'',
           solution = None\<rparr>\<rparr> \<and>
     store (snd (face_attendance ev sv req)) = store sv"
proof (intro impI, elim conjE)
  assume f: "fr_file req = Some file" and c: "resolveCollectionId ev = Some cid"
    and e: "fst (ensureCollectionExists ev (collectionReady sv) cid) = Inr ()"
    and g: "isGroupModeRequest ev
              [field (fr_groupMode req), field (fr_group_mode req), field (fr_mode req)]"
    and d: "detectFaces ev file = Inr None \<or> detectFaces ev file = Inr (Some [])"
  obtain ready where e': "ensureCollectionExists ev (collectionReady sv) cid = (Inr (), ready)"
    using e by (cases "ensureCollectionExists ev (collectionReady sv) cid") auto
  have gc: "group_capture ev (store sv) file cid pt thr uid loc =
      (\<lparr>code = 422,
        body = ErrorBody
          \<lparr>pl_error = ''No faces detected in the image'', pl_details = None,
           suggestion = Some ''Ensure group members are clearly visible and retry.'',
           solution = None\<rparr>\<rparr>, store sv)" for pt thr uid loc
    using d by (auto simp: group_capture_def)
  show "fst (face_attendance ev sv req) =
       \<lparr>code = 422,
        body = ErrorBody
          \<lparr>pl_error = ''No faces detected in the image'', pl_details = None,
           suggestion = Some ''Ensure group members are clearly visible and retry.'',
           solution = None\<rparr>\<rparr> \<and>
     store (snd (face_attendance ev sv req)) = store sv"
    using f c e' g by (simp add: face_attendance_def Let_def gc)
qed

theorem group_capture_no_faces_witness:
  "fst (face_attendance sample_env \<lparr>store = sample_db_open, collectionReady = False\<rparr>
          sample_empty_group_request) =
     \<lparr>code = 422,
      body = ErrorBody
        \<lparr>pl_error = ''No faces detected in the image'', pl_details = None,
         suggestion = Some ''Ensure group members are clearly visible and retry.'',
         solution = None\<rparr>\<rparr> \<and>
   store (snd (face_attendance sample_env \<lparr>store = sample_db_open, collectionReady = False\<rparr>
                 sample_empty_group_request)) = sample_db_open"
proof -
  have h: "fr_file sample_empty_group_request = Some [] \<and>
      resolveCollectionId sample_env = Some ''faces'' \<and>
      fst (ensureCollectionExists sample_env
             (collectionReady \<lparr>store = sample_db_open, collectionReady = False\<rparr>) ''faces'') = Inr () \<and>
      isGroupModeRequest sample_env
        [field (fr_groupMode sample_empty_group_request),
         field (fr_group_mode sample_empty_group_request),
         field (fr_mode sample_empty_group_request)] \<and>
      (detectFaces sample_env [] = Inr None \<or> detectFaces sample_env [] = Inr (Some []))"
    by (simp add: sample_empty_group_request_def resolveCollectionId_def trim_def is_space_def
        ensureCollectionExists_def isGroupModeRequest_def isGroupModeValue_def field_def
        toString_def toLowerCase_def lower_letters_def upper_letters_def GROUP_MODE_KEYWORDS_def
        sample_env_def)
  from group_capture_no_faces [of sample_empty_group_request "[]" sample_env "''faces''"
      "\<lparr>store = sample_db_open, collectionReady = False\<rparr>", THEN mp, OF h]
  show ?thesis by simp
qed

subsection \<open>Get-or-create\<close>

lemma sample_meena_first:
  "getOrCreateAttendanceRecord sample_env sample_db 9 ''2024-01-15'' =
     (Inr sample_att_meena, sample_db_meena)"
  "getOrCreateAttendanceRecord sample_env_unique sample_db 9 ''2024-01-15'' =
     (Inr sample_att_meena, sample_db_meena)"
  by (simp_all add: getOrCreateAttendanceRecord_def run_def select_attendance_join_def
      select_ward_def select_employee_details_def insert_attendance_tables Let_def
      new_attendance_row_def sample_att_meena_def sample_db_meena_def sample_env_unique_def
      sample_env_def sample_db_def)

lemma sample_meena_tables:
  "employee sample_db_meena = employee sample_db"
  "designation sample_db_meena = designation sample_db"
  "wards sample_db_meena = wards sample_db"
  "attendance sample_db_meena = [new_attendance_row sample_db 9 ''2024-01-15'' (Some 3)]"
  "attendance_id_seq sample_db_meena = 2"
  by (simp_all add: sample_db_meena_def insert_attendance_def sample_db_def)

lemma sample_meena_second:
  "getOrCreateAttendanceRecord sample_env sample_db_meena 9 ''2024-01-15'' =
     (Inr (sample_att_meena\<lparr>attendance_id := 2\<rparr>),
      insert_attendance sample_db_meena 9 ''2024-01-15'' (Some 3))"
  by (simp add: getOrCreateAttendanceRecord_def run_def select_attendance_join_def
      select_ward_def select_employee_details_def insert_attendance_tables Let_def
      new_attendance_row_def sample_att_meena_def sample_meena_tables
      sample_env_def sample_db_def)

lemma sample_meena_second_unique:
  "getOrCreateAttendanceRecord sample_env_unique sample_db_meena 9 ''2024-01-15'' =
     (Inl (Error ''duplicate key value violates unique constraint''), sample_db_meena)"
  by (simp add: getOrCreateAttendanceRecord_def run_def select_attendance_join_def
      select_ward_def sample_meena_tables new_attendance_row_def
      sample_env_unique_def sample_env_def sample_db_def)

text \<open>
  C6, evaluated where the code departs from it. Meena has an employee row with no
  designation. The first call creates her attendance row and returns identity 1. The second
  call's read query joins employee with designation and wards, finds no row, and inserts
  again: it returns identity 2 and the store holds two rows for her and that date. Over a
  schema with one row per employee and date, the second call throws the store's error
  instead. Either way the second call does not return the identity of the first.
\<close>

theorem getOrCreate_twice_new_row:
  "getOrCreateAttendanceRecord sample_env sample_db 9 ''2024-01-15'' =
     (Inr sample_att_meena, sample_db_meena) \<and>
   getOrCreateAttendanceRecord sample_env sample_db_meena 9 ''2024-01-15'' =
     (Inr (sample_att_meena\<lparr>attendance_id := 2\<rparr>),
      insert_attendance sample_db_meena 9 ''2024-01-15'' (Some 3)) \<and>
   attendance_id sample_att_meena = 1 \<and>
   attendance_id (sample_att_meena\<lparr>attendance_id := 2\<rparr>) = 2 \<and>
   map a_attendance_id (attendance (insert_attendance sample_db_meena 9 ''2024-01-15'' (Some 3))) =
     [1, 2] \<and>
   map a_emp_id (attendance (insert_attendance sample_db_meena 9 ''2024-01-15'' (Some 3))) =
     [9, 9] \<and>
   getOrCreateAttendanceRecord sample_env_unique sample_db 9 ''2024-01-15'' =
     (Inr sample_att_meena, sample_db_meena) \<and>
   getOrCreateAttendanceRecord sample_env_unique sample_db_meena 9 ''2024-01-15'' =
     (Inl (Error ''duplicate key value violates unique constraint''), sample_db_meena)"
proof -
  have seq: "attendance_id_seq sample_db = 1" by (simp add: sample_db_def)
  show ?thesis
    by (simp add: sample_meena_first sample_meena_second sample_meena_second_unique
        sample_att_meena_def insert_attendance_def sample_meena_tables new_attendance_row_def seq)
qed

text \<open>
  C5 as stated fails: for an employee id that no employee row has, the call does not fail
  with NotFound. It returns a record and leaves a new attendance row for that id in the
  store; or, over a schema whose foreign key refuses such a row, it throws the store's
  error, which the route answers as an internal failure (500).
\<close>

theorem getOrCreate_unknown_employee:
  "42 \<notin> set (map e_emp_id (employee sample_db)) \<and>
   getOrCreateAttendanceRecord sample_env sample_db 42 ''2024-01-15'' =
     (Inr sample_att_unknown, insert_attendance sample_db 42 ''2024-01-15'' None) \<and>
   map a_emp_id (attendance (insert_attendance sample_db 42 ''2024-01-15'' None)) = [42] \<and>
   getOrCreateAttendanceRecord sample_env_fk sample_db 42 ''2024-01-15'' =
     (Inl (Error ''violates foreign key constraint''), sample_db) \<and>
   post_attendance sample_env_fk sample_db 42 =
     (\<lparr>code = 500, body = ErrorBody (error_body ''violates foreign key constraint'')\<rparr>,
      sample_db)"
proof -
  have a: "42 \<notin> set (map e_emp_id (employee sample_db))"
    by (simp add: sample_db_def)
  have b: "getOrCreateAttendanceRecord sample_env sample_db 42 ''2024-01-15'' =
     (Inr sample_att_unknown, insert_attendance sample_db 42 ''2024-01-15'' None)"
    by (simp add: getOrCreateAttendanceRecord_def run_def select_attendance_join_def
        select_ward_def select_employee_details_def insert_attendance_tables Let_def
        new_attendance_row_def sample_att_unknown_def sample_env_def sample_db_def)
  have c: "map a_emp_id (attendance (insert_attendance sample_db 42 ''2024-01-15'' None)) = [42]"
    by (simp add: insert_attendance_def new_attendance_row_def sample_db_def)
  have d: "getOrCreateAttendanceRecord sample_env_fk sample_db 42 ''2024-01-15'' =
     (Inl (Error ''violates foreign key constraint''), sample_db)"
    using a
    by (simp add: getOrCreateAttendanceRecord_def run_def select_attendance_join_def
        select_ward_def sample_env_fk_def sample_env_def sample_db_def)
  have e: "post_attendance sample_env_fk sample_db 42 =
     (\<lparr>code = 500, body = ErrorBody (error_body ''violates foreign key constraint'')\<rparr>,
      sample_db)"
  proof -
    have t: "today sample_env_fk = ''2024-01-15''"
      by (simp add: sample_env_fk_def sample_env_def)
    show ?thesis by (simp add: post_attendance_def t d Error_def)
  qed
  from a b c d e show ?thesis by simp
qed

lemma select_attendance_join_intro:
  assumes "a \<in> set (attendance db)" "a_emp_id a = emp" "a_date a = dt"
    and "e \<in> set (employee db)" "e_emp_id e = emp"
    and "d \<in> set (designation db)" "e_designation_id e = Some (d_designation_id d)"
    and "w \<in> set (wards db)" "e_ward_id e = Some (w_ward_id w)"
  shows "attendance_view a e d w \<in> set (select_attendance_join db emp dt)"
proof -
  have "\<exists>x\<in>set (attendance db) \<inter> {aa. a_emp_id aa = emp \<and> a_date aa = dt}.
          \<exists>xa\<in>set (employee db) \<inter> {e. a_emp_id x = e_emp_id e}.
            \<exists>xb\<in>set (designation db) \<inter> {d. e_designation_id xa = Some (d_designation_id d)}.
              \<exists>xc\<in>set (wards db) \<inter> {w. e_ward_id xa = Some (w_ward_id w)}.
                attendance_view a e d w = attendance_view x xa xb xc"
    using assms by (intro bexI [of _ a] bexI [of _ e] bexI [of _ d] bexI [of _ w]) auto
  then show ?thesis
    by (auto simp: select_attendance_join_def)
qed

lemma select_attendance_join_row:
  assumes "r \<in> set (select_attendance_join db emp dt)"
  shows "\<exists>a\<in>set (attendance db). a_emp_id a = emp \<and> a_date a = dt \<and>
           attendance_id r = a_attendance_id a"
  using assms by (auto simp: select_attendance_join_def attendance_view_def split: if_splits)

text \<open>
  Where the employee has a designation and a ward, and the store serves every statement,
  the second of two calls finds the row the first one created: it returns the same
  identity and leaves the store as the first call left it.
\<close>

lemma getOrCreate_second_call:
  assumes emp: "emp \<noteq> 0"
    and ok: "\<forall>db' q. db_fails ev db' q = None"
    and fresh: "select_attendance_join db emp dt = []"
    and e: "e \<in> set (employee db)" "e_emp_id e = emp"
    and d: "d \<in> set (designation db)" "e_designation_id e = Some (d_designation_id d)"
    and w: "w \<in> set (wards db)" "e_ward_id e = Some (w_ward_id w)"
    and first: "getOrCreateAttendanceRecord ev db emp dt = (Inr r1, db1)"
  shows "\<exists>r2. getOrCreateAttendanceRecord ev db1 emp dt = (Inr r2, db1) \<and>
              attendance_id r2 = attendance_id r1"
proof -
  let ?w = "case select_ward db emp of [] \<Rightarrow> None | x # _ \<Rightarrow> x"
  let ?new = "new_attendance_row db emp dt ?w"
  from first emp ok fresh have db1: "db1 = insert_attendance db emp dt ?w"
    and r1: "attendance_id r1 = attendance_id_seq db"
    by (auto simp: getOrCreateAttendanceRecord_def run_def Let_def new_attendance_row_def
        split: list.splits prod.splits)
  have none: "\<And>a. a \<in> set (attendance db) \<Longrightarrow> \<not> (a_emp_id a = emp \<and> a_date a = dt)"
  proof
    fix a assume "a \<in> set (attendance db)" and "a_emp_id a = emp \<and> a_date a = dt"
    then have "attendance_view a e d w \<in> set (select_attendance_join db emp dt)"
      using e d w by (intro select_attendance_join_intro) auto
    with fresh show False by simp
  qed
  have tabs: "employee db1 = employee db" "designation db1 = designation db" "wards db1 = wards db"
    "attendance db1 = attendance db @ [?new]"
    by (simp_all add: db1 insert_attendance_def)
  have new: "a_emp_id ?new = emp" "a_date ?new = dt" "a_attendance_id ?new = attendance_id_seq db"
    by (simp_all add: new_attendance_row_def)
  have "attendance_view ?new e d w \<in> set (select_attendance_join db1 emp dt)"
    using e d w new by (intro select_attendance_join_intro) (auto simp: tabs)
  then obtain r2 rs where s: "select_attendance_join db1 emp dt = r2 # rs"
    by (cases "select_attendance_join db1 emp dt") auto
  then have "r2 \<in> set (select_attendance_join db1 emp dt)" by simp
  from select_attendance_join_row [OF this] obtain a where
    a: "a \<in> set (attendance db1)" "a_emp_id a = emp" "a_date a = dt"
      "attendance_id r2 = a_attendance_id a"
    by blast
  with none have "a = ?new" by (auto simp: tabs)
  with a new r1 have "attendance_id r2 = attendance_id r1" by simp
  moreover from emp ok s have "getOrCreateAttendanceRecord ev db1 emp dt = (Inr r2, db1)"
    by (simp add: getOrCreateAttendanceRecord_def run_def)
  ultimately show ?thesis by blast
qed

lemma select_ward_filter:
  "select_ward db emp = map e_ward_id (filter (\<lambda>e. e_emp_id e = emp) (employee db))"
  by (simp add: select_ward_def concat_map_if)

lemma getOrCreate_failure:
  assumes "fst (getOrCreateAttendanceRecord ev db emp dt) = Inl e"
  shows "e = Error ''Employee ID is required'' \<or> (\<exists>db1 q. db_fails ev db1 q = Some e)"
  using assms
  by (auto simp: getOrCreateAttendanceRecord_def run_def Let_def
      split: if_splits option.splits list.splits sum.splits prod.splits)

lemma sample_read_open:
  "select_attendance_join sample_db_open 7 ''2024-01-15'' = [sample_att1]"
  by (simp add: select_attendance_join_def sample_db_open_def sample_db_def new_attendance_row_def
      attendance_view_def sample_att1_def)

lemma select_attendance_join_view:
  assumes "r \<in> set (select_attendance_join db emp dt)"
  shows "\<exists>a e d w. a \<in> set (attendance db) \<and> a_emp_id a = emp \<and> a_date a = dt \<and>
           r = attendance_view a e d w \<and>
           attendance_id r = a_attendance_id a \<and> emp_id r = emp \<and> date r = dt"
proof -
  from assms obtain a e d w where
    a: "a \<in> set (attendance db)" "a_emp_id a = emp" "a_date a = dt"
      "a_emp_id a = e_emp_id e" "r = attendance_view a e d w"
    by (auto simp: select_attendance_join_def split: if_splits)
  then have "attendance_id r = a_attendance_id a \<and> emp_id r = emp \<and> date r = dt"
    by (simp add: attendance_view_def)
  with a show ?thesis by blast
qed

lemma select_attendance_join_absent:
  assumes "filter (\<lambda>a. a_emp_id a = emp \<and> a_date a = dt) (attendance db) = []"
  shows "select_attendance_join db emp dt = []"
proof (cases "select_attendance_join db emp dt")
  case Nil
  then show ?thesis .
next
  case (Cons r rs)
  then have "r \<in> set (select_attendance_join db emp dt)" by simp
  from select_attendance_join_row [OF this] obtain a where
    "a \<in> set (attendance db)" "a_emp_id a = emp \<and> a_date a = dt"
    by blast
  then have "a \<in> set (filter (\<lambda>a. a_emp_id a = emp \<and> a_date a = dt) (attendance db))"
    by simp
  with assms show ?thesis by simp
qed

lemma getOrCreate_creates:
  assumes "emp \<noteq> 0"
    and "db_fails ev db (SelectAttendanceJoin emp dt) = None"
    and "filter (\<lambda>a. a_emp_id a = emp \<and> a_date a = dt) (attendance db) = []"
    and "db_fails ev db (SelectWard emp) = None"
    and "sw = (case filter (\<lambda>e. e_emp_id e = emp) (employee db) of
                 [] \<Rightarrow> None | e # _ \<Rightarrow> e_ward_id e)"
    and "db_fails ev db (InsertAttendance emp dt sw) = None"
    and "db_fails ev (insert_attendance db emp dt sw) (SelectEmployeeDetails emp) = None"
  shows "\<exists>r. getOrCreateAttendanceRecord ev db emp dt = (Inr r, insert_attendance db emp dt sw) \<and>
           attendance_id r = attendance_id_seq db \<and> emp_id r = emp \<and> date r = dt \<and>
           ward_id r = sw \<and> punch_in_time r = None \<and> punch_out_time r = None"
proof -
  from assms(5) have w: "(case select_ward db emp of [] \<Rightarrow> None | x # _ \<Rightarrow> x) = sw"
    by (simp add: select_ward_filter split: list.splits)
  from assms(1,2,4,6,7) w select_attendance_join_absent [OF assms(3)] show ?thesis
    by (simp add: getOrCreateAttendanceRecord_def run_def Let_def new_attendance_row_def
        split: list.splits prod.splits)
qed

text \<open>
  C5, amended. For a non-zero employee id, the store serving the statements: where an
  attendance row for that employee and date is present, and the employee has a designation
  and a ward, \<open>getOrCreate(employeeId, date)\<close> returns a record of that employee and date
  which the store holds, as the read query shows it, and leaves the store as it is; where
  no attendance row for that employee and date is present, it inserts one seeded with the
  ward of the employee's row and returns the new record, both punch times unset. It makes
  no check that the employee exists and has no NotFound failure: for an id that no employee
  row has (no attendance row for that id and date being present) it inserts an attendance
  row for that id with no ward and returns the new record; every failure is that of the id
  guard or an error of the store.
\<close>

theorem getOrCreate_behaviour:
  "(emp \<noteq> 0 \<and> db_fails ev db (SelectAttendanceJoin emp dt) = None \<and>
    a \<in> set (attendance db) \<and> a_emp_id a = emp \<and> a_date a = dt \<and>
    e \<in> set (employee db) \<and> e_emp_id e = emp \<and>
    d \<in> set (designation db) \<and> e_designation_id e = Some (d_designation_id d) \<and>
    w \<in> set (wards db) \<and> e_ward_id e = Some (w_ward_id w) \<longrightarrow>
      (\<exists>r a' e' d' w'.
         getOrCreateAttendanceRecord ev db emp dt = (Inr r, db) \<and>
         a' \<in> set (attendance db) \<and> a_emp_id a' = emp \<and> a_date a' = dt \<and>
         r = attendance_view a' e' d' w' \<and>
         attendance_id r = a_attendance_id a' \<and> emp_id r = emp \<and> date r = dt)) \<and>
   (emp \<noteq> 0 \<and> db_fails ev db (SelectAttendanceJoin emp dt) = None \<and>
    filter (\<lambda>a. a_emp_id a = emp \<and> a_date a = dt) (attendance db) = [] \<and>
    db_fails ev db (SelectWard emp) = None \<and>
    sw = (case filter (\<lambda>e. e_emp_id e = emp) (employee db) of
            [] \<Rightarrow> None | e # _ \<Rightarrow> e_ward_id e) \<and>
    db_fails ev db (InsertAttendance emp dt sw) = None \<and>
    db_fails ev (insert_attendance db emp dt sw) (SelectEmployeeDetails emp) = None \<longrightarrow>
      (\<exists>r. getOrCreateAttendanceRecord ev db emp dt = (Inr r, insert_attendance db emp dt sw) \<and>
           attendance_id r = attendance_id_seq db \<and> emp_id r = emp \<and> date r = dt \<and>
           ward_id r = sw \<and> punch_in_time r = None \<and> punch_out_time r = None) \<and>
      attendance (insert_attendance db emp dt sw) =
        attendance db @ [new_attendance_row db emp dt sw]) \<and>
   (emp \<noteq> 0 \<and> emp \<notin> set (map e_emp_id (employee db)) \<and>
    db_fails ev db (SelectAttendanceJoin emp dt) = None \<and>
    filter (\<lambda>a. a_emp_id a = emp \<and> a_date a = dt) (attendance db) = [] \<and>
    db_fails ev db (SelectWard emp) = None \<and>
    db_fails ev db (InsertAttendance emp dt None) = None \<and>
    db_fails ev (insert_attendance db emp dt None) (SelectEmployeeDetails emp) = None \<longrightarrow>
      (\<exists>r. getOrCreateAttendanceRecord ev db emp dt = (Inr r, insert_attendance db emp dt None) \<and>
           attendance_id r = attendance_id_seq db \<and> emp_id r = emp \<and> date r = dt \<and>
           ward_id r = None) \<and>
      map a_emp_id (attendance (insert_attendance db emp dt None)) =
        map a_emp_id (attendance db) @ [emp]) \<and>
   (fst (getOrCreateAttendanceRecord ev db emp dt) = Inl err \<longrightarrow>
      err = Error ''Employee ID is required'' \<or> (\<exists>db1 q. db_fails ev db1 q = Some err))"
proof (intro conjI impI)
  assume h: "emp \<noteq> 0 \<and> db_fails ev db (SelectAttendanceJoin emp dt) = None \<and>
    a \<in> set (attendance db) \<and> a_emp_id a = emp \<and> a_date a = dt \<and>
    e \<in> set (employee db) \<and> e_emp_id e = emp \<and>
    d \<in> set (designation db) \<and> e_designation_id e = Some (d_designation_id d) \<and>
    w \<in> set (wards db) \<and> e_ward_id e = Some (w_ward_id w)"
  then have "attendance_view a e d w \<in> set (select_attendance_join db emp dt)"
    by (intro select_attendance_join_intro) auto
  then obtain r rs where s: "select_attendance_join db emp dt = r # rs"
    by (cases "select_attendance_join db emp dt") auto
  then have "r \<in> set (select_attendance_join db emp dt)" by simp
  from select_attendance_join_view [OF this] obtain a' e' d' w' where
    v: "a' \<in> set (attendance db)" "a_emp_id a' = emp" "a_date a' = dt"
      "r = attendance_view a' e' d' w'"
      "attendance_id r = a_attendance_id a'" "emp_id r = emp" "date r = dt"
    by blast
  from h s have "getOrCreateAttendanceRecord ev db emp dt = (Inr r, db)"
    by (simp add: getOrCreateAttendanceRecord_def run_def)
  with v show "\<exists>r a' e' d' w'.
         getOrCreateAttendanceRecord ev db emp dt = (Inr r, db) \<and>
         a' \<in> set (attendance db) \<and> a_emp_id a' = emp \<and> a_date a' = dt \<and>
         r = attendance_view a' e' d' w' \<and>
         attendance_id r = a_attendance_id a' \<and> emp_id r = emp \<and> date r = dt"
    by blast
next
  assume h: "emp \<noteq> 0 \<and> db_fails ev db (SelectAttendanceJoin emp dt) = None \<and>
    filter (\<lambda>a. a_emp_id a = emp \<and> a_date a = dt) (attendance db) = [] \<and>
    db_fails ev db (SelectWard emp) = None \<and>
    sw = (case filter (\<lambda>e. e_emp_id e = emp) (employee db) of
            [] \<Rightarrow> None | e # _ \<Rightarrow> e_ward_id e) \<and>
    db_fails ev db (InsertAttendance emp dt sw) = None \<and>
    db_fails ev (insert_attendance db emp dt sw) (SelectEmployeeDetails emp) = None"
  then have p: "emp \<noteq> 0" "db_fails ev db (SelectAttendanceJoin emp dt) = None"
    "filter (\<lambda>a. a_emp_id a = emp \<and> a_date a = dt) (attendance db) = []"
    "db_fails ev db (SelectWard emp) = None"
    "sw = (case filter (\<lambda>e. e_emp_id e = emp) (employee db) of
            [] \<Rightarrow> None | e # _ \<Rightarrow> e_ward_id e)"
    "db_fails ev db (InsertAttendance emp dt sw) = None"
    "db_fails ev (insert_attendance db emp dt sw) (SelectEmployeeDetails emp) = None"
    by blast+
  show "\<exists>r. getOrCreateAttendanceRecord ev db emp dt = (Inr r, insert_attendance db emp dt sw) \<and>
           attendance_id r = attendance_id_seq db \<and> emp_id r = emp \<and> date r = dt \<and>
           ward_id r = sw \<and> punch_in_time r = None \<and> punch_out_time r = None"
    by (rule getOrCreate_creates [OF p])
  show "attendance (insert_attendance db emp dt sw) =
        attendance db @ [new_attendance_row db emp dt sw]"
    by (simp add: insert_attendance_def)
next
  assume h: "emp \<noteq> 0 \<and> emp \<notin> set (map e_emp_id (employee db)) \<and>
    db_fails ev db (SelectAttendanceJoin emp dt) = None \<and>
    filter (\<lambda>a. a_emp_id a = emp \<and> a_date a = dt) (attendance db) = [] \<and>
    db_fails ev db (SelectWard emp) = None \<and>
    db_fails ev db (InsertAttendance emp dt None) = None \<and>
    db_fails ev (insert_attendance db emp dt None) (SelectEmployeeDetails emp) = None"
  then have p: "emp \<noteq> 0" "db_fails ev db (SelectAttendanceJoin emp dt) = None"
    "filter (\<lambda>a. a_emp_id a = emp \<and> a_date a = dt) (attendance db) = []"
    "db_fails ev db (SelectWard emp) = None"
    "db_fails ev db (InsertAttendance emp dt None) = None"
    "db_fails ev (insert_attendance db emp dt None) (SelectEmployeeDetails emp) = None"
    by blast+
  from h have "filter (\<lambda>e. e_emp_id e = emp) (employee db) = []"
    by (auto simp: filter_empty_conv)
  then have sw: "None = (case filter (\<lambda>e. e_emp_id e = emp) (employee db) of
            [] \<Rightarrow> None | e # _ \<Rightarrow> e_ward_id e)"
    by simp
  have "\<exists>r. getOrCreateAttendanceRecord ev db emp dt = (Inr r, insert_attendance db emp dt None) \<and>
           attendance_id r = attendance_id_seq db \<and> emp_id r = emp \<and> date r = dt \<and>
           ward_id r = None \<and> punch_in_time r = None \<and> punch_out_time r = None"
    by (rule getOrCreate_creates [OF p(1) p(2) p(3) p(4) sw p(5) p(6)])
  then show "\<exists>r. getOrCreateAttendanceRecord ev db emp dt = (Inr r, insert_attendance db emp dt None) \<and>
           attendance_id r = attendance_id_seq db \<and> emp_id r = emp \<and> date r = dt \<and>
           ward_id r = None"
    by blast
  show "map a_emp_id (attendance (insert_attendance db emp dt None)) =
        map a_emp_id (attendance db) @ [emp]"
    by (simp add: insert_attendance_def new_attendance_row_def)
next
  assume "fst (getOrCreateAttendanceRecord ev db emp dt) = Inl err"
  then show "err = Error ''Employee ID is required'' \<or> (\<exists>db1 q. db_fails ev db1 q = Some err)"
    by (rule getOrCreate_failure)
qed

theorem getOrCreate_behaviour_witness:
  "(\<exists>r a' e' d' w'.
      getOrCreateAttendanceRecord sample_env sample_db_open 7 ''2024-01-15'' =
        (Inr r, sample_db_open) \<and>
      a' \<in> set (attendance sample_db_open) \<and> a_emp_id a' = 7 \<and> a_date a' = ''2024-01-15'' \<and>
      r = attendance_view a' e' d' w' \<and>
      attendance_id r = a_attendance_id a' \<and> emp_id r = 7 \<and> date r = ''2024-01-15'') \<and>
   getOrCreateAttendanceRecord sample_env sample_db_open 7 ''2024-01-15'' =
     (Inr sample_att1, sample_db_open) \<and>
   (\<exists>r. getOrCreateAttendanceRecord sample_env sample_db 7 ''2024-01-15'' =
          (Inr r, insert_attendance sample_db 7 ''2024-01-15'' (Some 3)) \<and>
        attendance_id r = 1 \<and> emp_id r = 7 \<and> date r = ''2024-01-15'' \<and>
        ward_id r = Some 3 \<and> punch_in_time r = None \<and> punch_out_time r = None) \<and>
   attendance (insert_attendance sample_db 7 ''2024-01-15'' (Some 3)) =
     [new_attendance_row sample_db 7 ''2024-01-15'' (Some 3)] \<and>
   (\<exists>r. getOrCreateAttendanceRecord sample_env sample_db 42 ''2024-01-15'' =
          (Inr r, insert_attendance sample_db 42 ''2024-01-15'' None) \<and>
        attendance_id r = 1 \<and> emp_id r = 42 \<and> date r = ''2024-01-15'' \<and> ward_id r = None) \<and>
   map a_emp_id (attendance (insert_attendance sample_db 42 ''2024-01-15'' None)) = [42] \<and>
   fst (getOrCreateAttendanceRecord sample_env_unique sample_db_meena 9 ''2024-01-15'') =
     Inl (Error ''duplicate key value violates unique constraint'') \<and>
   (\<exists>db1 q. db_fails sample_env_unique db1 q =
              Some (Error ''duplicate key value violates unique constraint''))"
proof -
  let ?dt = "''2024-01-15''"
  let ?a = "new_attendance_row sample_db 7 ?dt (Some 3)"
  let ?e = "\<lparr>e_emp_id = 7, e_name = Some ''Asha'', e_emp_code = Some ''E7'',
             e_face_id = Some ''face-a'', e_face_embedding = Some ''faces/7.jpg'',
             e_designation_id = Some 1, e_ward_id = Some 3\<rparr>"
  let ?d = "\<lparr>d_designation_id = 1, d_designation_name = Some ''Sweeper''\<rparr>"
  let ?w = "\<lparr>w_ward_id = 3, w_ward_name = Some ''Ward 3''\<rparr>"
  have seq: "attendance_id_seq sample_db = 1" and att: "attendance sample_db = []"
    by (simp_all add: sample_db_def)
  have h1: "(7::int) \<noteq> 0 \<and>
      db_fails sample_env sample_db_open (SelectAttendanceJoin 7 ?dt) = None \<and>
      ?a \<in> set (attendance sample_db_open) \<and> a_emp_id ?a = 7 \<and> a_date ?a = ?dt \<and>
      ?e \<in> set (employee sample_db_open) \<and> e_emp_id ?e = 7 \<and>
      ?d \<in> set (designation sample_db_open) \<and> e_designation_id ?e = Some (d_designation_id ?d) \<and>
      ?w \<in> set (wards sample_db_open) \<and> e_ward_id ?e = Some (w_ward_id ?w)"
    by (simp add: sample_env_def sample_db_open_def sample_db_def new_attendance_row_def)
  note a = getOrCreate_behaviour [where emp = 7 and ev = sample_env and db = sample_db_open
      and dt = ?dt and a = ?a and e = ?e and d = ?d and w = ?w,
      THEN conjunct1, THEN mp, OF h1]
  have a': "getOrCreateAttendanceRecord sample_env sample_db_open 7 ?dt =
     (Inr sample_att1, sample_db_open)"
    by (simp add: getOrCreateAttendanceRecord_def run_def sample_read_open sample_env_def)
  have h2: "(7::int) \<noteq> 0 \<and>
      db_fails sample_env sample_db (SelectAttendanceJoin 7 ?dt) = None \<and>
      filter (\<lambda>a. a_emp_id a = 7 \<and> a_date a = ?dt) (attendance sample_db) = [] \<and>
      db_fails sample_env sample_db (SelectWard 7) = None \<and>
      Some 3 = (case filter (\<lambda>e. e_emp_id e = 7) (employee sample_db) of
                  [] \<Rightarrow> None | e # _ \<Rightarrow> e_ward_id e) \<and>
      db_fails sample_env sample_db (InsertAttendance 7 ?dt (Some 3)) = None \<and>
      db_fails sample_env (insert_attendance sample_db 7 ?dt (Some 3))
        (SelectEmployeeDetails 7) = None"
    by (simp add: sample_env_def sample_db_def)
  note b = getOrCreate_behaviour [where emp = 7 and ev = sample_env and db = sample_db
      and dt = ?dt and sw = "Some 3",
      THEN conjunct2, THEN conjunct1, THEN mp, OF h2]
  have h3: "(42::int) \<noteq> 0 \<and> 42 \<notin> set (map e_emp_id (employee sample_db)) \<and>
      db_fails sample_env sample_db (SelectAttendanceJoin 42 ?dt) = None \<and>
      filter (\<lambda>a. a_emp_id a = 42 \<and> a_date a = ?dt) (attendance sample_db) = [] \<and>
      db_fails sample_env sample_db (SelectWard 42) = None \<and>
      db_fails sample_env sample_db (InsertAttendance 42 ?dt None) = None \<and>
      db_fails sample_env (insert_attendance sample_db 42 ?dt None)
        (SelectEmployeeDetails 42) = None"
    by (simp add: sample_env_def sample_db_def)
  note c = getOrCreate_behaviour [where emp = 42 and ev = sample_env and db = sample_db
      and dt = ?dt,
      THEN conjunct2, THEN conjunct2, THEN conjunct1, THEN mp, OF h3]
  have f: "fst (getOrCreateAttendanceRecord sample_env_unique sample_db_meena 9 ?dt) =
             Inl (Error ''duplicate key value violates unique constraint'')"
    by (simp add: sample_meena_second_unique)
  have ne: "Error ''duplicate key value violates unique constraint'' \<noteq>
            Error ''Employee ID is required''"
    by (simp add: Error_def)
  from getOrCreate_behaviour [where emp = 9 and ev = sample_env_unique and db = sample_db_meena
      and dt = ?dt and err = "Error ''duplicate key value violates unique constraint''",
      THEN conjunct2, THEN conjunct2, THEN conjunct2, THEN mp, OF f] ne
  have d: "\<exists>db1 q. db_fails sample_env_unique db1 q =
             Some (Error ''duplicate key value violates unique constraint'')"
    by blast
  from a a' b c seq att f d show ?thesis by simp
qed

subsection \<open>Reading a written record back\<close>

lemma manual_punch_eval:
  assumes "db_fails ev db (UpdateAttendance (pt = ''IN'') aid) = None"
    and "filter (\<lambda>a. a_attendance_id a = aid) (attendance db) = a # as"
    and "\<not> requireFaceMatch opts"
  shows "processPunch ev db aid pt None uid loc opts =
     (Inr \<lparr>row = punch_row (pt = ''IN'') (now ev) loc None (resolvePunchActor ev db uid) a,
           face_similarity = None, face_match_threshold = None\<rparr>,
      update_attendance db (pt = ''IN'') (now ev) loc None (resolvePunchActor ev db uid) aid)"
  using applyPunch_ok [OF assms(1,2), of uid loc None None] assms(3)
  by (simp add: processPunch_def uploadEvidence_def verifyFace_not_required)

lemma to_char_day: "to_char_hh12_mi_am (t + 86400) = to_char_hh12_mi_am t"
proof -
  have h: "(t + 86400) div 3600 = t div 3600 + 24" by simp
  have m: "(t + 86400) div 60 = t div 60 + 1440" by simp
  have "(t div 3600 + 24 * 1) mod 24 = t div 3600 mod 24" by (rule mod_mult_self2)
  then have h': "(t + 86400) div 3600 mod 24 = t div 3600 mod 24" using h by simp
  have "(t div 60 + 60 * 24) mod 60 = t div 60 mod 60" by (rule mod_mult_self2)
  then have m': "(t + 86400) div 60 mod 60 = t div 60 mod 60" using m by simp
  show ?thesis
    by (simp only: to_char_hh12_mi_am_def Let_def h' m')
qed

lemma select_attendance_join_elem:
  assumes "r \<in> set (select_attendance_join db emp dt)"
  shows "\<exists>a\<in>set (attendance db). \<exists>e d w. r = attendance_view a e d w"
  using assms by (auto simp: select_attendance_join_def split: if_splits)

lemma processPunch_written:
  assumes "processPunch ev db aid pt img uid loc opts = (Inr written, db')"
  shows "\<exists>u actor. db' = update_attendance db (pt = ''IN'') (now ev) loc u actor aid \<and>
           (\<exists>a\<in>set (attendance db). a_attendance_id a = aid \<and>
              row written = punch_row (pt = ''IN'') (now ev) loc u actor a)"
proof -
  from assms obtain u meta where
    ap: "applyPunch ev db aid pt uid loc u meta = (Inr written, db')"
    by (auto simp: processPunch_def Let_def split: sum.splits)
  let ?actor = "resolvePunchActor ev db uid"
  let ?db = "update_attendance db (pt = ''IN'') (now ev) loc u ?actor aid"
  from ap have ok: "db_fails ev db (UpdateAttendance (pt = ''IN'') aid) = None"
    by (auto simp: applyPunch_def Let_def PUNCH_TYPES_IN_def split: option.splits)
  show ?thesis
  proof (cases "filter (\<lambda>a. a_attendance_id a = aid) (attendance db)")
    case Nil
    with ap ok show ?thesis
      by (simp add: applyPunch_def Let_def PUNCH_TYPES_IN_def filter_update_attendance)
  next
    case (Cons a as)
    from applyPunch_ok [OF ok Cons, of uid loc u meta] ap
    have w: "row written = punch_row (pt = ''IN'') (now ev) loc u ?actor a" and d: "db' = ?db"
      by auto
    from Cons have "a \<in> set (filter (\<lambda>a. a_attendance_id a = aid) (attendance db))" by simp
    then have "a \<in> set (attendance db)" "a_attendance_id a = aid" by auto
    with w d show ?thesis by blast
  qed
qed

lemma update_attendance_unique:
  assumes "distinct (map a_attendance_id (attendance db))"
    and "a \<in> set (attendance db)" and "a_attendance_id a = aid"
    and "a' \<in> set (attendance (update_attendance db b t loc u actor aid))"
    and "a_attendance_id a' = aid"
  shows "a' = punch_row b t loc u actor a"
proof -
  from assms(4) obtain x where x: "x \<in> set (attendance db)"
    and a': "a' = (if a_attendance_id x = aid then punch_row b t loc u actor x else x)"
    by (auto simp: update_attendance_def)
  with assms(5) have "a_attendance_id x = aid"
    by (auto simp: punch_row_id split: if_splits)
  with assms(1,2,3) x have "x = a"
    by (auto simp: distinct_map inj_on_def)
  with a' assms(3) show ?thesis by simp
qed

lemma sample_created_rows:
  "filter (\<lambda>a. a_attendance_id a = 1) (attendance sample_db_created) =
     [new_attendance_row sample_db 7 ''2024-01-15'' (Some 3)]"
  by (simp add: sample_db_created_def insert_attendance_def new_attendance_row_def sample_db_def)

lemma sample_manual_punch:
  "processPunch sample_env sample_db_created 1 ''IN'' None (JStr ''1'') sample_location sample_manual =
     (Inr \<lparr>row = punch_row True 32700 sample_location None (Some 1)
                   (new_attendance_row sample_db 7 ''2024-01-15'' (Some 3)),
           face_similarity = None, face_match_threshold = None\<rparr>,
      update_attendance sample_db_created True 32700 sample_location None (Some 1) 1)"
  "processPunch sample_env_later sample_db_created 1 ''IN'' None (JStr ''1'') sample_location sample_manual =
     (Inr \<lparr>row = punch_row True 32701 sample_location None (Some 1)
                   (new_attendance_row sample_db 7 ''2024-01-15'' (Some 3)),
           face_similarity = None, face_match_threshold = None\<rparr>,
      update_attendance sample_db_created True 32701 sample_location None (Some 1) 1)"
proof -
  have ok: "db_fails sample_env sample_db_created (UpdateAttendance (''IN'' = ''IN'') 1) = None"
    "db_fails sample_env_later sample_db_created (UpdateAttendance (''IN'' = ''IN'') 1) = None"
    by (simp_all add: sample_env_later_def sample_env_def)
  have m: "\<not> requireFaceMatch sample_manual" by (simp add: sample_manual_def)
  have actor: "resolvePunchActor sample_env sample_db_created (JStr ''1'') = Some 1"
    "resolvePunchActor sample_env_later sample_db_created (JStr ''1'') = Some 1"
    by (simp_all add: resolvePunchActor_def normalizeId_def Number_def run_def select_user_def
        sample_env_later_def sample_env_def sample_Number_def digit_value_def
        sample_db_created_def insert_attendance_tables sample_db_def)
  have n: "now sample_env = 32700" "now sample_env_later = 32701"
    by (simp_all add: sample_env_later_def sample_env_def)
  from manual_punch_eval [OF ok(1) sample_created_rows m, of "JStr ''1''" sample_location]
  show "processPunch sample_env sample_db_created 1 ''IN'' None (JStr ''1'') sample_location sample_manual =
     (Inr \<lparr>row = punch_row True 32700 sample_location None (Some 1)
                   (new_attendance_row sample_db 7 ''2024-01-15'' (Some 3)),
           face_similarity = None, face_match_threshold = None\<rparr>,
      update_attendance sample_db_created True 32700 sample_location None (Some 1) 1)"
    by (simp add: actor n)
  from manual_punch_eval [OF ok(2) sample_created_rows m, of "JStr ''1''" sample_location]
  show "processPunch sample_env_later sample_db_created 1 ''IN'' None (JStr ''1'') sample_location sample_manual =
     (Inr \<lparr>row = punch_row True 32701 sample_location None (Some 1)
                   (new_attendance_row sample_db 7 ''2024-01-15'' (Some 3)),
           face_similarity = None, face_match_threshold = None\<rparr>,
      update_attendance sample_db_created True 32701 sample_location None (Some 1) 1)"
    by (simp add: actor n)
qed

lemma sample_read_back:
  "select_attendance_join
     (update_attendance sample_db_created True 32700 sample_location None (Some 1) 1) 7 ''2024-01-15'' =
     [sample_view_punched]"
  "select_attendance_join
     (update_attendance sample_db_created True 32701 sample_location None (Some 1) 1) 7 ''2024-01-15'' =
     [sample_view_punched]"
  by (simp_all add: select_attendance_join_def update_attendance_def sample_db_created_def
      insert_attendance_def sample_db_def new_attendance_row_def punch_row_def attendance_view_def
      sample_view_punched_def sample_att1_def sample_location_def to_char_hh12_mi_am_def
      two_digits_def digit_def Let_def)

text \<open>
  C7 as stated fails. Two manual punch-ins of the same record, written one second apart
  (punch-in times 32700 and 32701), are read back by get-or-create as the same record, with
  the punch-in time \<open>09:05 AM\<close>: the text read back is not the timestamp written and
  does not determine it.
\<close>

theorem read_back_loses_timestamp:
  "processPunch sample_env sample_db_created 1 ''IN'' None (JStr ''1'') sample_location sample_manual =
     (Inr \<lparr>row = punch_row True 32700 sample_location None (Some 1)
                   (new_attendance_row sample_db 7 ''2024-01-15'' (Some 3)),
           face_similarity = None, face_match_threshold = None\<rparr>,
      update_attendance sample_db_created True 32700 sample_location None (Some 1) 1) \<and>
   processPunch sample_env_later sample_db_created 1 ''IN'' None (JStr ''1'') sample_location sample_manual =
     (Inr \<lparr>row = punch_row True 32701 sample_location None (Some 1)
                   (new_attendance_row sample_db 7 ''2024-01-15'' (Some 3)),
           face_similarity = None, face_match_threshold = None\<rparr>,
      update_attendance sample_db_created True 32701 sample_location None (Some 1) 1) \<and>
   a_punch_in_time (punch_row True 32700 sample_location None (Some 1)
                      (new_attendance_row sample_db 7 ''2024-01-15'' (Some 3))) = Some 32700 \<and>
   a_punch_in_time (punch_row True 32701 sample_location None (Some 1)
                      (new_attendance_row sample_db 7 ''2024-01-15'' (Some 3))) = Some 32701 \<and>
   fst (getOrCreateAttendanceRecord sample_env
          (update_attendance sample_db_created True 32700 sample_location None (Some 1) 1)
          7 ''2024-01-15'') = Inr sample_view_punched \<and>
   fst (getOrCreateAttendanceRecord sample_env
          (update_attendance sample_db_created True 32701 sample_location None (Some 1) 1)
          7 ''2024-01-15'') = Inr sample_view_punched \<and>
   punch_in_time sample_view_punched = Some ''09:05 AM''"
proof -
  have r: "fst (getOrCreateAttendanceRecord sample_env
          (update_attendance sample_db_created True 32700 sample_location None (Some 1) 1)
          7 ''2024-01-15'') = Inr sample_view_punched"
    "fst (getOrCreateAttendanceRecord sample_env
          (update_attendance sample_db_created True 32701 sample_location None (Some 1) 1)
          7 ''2024-01-15'') = Inr sample_view_punched"
    by (simp_all add: getOrCreateAttendanceRecord_def run_def sample_read_back sample_env_def)
  have t: "a_punch_in_time (punch_row True t sample_location None (Some 1)
                      (new_attendance_row sample_db 7 ''2024-01-15'' (Some 3))) = Some t" for t
    by (simp add: punch_row_def)
  have v: "punch_in_time sample_view_punched = Some ''09:05 AM''"
    by (simp add: sample_view_punched_def)
  from sample_manual_punch r t v show ?thesis by simp
qed

text \<open>
  C7, amended. For an attendance record written by the punch processor (attendance ids
  being unique in the store), when the read query of get-or-create returns that record's
  row first, get-or-create returns it with the latitude, longitude, address and evidence
  reference of both punches identical to those of the written row, and with each punch
  time rendered by \<open>TO_CHAR(.., 'HH12:MI AM')\<close>: hour and minute on the 12-hour clock,
  the same text for the same time of any day.
\<close>

theorem read_back_fields:
  "processPunch ev db aid pt img uid loc opts = (Inr written, db') \<and>
   distinct (map a_attendance_id (attendance db)) \<and>
   emp \<noteq> 0 \<and> db_fails ev' db' (SelectAttendanceJoin emp dt) = None \<and>
   select_attendance_join db' emp dt = r # rs \<and> attendance_id r = aid \<longrightarrow>
     getOrCreateAttendanceRecord ev' db' emp dt = (Inr r, db') \<and>
     latitude_in r = a_latitude_in (row written) \<and>
     longitude_in r = a_longitude_in (row written) \<and>
     in_address r = a_in_address (row written) \<and>
     latitude_out r = a_latitude_out (row written) \<and>
     longitude_out r = a_longitude_out (row written) \<and>
     out_address r = a_out_address (row written) \<and>
     punch_in_image r = a_punch_in_image (row written) \<and>
     punch_out_image r = a_punch_out_image (row written) \<and>
     punch_in_time r = map_option to_char_hh12_mi_am (a_punch_in_time (row written)) \<and>
     punch_out_time r = map_option to_char_hh12_mi_am (a_punch_out_time (row written)) \<and>
     to_char_hh12_mi_am (t + 86400) = to_char_hh12_mi_am t"
proof (intro impI, elim conjE)
  assume p: "processPunch ev db aid pt img uid loc opts = (Inr written, db')"
    and d: "distinct (map a_attendance_id (attendance db))"
    and e: "emp \<noteq> 0" and ok: "db_fails ev' db' (SelectAttendanceJoin emp dt) = None"
    and s: "select_attendance_join db' emp dt = r # rs" and i: "attendance_id r = aid"
  from processPunch_written [OF p] obtain u actor a where
    db': "db' = update_attendance db (pt = ''IN'') (now ev) loc u actor aid"
    and a: "a \<in> set (attendance db)" "a_attendance_id a = aid"
    and w: "row written = punch_row (pt = ''IN'') (now ev) loc u actor a"
    by blast
  from s have "r \<in> set (select_attendance_join db' emp dt)" by simp
  from select_attendance_join_elem [OF this] obtain a' e' d' w' where
    a': "a' \<in> set (attendance db')" and r: "r = attendance_view a' e' d' w'"
    by blast
  from r i have "a_attendance_id a' = aid" by (simp add: attendance_view_def)
  with update_attendance_unique [OF d a] a' db' w have "a' = row written" by simp
  with r have v: "r = attendance_view (row written) e' d' w'" by simp
  have g: "getOrCreateAttendanceRecord ev' db' emp dt = (Inr r, db')"
    using e ok s by (simp add: getOrCreateAttendanceRecord_def run_def)
  show "getOrCreateAttendanceRecord ev' db' emp dt = (Inr r, db') \<and>
     latitude_in r = a_latitude_in (row written) \<and>
     longitude_in r = a_longitude_in (row written) \<and>
     in_address r = a_in_address (row written) \<and>
     latitude_out r = a_latitude_out (row written) \<and>
     longitude_out r = a_longitude_out (row written) \<and>
     out_address r = a_out_address (row written) \<and>
     punch_in_image r = a_punch_in_image (row written) \<and>
     punch_out_image r = a_punch_out_image (row written) \<and>
     punch_in_time r = map_option to_char_hh12_mi_am (a_punch_in_time (row written)) \<and>
     punch_out_time r = map_option to_char_hh12_mi_am (a_punch_out_time (row written)) \<and>
     to_char_hh12_mi_am (t + 86400) = to_char_hh12_mi_am t"
    using g by (simp add: v attendance_view_def to_char_day)
qed

theorem read_back_fields_witness:
  "getOrCreateAttendanceRecord sample_env
     (update_attendance sample_db_created True 32700 sample_location None (Some 1) 1)
     7 ''2024-01-15'' =
     (Inr sample_view_punched,
      update_attendance sample_db_created True 32700 sample_location None (Some 1) 1) \<and>
   latitude_in sample_view_punched = Some ''18.52'' \<and>
   longitude_in sample_view_punched = Some ''73.85'' \<and>
   in_address sample_view_punched = Some ''Ward 3 office'' \<and>
   punch_in_image sample_view_punched = None \<and>
   punch_in_time sample_view_punched = Some (to_char_hh12_mi_am 32700) \<and>
   punch_out_time sample_view_punched = None"
proof -
  let ?w = "\<lparr>row = punch_row True 32700 sample_location None (Some 1)
                   (new_attendance_row sample_db 7 ''2024-01-15'' (Some 3)),
           face_similarity = None, face_match_threshold = None\<rparr>"
  let ?db = "update_attendance sample_db_created True 32700 sample_location None (Some 1) 1"
  have h: "processPunch sample_env sample_db_created 1 ''IN'' None (JStr ''1'') sample_location
             sample_manual = (Inr ?w, ?db) \<and>
      distinct (map a_attendance_id (attendance sample_db_created)) \<and>
      (7::int) \<noteq> 0 \<and> db_fails sample_env ?db (SelectAttendanceJoin 7 ''2024-01-15'') = None \<and>
      select_attendance_join ?db 7 ''2024-01-15'' = sample_view_punched # [] \<and>
      attendance_id sample_view_punched = 1"
    using sample_manual_punch(1) sample_read_back(1)
    by (simp add: sample_db_created_def insert_attendance_def sample_db_def new_attendance_row_def
        sample_env_def sample_view_punched_def sample_att1_def)
  from read_back_fields [of sample_env sample_db_created 1 "''IN''" None "JStr ''1''"
      sample_location sample_manual ?w ?db 7 sample_env "''2024-01-15''" sample_view_punched "[]" 0,
      THEN mp, OF h]
  show ?thesis
    by (simp add: punch_row_def new_attendance_row_def sample_location_def)
qed

end
